theory Spec2Isabelle
  imports Main "HOL-Library.Word"
begin

unbundle bit_operations_syntax

section \<open>Game Genie codes (gamegenie.js)\<close>

text \<open>
  JavaScript numbers that hold small integers are modelled as \<open>int\<close>; on such values the
  operators \<^verbatim>\<open>&\<close>, \<^verbatim>\<open>>>\<close> and \<^verbatim>\<open><<\<close> agree with \<open>AND\<close>, \<open>drop_bit\<close> and \<open>push_bit\<close>.
  Strings are ASCII strings. An absent key (\<^verbatim>\<open>undefined\<close>) is \<open>None\<close>.
\<close>

definition LETTER_VALUES :: string where
  "LETTER_VALUES = ''APZLGITYEOXUKSVN''"

text \<open>\<^verbatim>\<open>String.prototype.indexOf\<close> for a one-character needle: \<open>-1\<close> when absent.\<close>

fun indexOf :: "string \<Rightarrow> char \<Rightarrow> int" where
  "indexOf [] c = -1"
| "indexOf (x # xs) c =
     (if x = c then 0 else (let r = indexOf xs c in if r < 0 then -1 else r + 1))"

definition toDigit :: "char \<Rightarrow> int" where
  "toDigit letter = indexOf LETTER_VALUES letter"

text \<open>
  \<^verbatim>\<open>LETTER_VALUES.substr(digit, 1)\<close>: a negative start counts from the end of the string
  (and is clamped to 0), a start past the end gives the empty string.
\<close>

definition toLetter :: "int \<Rightarrow> string" where
  "toLetter digit =
     (let len = int (length LETTER_VALUES);
          start = (if digit < 0 then max (len + digit) 0 else digit)
      in if start < len then [LETTER_VALUES ! nat start] else [])"

definition toUpperCase :: "char \<Rightarrow> char" where
  "toUpperCase c =
     (let n = (of_char c :: nat) in if 97 \<le> n \<and> n \<le> 122 then char_of (n - 32) else c)"

record patch =
  p_value :: int
  p_addr :: int
  p_wantskey :: bool
  p_key :: "int option"

text \<open>
  Reading \<^verbatim>\<open>digits[i]\<close> past the end of the array gives \<^verbatim>\<open>undefined\<close>, which every
  use in \<^verbatim>\<open>decode\<close> feeds to \<^verbatim>\<open>&\<close> or \<^verbatim>\<open>>>\<close>, where it counts as 0.
\<close>

definition dig :: "int list \<Rightarrow> nat \<Rightarrow> int" where
  "dig digits i = (if i < length digits then digits ! i else 0)"

text \<open>
  \<^verbatim>\<open>decode\<close> hands any code containing a colon to \<^verbatim>\<open>decodeHex\<close>; that parser is a
  parameter here, the letter decoder is the code of \<^verbatim>\<open>decode\<close> itself.
\<close>

definition decode :: "(string \<Rightarrow> patch option) \<Rightarrow> string \<Rightarrow> patch option" where
  "decode decodeHex code =
     (if CHR '':'' \<in> set code then decodeHex code
      else
        let digits = map toDigit (map toUpperCase code);
            d = dig digits;
            value = push_bit 4 (d 0 AND 8) + push_bit 4 (d 1 AND 7) + (d 0 AND 7);
            addr = push_bit 12 (d 3 AND 7) + push_bit 8 (d 4 AND 8) + push_bit 8 (d 5 AND 7)
                 + push_bit 4 (d 1 AND 8) + push_bit 4 (d 2 AND 7) + (d 3 AND 8) + (d 4 AND 7);
            wantskey = (drop_bit 3 (d 2) \<noteq> 0)
        in if length digits = 8
           then Some \<lparr> p_value = value + (d 7 AND 8), p_addr = addr, p_wantskey = wantskey,
                        p_key = Some (push_bit 4 (d 6 AND 8) + push_bit 4 (d 7 AND 7)
                                      + (d 5 AND 8) + (d 6 AND 7)) \<rparr>
           else Some \<lparr> p_value = value + (d 5 AND 8), p_addr = addr, p_wantskey = wantskey,
                        p_key = None \<rparr>)"

definition encode :: "int \<Rightarrow> int \<Rightarrow> int option \<Rightarrow> bool \<Rightarrow> string" where
  "encode addr value key wantskey =
     (let d0 = (value AND 7) + (drop_bit 4 value AND 8);
          d1 = (drop_bit 4 value AND 7) + (drop_bit 4 addr AND 8);
          d2 = drop_bit 4 addr AND 7;
          d3 = drop_bit 12 addr + (addr AND 8);
          d4 = (addr AND 7) + (drop_bit 8 addr AND 8);
          d5 = drop_bit 8 addr AND 7;
          digits = (case key of
                      None \<Rightarrow> [d0, d1, (if wantskey then d2 + 8 else d2), d3, d4,
                                d5 + (value AND 8)]
                    | Some k \<Rightarrow> [d0, d1, d2 + 8, d3, d4, d5 + (k AND 8),
                                 (k AND 7) + (drop_bit 4 k AND 8),
                                 (drop_bit 4 k AND 7) + (value AND 8)])
      in concat (map toLetter digits))"

section \<open>PPU memory and registers (ppu/index.js)\<close>

text \<open>
  Bytes, addresses and counters are natural numbers; the scanline counter and the sprite-0
  hit coordinates can be \<open>-1\<close> and are integers. A typed array (\<^verbatim>\<open>Uint8Array\<close>) is a
  function from indices to values, with the reduction modulo 256 that a store into it
  performs written out. The record holds the PPU fields that the register interface and
  the frame timing read or write. The frame buffers and the decoded caches that only the
  renderer reads (\<^verbatim>\<open>buffer\<close>, \<^verbatim>\<open>bgbuffer\<close>, \<^verbatim>\<open>pixrendered\<close>, \<^verbatim>\<open>ptTile\<close>, \<^verbatim>\<open>nameTable\<close>,
  \<^verbatim>\<open>imgPalette\<close>, \<^verbatim>\<open>sprPalette\<close>, \<^verbatim>\<open>scantile\<close>, \<^verbatim>\<open>attrib\<close>) are not part of it, so the
  functions below leave out the statements that only repaint them.
\<close>

record ppu_state =
  vramMem :: "nat \<Rightarrow> nat"
  spriteMem :: "nat \<Rightarrow> nat"
  vramMirrorTable :: "nat \<Rightarrow> nat"
  vramAddress :: nat
  vramTmpAddress :: nat
  vramBufferedReadValue :: nat
  firstWrite :: bool
  openBusLatch :: nat
  openBusDecayFrames :: nat
  sramAddress :: nat
  f_nmiOnVblank :: nat
  f_spriteSize :: nat
  f_bgPatternTable :: nat
  f_spPatternTable :: nat
  f_addrInc :: nat
  f_nTblAddress :: nat
  f_color :: nat
  f_spVisibility :: nat
  f_bgVisibility :: nat
  f_spClipping :: nat
  f_bgClipping :: nat
  f_dispType :: nat
  cntFV :: nat
  cntV :: nat
  cntH :: nat
  cntVT :: nat
  cntHT :: nat
  regFV :: nat
  regV :: nat
  regH :: nat
  regVT :: nat
  regHT :: nat
  regFH :: nat
  regS :: nat
  scanline :: int
  lastRenderedScanline :: int
  curX :: int
  sprX :: "nat \<Rightarrow> nat"
  sprY :: "nat \<Rightarrow> nat"
  sprTile :: "nat \<Rightarrow> nat"
  sprCol :: "nat \<Rightarrow> nat"
  vertFlip :: "nat \<Rightarrow> nat"
  horiFlip :: "nat \<Rightarrow> nat"
  bgPriority :: "nat \<Rightarrow> nat"
  spr0HitX :: int
  spr0HitY :: int
  hitSpr0 :: bool
  requestEndFrame :: bool
  nmiCounter :: int
  dummyCycleToggle :: bool

datatype ppu_error = InvalidVRAMAddress nat

text \<open>
  \<^verbatim>\<open>checkSprite0(scan)\<close> resets the hit coordinates to \<open>-1\<close> and then looks for the first
  pixel of sprite 0 on line \<open>scan\<close> that lies over a rendered background pixel. That
  search reads the frame buffer, so its answer is the parameter \<open>hit\<close>: the column of the
  pixel found, if any.
\<close>

type_synonym sprite0_test = "ppu_state \<Rightarrow> int \<Rightarrow> int option"

definition checkSprite0 :: "sprite0_test \<Rightarrow> int \<Rightarrow> ppu_state \<Rightarrow> bool \<times> ppu_state" where
  "checkSprite0 hit scan p =
     (case hit p scan of
        None \<Rightarrow> (False, p\<lparr>spr0HitX := -1, spr0HitY := -1\<rparr>)
      | Some x \<Rightarrow> (True, p\<lparr>spr0HitX := x, spr0HitY := scan\<rparr>))"

text \<open>\<^verbatim>\<open>triggerRendering\<close>: the repainting itself is display state; the bookkeeping remains.\<close>

definition triggerRendering :: "ppu_state \<Rightarrow> ppu_state" where
  "triggerRendering p =
     (if scanline p \<ge> 21 \<and> scanline p \<le> 260
      then p\<lparr>lastRenderedScanline := scanline p - 21\<rparr> else p)"

definition regsFromAddress :: "ppu_state \<Rightarrow> ppu_state" where
  "regsFromAddress p =
     (let address = drop_bit 8 (vramTmpAddress p) AND 0xFF;
          p1 = p\<lparr>regFV := drop_bit 4 address AND 7,
                 regV := drop_bit 3 address AND 1,
                 regH := drop_bit 2 address AND 1,
                 regVT := (regVT p AND 7) OR push_bit 3 (address AND 3)\<rparr>;
          address2 = vramTmpAddress p AND 0xFF
      in p1\<lparr>regVT := (regVT p1 AND 24) OR (drop_bit 5 address2 AND 7),
             regHT := address2 AND 31\<rparr>)"

definition cntsFromAddress :: "ppu_state \<Rightarrow> ppu_state" where
  "cntsFromAddress p =
     (let address = drop_bit 8 (vramAddress p) AND 0xFF;
          p1 = p\<lparr>cntFV := drop_bit 4 address AND 3,
                 cntV := drop_bit 3 address AND 1,
                 cntH := drop_bit 2 address AND 1,
                 cntVT := (cntVT p AND 7) OR push_bit 3 (address AND 3)\<rparr>;
          address2 = vramAddress p AND 0xFF
      in p1\<lparr>cntVT := (cntVT p1 AND 24) OR (drop_bit 5 address2 AND 7),
             cntHT := address2 AND 31\<rparr>)"

definition regsToAddress :: "ppu_state \<Rightarrow> ppu_state" where
  "regsToAddress p =
     (let b1 = push_bit 4 (regFV p AND 7) OR push_bit 3 (regV p AND 1)
               OR push_bit 2 (regH p AND 1) OR (drop_bit 3 (regVT p) AND 3);
          b2 = push_bit 5 (regVT p AND 7) OR (regHT p AND 31)
      in p\<lparr>vramTmpAddress := (push_bit 8 b1 OR b2) AND 0x7FFF\<rparr>)"

definition cntsToAddress :: "ppu_state \<Rightarrow> ppu_state" where
  "cntsToAddress p =
     (let b1 = push_bit 4 (cntFV p AND 7) OR push_bit 3 (cntV p AND 1)
               OR push_bit 2 (cntH p AND 1) OR (drop_bit 3 (cntVT p) AND 3);
          b2 = push_bit 5 (cntVT p AND 7) OR (cntHT p AND 31)
      in p\<lparr>vramAddress := (push_bit 8 b1 OR b2) AND 0x7FFF\<rparr>)"

definition mirroredLoad :: "nat \<Rightarrow> ppu_state \<Rightarrow> nat" where
  "mirroredLoad address p = vramMem p (vramMirrorTable p address)"

text \<open>
  \<^verbatim>\<open>writeMem\<close> stores the byte and refreshes the decoded caches. Of the refreshes only the
  name-table one reaches modelled state: \<^verbatim>\<open>nameTableWrite\<close> ends with
  \<^verbatim>\<open>checkSprite0(scanline - 20)\<close>. \<^verbatim>\<open>vramMem\<close> has \<open>0x8000\<close> entries; a store past its end
  is dropped.
\<close>

definition writeMem :: "sprite0_test \<Rightarrow> nat \<Rightarrow> nat \<Rightarrow> ppu_state \<Rightarrow> ppu_state" where
  "writeMem hit address value p =
     (let p1 = (if address < 0x8000
                then p\<lparr>vramMem := (vramMem p)(address := value mod 256)\<rparr> else p)
      in if address < 0x2000 then p1
         else if (0x2000 \<le> address \<and> address < 0x23C0) \<or> (0x2400 \<le> address \<and> address < 0x27C0)
               \<or> (0x2800 \<le> address \<and> address < 0x2BC0) \<or> (0x2C00 \<le> address \<and> address < 0x2FC0)
         then snd (checkSprite0 hit (scanline p1 - 20) p1)
         else p1)"

definition mirroredWrite :: "sprite0_test \<Rightarrow> nat \<Rightarrow> nat \<Rightarrow> ppu_state \<Rightarrow> ppu_error + ppu_state" where
  "mirroredWrite hit address value p =
     (if address \<ge> 0x3F00 \<and> address < 0x3F20 then
        (if address = 0x3F00 \<or> address = 0x3F10
         then Inr (writeMem hit 0x3F10 value (writeMem hit 0x3F00 value p))
         else if address = 0x3F04 \<or> address = 0x3F14
         then Inr (writeMem hit 0x3F14 value (writeMem hit 0x3F04 value p))
         else if address = 0x3F08 \<or> address = 0x3F18
         then Inr (writeMem hit 0x3F18 value (writeMem hit 0x3F08 value p))
         else if address = 0x3F0C \<or> address = 0x3F1C
         then Inr (writeMem hit 0x3F1C value (writeMem hit 0x3F0C value p))
         else Inr (writeMem hit address value p))
      else if address < 0x8000
      then Inr (writeMem hit (vramMirrorTable p address) value p)
      else Inl (InvalidVRAMAddress address))"

text \<open>
  Register \<^verbatim>\<open>$2007\<close>, read. The mapper hook \<^verbatim>\<open>latchAccess\<close> does nothing in mapper 0 and is
  left out. The result is the value returned to the CPU.
\<close>

definition vramLoad :: "ppu_state \<Rightarrow> nat \<times> ppu_state" where
  "vramLoad p0 =
     (let p = regsToAddress (cntsToAddress p0) in
      if vramAddress p \<le> 0x3EFF then
        (let tmp = vramBufferedReadValue p;
             p1 = (if vramAddress p < 0x2000
                   then p\<lparr>vramBufferedReadValue := vramMem p (vramAddress p)\<rparr>
                   else p\<lparr>vramBufferedReadValue := mirroredLoad (vramAddress p) p\<rparr>);
             p2 = p1\<lparr>vramAddress := vramAddress p1 + (if f_addrInc p1 = 1 then 32 else 1)\<rparr>
         in (tmp, regsFromAddress (cntsFromAddress p2)))
      else
        (let palIdx0 = vramAddress p AND 0x1F;
             palIdx = (if palIdx0 AND 0x13 = 0x10 then palIdx0 AND 0x0F else palIdx0);
             tmp = (vramMem p (0x3F00 + palIdx) AND 0x3F) OR (openBusLatch p AND 0xC0);
             p1 = p\<lparr>vramBufferedReadValue := mirroredLoad (vramAddress p AND 0x2FFF) p\<rparr>;
             p2 = p1\<lparr>vramAddress := vramAddress p1 + (if f_addrInc p1 = 1 then 32 else 1)\<rparr>
         in (tmp, regsFromAddress (cntsFromAddress p2))))"

text \<open>
  Register \<^verbatim>\<open>$2007\<close>, write. \<open>vromCount\<close> is the number of CHR-ROM banks of the cartridge
  (\<^verbatim>\<open>nes.rom.vromCount\<close>).
\<close>

definition vramWrite :: "sprite0_test \<Rightarrow> nat \<Rightarrow> nat \<Rightarrow> ppu_state \<Rightarrow> ppu_error + ppu_state" where
  "vramWrite hit vromCount value p0 =
     (let p = regsToAddress (cntsToAddress (triggerRendering p0));
          r = (if vramAddress p \<ge> 0x2000 then mirroredWrite hit (vramAddress p) value p
               else if vromCount = 0 then Inr (writeMem hit (vramAddress p) value p)
               else Inr p)
      in case r of
           Inl e \<Rightarrow> Inl e
         | Inr p1 \<Rightarrow>
             Inr (cntsFromAddress (regsFromAddress
                    (p1\<lparr>vramAddress := vramAddress p1 + (if f_addrInc p1 = 1 then 32 else 1)\<rparr>))))"

text \<open>Register \<^verbatim>\<open>$2006\<close>.\<close>

definition writeVRAMAddress :: "sprite0_test \<Rightarrow> nat \<Rightarrow> ppu_state \<Rightarrow> ppu_state" where
  "writeVRAMAddress hit address p =
     (let p1 = (if firstWrite p
                then p\<lparr>regFV := drop_bit 4 address AND 3,
                       regV := drop_bit 3 address AND 1,
                       regH := drop_bit 2 address AND 1,
                       regVT := (regVT p AND 7) OR push_bit 3 (address AND 3)\<rparr>
                else
                  (let q = triggerRendering p;
                       q1 = q\<lparr>regVT := (regVT q AND 24) OR (drop_bit 5 address AND 7),
                              regHT := address AND 31\<rparr>;
                       q2 = q1\<lparr>cntFV := regFV q1, cntV := regV q1, cntH := regH q1,
                               cntVT := regVT q1, cntHT := regHT q1\<rparr>
                   in snd (checkSprite0 hit (scanline q2 - 20) q2)))
      in cntsToAddress (p1\<lparr>firstWrite := \<not> firstWrite p1\<rparr>))"

text \<open>Sprite memory: registers \<^verbatim>\<open>$2003\<close>, \<^verbatim>\<open>$2004\<close> and the DMA register \<^verbatim>\<open>$4014\<close>.\<close>

definition writeSRAMAddress :: "nat \<Rightarrow> ppu_state \<Rightarrow> ppu_state" where
  "writeSRAMAddress address p = p\<lparr>sramAddress := address\<rparr>"

definition sramLoad :: "ppu_state \<Rightarrow> nat" where
  "sramLoad p = spriteMem p (sramAddress p)"

definition spriteRamWriteUpdate :: "sprite0_test \<Rightarrow> nat \<Rightarrow> nat \<Rightarrow> ppu_state \<Rightarrow> ppu_state" where
  "spriteRamWriteUpdate hit address value p =
     (let tIndex = address div 4;
          p1 = (if tIndex = 0 then snd (checkSprite0 hit (scanline p - 20) p) else p)
      in if address mod 4 = 0 then p1\<lparr>sprY := (sprY p1)(tIndex := value mod 256)\<rparr>
         else if address mod 4 = 1 then p1\<lparr>sprTile := (sprTile p1)(tIndex := value mod 256)\<rparr>
         else if address mod 4 = 2
         then p1\<lparr>vertFlip := (vertFlip p1)(tIndex := drop_bit 7 value AND 1),
                 horiFlip := (horiFlip p1)(tIndex := drop_bit 6 value AND 1),
                 bgPriority := (bgPriority p1)(tIndex := drop_bit 5 value AND 1),
                 sprCol := (sprCol p1)(tIndex := push_bit 2 (value AND 3))\<rparr>
         else p1\<lparr>sprX := (sprX p1)(tIndex := value mod 256)\<rparr>)"

definition sramWrite :: "sprite0_test \<Rightarrow> nat \<Rightarrow> ppu_state \<Rightarrow> ppu_state" where
  "sramWrite hit value p =
     (let p1 = p\<lparr>spriteMem := (spriteMem p)(sramAddress p := value mod 256)\<rparr>;
          p2 = spriteRamWriteUpdate hit (sramAddress p1) value p1
      in p2\<lparr>sramAddress := (sramAddress p2 + 1) mod 0x100\<rparr>)"

text \<open>
  One turn of the copy loop of \<^verbatim>\<open>sramDMA\<close>, and the loop over \<open>i = 0, \<dots>, 255\<close>. \<open>mem\<close> is the
  CPU memory array. The function returns the PPU and the number of cycles it asks the CPU
  to halt for (\<^verbatim>\<open>cpu.haltCycles(513)\<close>).
\<close>

definition sramDMA_step :: "sprite0_test \<Rightarrow> (nat \<Rightarrow> nat) \<Rightarrow> nat \<Rightarrow> nat \<Rightarrow> ppu_state \<Rightarrow> ppu_state" where
  "sramDMA_step hit mem baseAddress i p =
     (let data = mem (baseAddress + i);
          oamAddr = (sramAddress p + i) AND 0xFF;
          p1 = p\<lparr>spriteMem := (spriteMem p)(oamAddr := data mod 256)\<rparr>
      in spriteRamWriteUpdate hit oamAddr data p1)"

definition sramDMA :: "sprite0_test \<Rightarrow> (nat \<Rightarrow> nat) \<Rightarrow> nat \<Rightarrow> ppu_state \<Rightarrow> ppu_state \<times> nat" where
  "sramDMA hit mem value p =
     (fold (sramDMA_step hit mem (value * 0x100)) [0..<256] p, 513)"

text \<open>The PPU as its constructor leaves it; the mirror table starts as the identity.\<close>

definition ppu_init :: ppu_state where
  "ppu_init = \<lparr> vramMem = (\<lambda>a. 0), spriteMem = (\<lambda>a. 0), vramMirrorTable = (\<lambda>a. a),
     vramAddress = 0, vramTmpAddress = 0, vramBufferedReadValue = 0, firstWrite = True,
     openBusLatch = 0, openBusDecayFrames = 0, sramAddress = 0,
     f_nmiOnVblank = 0, f_spriteSize = 0, f_bgPatternTable = 0, f_spPatternTable = 0,
     f_addrInc = 0, f_nTblAddress = 0, f_color = 0, f_spVisibility = 0, f_bgVisibility = 0,
     f_spClipping = 0, f_bgClipping = 0, f_dispType = 0,
     cntFV = 0, cntV = 0, cntH = 0, cntVT = 0, cntHT = 0,
     regFV = 0, regV = 0, regH = 0, regVT = 0, regHT = 0, regFH = 0, regS = 0,
     scanline = 0, lastRenderedScanline = -1, curX = 0,
     sprX = (\<lambda>a. 0), sprY = (\<lambda>a. 0), sprTile = (\<lambda>a. 0), sprCol = (\<lambda>a. 0),
     vertFlip = (\<lambda>a. 0), horiFlip = (\<lambda>a. 0), bgPriority = (\<lambda>a. 0),
     spr0HitX = 0, spr0HitY = 0, hitSpr0 = False,
     requestEndFrame = False, nmiCounter = 0, dummyCycleToggle = False \<rparr>"

text \<open>
  Registers \<^verbatim>\<open>$2000\<close>, \<^verbatim>\<open>$2001\<close> and \<^verbatim>\<open>$2005\<close>. The palette refresh at the end of
  \<^verbatim>\<open>updateControlReg2\<close> writes display caches only.
\<close>

definition updateControlReg1 :: "nat \<Rightarrow> ppu_state \<Rightarrow> ppu_state" where
  "updateControlReg1 value p0 =
     (let p = triggerRendering p0
      in p\<lparr>f_nmiOnVblank := drop_bit 7 value AND 1,
            f_spriteSize := drop_bit 5 value AND 1,
            f_bgPatternTable := drop_bit 4 value AND 1,
            f_spPatternTable := drop_bit 3 value AND 1,
            f_addrInc := drop_bit 2 value AND 1,
            f_nTblAddress := value AND 3,
            regV := drop_bit 1 value AND 1,
            regH := value AND 1,
            regS := drop_bit 4 value AND 1\<rparr>)"

definition updateControlReg2 :: "nat \<Rightarrow> ppu_state \<Rightarrow> ppu_state" where
  "updateControlReg2 value p0 =
     (let p = triggerRendering p0
      in p\<lparr>f_color := drop_bit 5 value AND 7,
            f_spVisibility := drop_bit 4 value AND 1,
            f_bgVisibility := drop_bit 3 value AND 1,
            f_spClipping := drop_bit 2 value AND 1,
            f_bgClipping := drop_bit 1 value AND 1,
            f_dispType := value AND 1\<rparr>)"

definition scrollWrite :: "nat \<Rightarrow> ppu_state \<Rightarrow> ppu_state" where
  "scrollWrite value p0 =
     (let p = triggerRendering p0;
          p1 = (if firstWrite p
                then p\<lparr>regHT := drop_bit 3 value AND 31, regFH := value AND 7\<rparr>
                else p\<lparr>regFV := value AND 7, regVT := drop_bit 3 value AND 31\<rparr>)
      in p1\<lparr>firstWrite := \<not> firstWrite p1\<rparr>)"

text \<open>
  The PPU part of \<^verbatim>\<open>Mapper0.regWrite\<close>: every write to \<^verbatim>\<open>$2000\<close>-\<^verbatim>\<open>$3FFF\<close> refreshes the
  open-bus latch, then the register is dispatched. (The copies of the values written to
  \<^verbatim>\<open>$2000\<close> and \<^verbatim>\<open>$2001\<close> that \<^verbatim>\<open>regWrite\<close> keeps in CPU memory are CPU state.)
\<close>

definition ppu_regWrite :: "sprite0_test \<Rightarrow> nat \<Rightarrow> nat \<Rightarrow> nat \<Rightarrow> ppu_state \<Rightarrow> ppu_error + ppu_state" where
  "ppu_regWrite hit vromCount address value p0 =
     (let p = (if address \<ge> 0x2000 \<and> address \<le> 0x3FFF
               then p0\<lparr>openBusLatch := value, openBusDecayFrames := 36\<rparr> else p0)
      in if address = 0x2000 then Inr (updateControlReg1 value p)
         else if address = 0x2001 then Inr (updateControlReg2 value p)
         else if address = 0x2003 then Inr (writeSRAMAddress value p)
         else if address = 0x2004 then Inr (sramWrite hit value p)
         else if address = 0x2005 then Inr (scrollWrite value p)
         else if address = 0x2006 then Inr (writeVRAMAddress hit value p)
         else if address = 0x2007 then vramWrite hit vromCount value p
         else Inr p)"

text \<open>A sequence of register writes, stopping at the first error.\<close>

fun ppu_regWrites :: "sprite0_test \<Rightarrow> nat \<Rightarrow> (nat \<times> nat) list \<Rightarrow> ppu_state \<Rightarrow> ppu_error + ppu_state" where
  "ppu_regWrites hit vromCount [] p = Inr p"
| "ppu_regWrites hit vromCount ((a, v) # ws) p =
     (case ppu_regWrite hit vromCount a v p of
        Inl e \<Rightarrow> Inl e
      | Inr p1 \<Rightarrow> ppu_regWrites hit vromCount ws p1)"

text \<open>The value a read of \<^verbatim>\<open>$2007\<close> returns after a sequence of register writes.\<close>

definition vramLoad_after ::
  "sprite0_test \<Rightarrow> nat \<Rightarrow> (nat \<times> nat) list \<Rightarrow> ppu_state \<Rightarrow> ppu_error + nat" where
  "vramLoad_after hit vromCount ws p =
     (case ppu_regWrites hit vromCount ws p of
        Inl e \<Rightarrow> Inl e
      | Inr p1 \<Rightarrow> Inr (fst (vramLoad p1)))"

text \<open>A sprite-0 test that never finds a pixel (nothing has been rendered).\<close>

definition no_hit :: sprite0_test where
  "no_hit p scan = None"

section \<open>Controller ports of the base mapper (mappers/mapper0.js)\<close>

text \<open>
  The strobe state of \<^verbatim>\<open>Mapper0\<close>. The button array \<^verbatim>\<open>nes.controllers[n].state\<close> belongs to
  the \<^verbatim>\<open>Controller\<close> class; it is the parameter \<open>state\<close> of the read functions, indexed
  \<open>0 = A, 1 = B, 2 = SELECT, 3 = START, 4 = UP, 5 = DOWN, 6 = LEFT, 7 = RIGHT\<close>.
\<close>

record joypad =
  joy1StrobeState :: nat
  joy2StrobeState :: nat
  joypadLastWrite :: nat

text \<open>\<^verbatim>\<open>Mapper0.reset\<close>, as far as the controller ports go.\<close>

definition joypad_reset :: joypad where
  "joypad_reset = \<lparr> joy1StrobeState = 0, joy2StrobeState = 0, joypadLastWrite = 0 \<rparr>"

text \<open>The case \<^verbatim>\<open>0x4016\<close> of \<^verbatim>\<open>regWrite\<close>.\<close>

definition regWrite_4016 :: "nat \<Rightarrow> joypad \<Rightarrow> joypad" where
  "regWrite_4016 value m =
     (let m1 = (if value AND 1 = 0 \<and> joypadLastWrite m AND 1 = 1
                then m\<lparr>joy1StrobeState := 0, joy2StrobeState := 0\<rparr> else m)
      in m1\<lparr>joypadLastWrite := value\<rparr>)"

definition joy1Read :: "(nat \<Rightarrow> nat) \<Rightarrow> joypad \<Rightarrow> nat \<times> joypad" where
  "joy1Read state m =
     (if joypadLastWrite m AND 1 \<noteq> 0 then (state 0, m)
      else
        let ret = (if joy1StrobeState m < 8 then state (joy1StrobeState m) else 1);
            s = joy1StrobeState m + 1
        in (ret, m\<lparr>joy1StrobeState := (if s = 24 then 0 else s)\<rparr>))"

definition joy2Read :: "(nat \<Rightarrow> nat) \<Rightarrow> joypad \<Rightarrow> nat \<times> joypad" where
  "joy2Read state m =
     (if joypadLastWrite m AND 1 \<noteq> 0 then (state 0, m)
      else
        let ret = (if joy2StrobeState m < 8 then state (joy2StrobeState m) else 1);
            s = joy2StrobeState m + 1
        in (ret, m\<lparr>joy2StrobeState := (if s = 24 then 0 else s)\<rparr>))"

text \<open>
  The case \<^verbatim>\<open>0x4016\<close> of \<^verbatim>\<open>regLoad\<close>: bits 0 to 4 come from the controller, bits 5 to 7
  from the CPU data bus.
\<close>

definition regLoad_4016 :: "(nat \<Rightarrow> nat) \<Rightarrow> nat \<Rightarrow> joypad \<Rightarrow> nat \<times> joypad" where
  "regLoad_4016 state dataBus m =
     (let (r, m1) = joy1Read state m in ((r AND 0x1F) OR (dataBus AND 0xE0), m1))"

text \<open>The values returned by \<open>n\<close> successive calls of \<^verbatim>\<open>joy1Read\<close>, in order.\<close>

fun joy1Reads :: "(nat \<Rightarrow> nat) \<Rightarrow> nat \<Rightarrow> joypad \<Rightarrow> nat list" where
  "joy1Reads state 0 m = []"
| "joy1Reads state (Suc n) m = (let (r, m1) = joy1Read state m in r # joy1Reads state n m1)"

text \<open>A strobe: a write with bit 0 set followed by a write with bit 0 clear.\<close>

definition strobe :: "nat \<Rightarrow> nat \<Rightarrow> joypad \<Rightarrow> joypad" where
  "strobe hi lo m = regWrite_4016 lo (regWrite_4016 hi m)"

text \<open>The button array of a controller with no button held: every entry is \<open>0x40\<close>.\<close>

definition buttons_released :: "nat \<Rightarrow> nat" where
  "buttons_released i = 0x40"

section \<open>APU frame counter (papu)\<close>

text \<open>
  The five sound channels and the sample mixer are objects of their own; the \<^verbatim>\<open>PAPU\<close>
  methods modelled here reach them only through method calls and a handful of fields.
  Their state is the type parameter \<open>'ch\<close> and their methods are the fields of the record
  \<open>apu_ops\<close>, so everything proved below holds for any channel implementation. A channel
  method that can reach the CPU (the DMC memory reader) gets the CPU memory to read from
  and returns, with the new channel state, the number of cycles it asks the CPU to halt
  for and whether it raised an IRQ.
\<close>

record 'ch apu_ops =
  sq1_writeReg :: "int \<Rightarrow> int \<Rightarrow> 'ch \<Rightarrow> 'ch"
  sq2_writeReg :: "int \<Rightarrow> int \<Rightarrow> 'ch \<Rightarrow> 'ch"
  tri_writeReg :: "int \<Rightarrow> int \<Rightarrow> 'ch \<Rightarrow> 'ch"
  noise_writeReg :: "int \<Rightarrow> int \<Rightarrow> 'ch \<Rightarrow> 'ch"
  dmc_writeReg :: "(int \<Rightarrow> int) \<Rightarrow> int \<Rightarrow> int \<Rightarrow> 'ch \<Rightarrow> 'ch \<times> int \<times> bool"
  sq1_setEnabled :: "bool \<Rightarrow> 'ch \<Rightarrow> 'ch"
  sq2_setEnabled :: "bool \<Rightarrow> 'ch \<Rightarrow> 'ch"
  tri_setEnabled :: "bool \<Rightarrow> 'ch \<Rightarrow> 'ch"
  noise_setEnabled :: "bool \<Rightarrow> 'ch \<Rightarrow> 'ch"
  dmc_setEnabled :: "bool \<Rightarrow> 'ch \<Rightarrow> 'ch"
  sq1_getLengthStatus :: "'ch \<Rightarrow> int"
  sq2_getLengthStatus :: "'ch \<Rightarrow> int"
  tri_getLengthStatus :: "'ch \<Rightarrow> int"
  noise_getLengthStatus :: "'ch \<Rightarrow> int"
  dmc_getLengthStatus :: "'ch \<Rightarrow> int"
  dmc_getIrqStatus :: "'ch \<Rightarrow> int"
  sq1_clockEnvDecay :: "'ch \<Rightarrow> 'ch"
  sq2_clockEnvDecay :: "'ch \<Rightarrow> 'ch"
  noise_clockEnvDecay :: "'ch \<Rightarrow> 'ch"
  tri_clockLinearCounter :: "'ch \<Rightarrow> 'ch"
  tri_clockLengthCounter :: "'ch \<Rightarrow> 'ch"
  sq1_clockLengthCounter :: "'ch \<Rightarrow> 'ch"
  sq2_clockLengthCounter :: "'ch \<Rightarrow> 'ch"
  noise_clockLengthCounter :: "'ch \<Rightarrow> 'ch"
  sq1_clockSweep :: "'ch \<Rightarrow> 'ch"
  sq2_clockSweep :: "'ch \<Rightarrow> 'ch"
  clockChannelTimers :: "(int \<Rightarrow> int) \<Rightarrow> int \<Rightarrow> 'ch \<Rightarrow> 'ch \<times> int \<times> bool"
  accSample :: "int \<Rightarrow> 'ch \<Rightarrow> 'ch"
  sample :: "'ch \<Rightarrow> 'ch"
  channels_reset :: "'ch \<Rightarrow> 'ch"
  dmc_isEnabled :: "'ch \<Rightarrow> bool"
  dmc_hasSample :: "'ch \<Rightarrow> bool"
  dmc_dmaFrequency :: "'ch \<Rightarrow> int"
  dmc_shiftCounter :: "'ch \<Rightarrow> int"
  dmc_dmaCounter :: "'ch \<Rightarrow> int"
  dmc_lastFetchedByte :: "'ch \<Rightarrow> int"

record 'ch papu =
  frameCycleCounter :: int
  frameStep :: nat
  countSequence :: int
  frameIrqEnabled :: bool
  frameIrqActive :: bool
  channelEnableValue :: int
  extraCycles :: int
  sampleTimer :: int
  sampleTimerMax :: int
  channels :: 'ch

text \<open>
  What an APU method asks of the CPU: cycles to halt for (\<^verbatim>\<open>cpu.haltCycles\<close>) and whether
  \<^verbatim>\<open>cpu.requestIrq(IRQ_NORMAL)\<close> was called.
\<close>

type_synonym cpu_request = "int \<times> bool"

definition FRAME_STEPS_4 :: "int list" where
  "FRAME_STEPS_4 = [7457, 14913, 22371, 29829]"

definition FRAME_STEPS_5 :: "int list" where
  "FRAME_STEPS_5 = [7457, 14913, 22371, 29829, 37281]"

definition FRAME_PERIOD_4 :: int where
  "FRAME_PERIOD_4 = 29830"

definition FRAME_PERIOD_5 :: int where
  "FRAME_PERIOD_5 = 37282"

definition clockQuarterFrame :: "'ch apu_ops \<Rightarrow> 'ch papu \<Rightarrow> 'ch papu" where
  "clockQuarterFrame ops a =
     a\<lparr>channels := tri_clockLinearCounter ops (noise_clockEnvDecay ops
                        (sq2_clockEnvDecay ops (sq1_clockEnvDecay ops (channels a))))\<rparr>"

definition clockHalfFrame :: "'ch apu_ops \<Rightarrow> 'ch papu \<Rightarrow> 'ch papu" where
  "clockHalfFrame ops a =
     a\<lparr>channels := sq2_clockSweep ops (sq1_clockSweep ops
                        (noise_clockLengthCounter ops (sq2_clockLengthCounter ops
                          (sq1_clockLengthCounter ops (tri_clockLengthCounter ops (channels a))))))\<rparr>"

definition fireFrameStep :: "'ch apu_ops \<Rightarrow> nat \<Rightarrow> 'ch papu \<Rightarrow> 'ch papu" where
  "fireFrameStep ops step a =
     (if countSequence a = 0 then
        (if step = 0 then clockQuarterFrame ops a
         else if step = 1 then clockHalfFrame ops (clockQuarterFrame ops a)
         else if step = 2 then clockQuarterFrame ops a
         else if step = 3 then
           (let a1 = clockHalfFrame ops (clockQuarterFrame ops a)
            in if frameIrqEnabled a1 then a1\<lparr>frameIrqActive := True\<rparr> else a1)
         else a)
      else
        (if step = 0 then clockQuarterFrame ops a
         else if step = 1 then clockHalfFrame ops (clockQuarterFrame ops a)
         else if step = 2 then clockQuarterFrame ops a
         else if step = 3 then a
         else if step = 4 then clockHalfFrame ops (clockQuarterFrame ops a)
         else a))"

text \<open>
  The loop shared by \<^verbatim>\<open>advanceFrameCounter\<close> and \<^verbatim>\<open>clockFrameCounter\<close>:
  \<^verbatim>\<open>while (frameCycleCounter >= steps[frameStep]) { fire; frameStep++; wrap }\<close>.
  Reading \<^verbatim>\<open>steps[frameStep]\<close> past the end of the table gives \<^verbatim>\<open>undefined\<close>, the
  comparison is then false and the loop stops. Every turn either moves to a later step or
  takes a whole period off the counter, which is what the measure counts.
\<close>

function frameCounterLoop :: "'ch apu_ops \<Rightarrow> 'ch papu \<Rightarrow> 'ch papu" where
  "frameCounterLoop ops a =
     (let steps = (if countSequence a = 0 then FRAME_STEPS_4 else FRAME_STEPS_5);
          period = (if countSequence a = 0 then FRAME_PERIOD_4 else FRAME_PERIOD_5)
      in if frameStep a < length steps \<and> frameCycleCounter a \<ge> steps ! frameStep a
         then
           (let a1 = fireFrameStep ops (frameStep a) a;
                a2 = a1\<lparr>frameStep := frameStep a1 + 1\<rparr>;
                a3 = (if frameStep a2 \<ge> length steps
                      then a2\<lparr>frameStep := 0, frameCycleCounter := frameCycleCounter a2 - period\<rparr>
                      else a2)
            in frameCounterLoop ops a3)
         else a)"
  by pat_completeness auto
termination
  by (relation "measure (\<lambda>(ops, a). nat (frameCycleCounter a) * 6 + (5 - frameStep a))")
     (auto simp: fireFrameStep_def clockQuarterFrame_def clockHalfFrame_def Let_def
        FRAME_STEPS_4_def FRAME_STEPS_5_def FRAME_PERIOD_4_def FRAME_PERIOD_5_def
        nth_Cons' split: if_splits)

declare frameCounterLoop.simps [simp del]

definition advanceFrameCounter :: "'ch apu_ops \<Rightarrow> int \<Rightarrow> 'ch papu \<Rightarrow> 'ch papu" where
  "advanceFrameCounter ops nCycles a =
     frameCounterLoop ops (a\<lparr>frameCycleCounter := frameCycleCounter a + nCycles\<rparr>)"

text \<open>
  \<^verbatim>\<open>readReg\<close> (a read of \<^verbatim>\<open>$4015\<close>); \<open>dataBus\<close> is the CPU data bus, which supplies bit 5.
\<close>

definition readReg :: "'ch apu_ops \<Rightarrow> int \<Rightarrow> 'ch papu \<Rightarrow> int \<times> 'ch papu" where
  "readReg ops dataBus a =
     (let ch = channels a;
          tmp = sq1_getLengthStatus ops ch
                OR push_bit 1 (sq2_getLengthStatus ops ch)
                OR push_bit 2 (tri_getLengthStatus ops ch)
                OR push_bit 3 (noise_getLengthStatus ops ch)
                OR push_bit 4 (dmc_getLengthStatus ops ch)
                OR (dataBus AND 0x20)
                OR push_bit 6 (if frameIrqActive a then 1 else 0)
                OR push_bit 7 (dmc_getIrqStatus ops ch)
      in (tmp AND 0xFF, a\<lparr>frameIrqActive := False\<rparr>))"

definition updateChannelEnable :: "'ch apu_ops \<Rightarrow> int \<Rightarrow> 'ch papu \<Rightarrow> 'ch papu" where
  "updateChannelEnable ops value a =
     a\<lparr>channelEnableValue := value AND 0xFFFF,
       channels := dmc_setEnabled ops (value AND 16 \<noteq> 0)
                     (noise_setEnabled ops (value AND 8 \<noteq> 0)
                       (tri_setEnabled ops (value AND 4 \<noteq> 0)
                         (sq2_setEnabled ops (value AND 2 \<noteq> 0)
                           (sq1_setEnabled ops (value AND 1 \<noteq> 0) (channels a)))))\<rparr>"

text \<open>\<^verbatim>\<open>writeReg\<close>; \<open>mem\<close> is the CPU memory the DMC channel may fetch a sample byte from.\<close>

definition writeReg ::
  "'ch apu_ops \<Rightarrow> (int \<Rightarrow> int) \<Rightarrow> int \<Rightarrow> int \<Rightarrow> 'ch papu \<Rightarrow> 'ch papu \<times> cpu_request" where
  "writeReg ops mem address value a =
     (if address \<ge> 0x4000 \<and> address < 0x4004
      then (a\<lparr>channels := sq1_writeReg ops address value (channels a)\<rparr>, (0, False))
      else if address \<ge> 0x4004 \<and> address < 0x4008
      then (a\<lparr>channels := sq2_writeReg ops address value (channels a)\<rparr>, (0, False))
      else if address \<ge> 0x4008 \<and> address < 0x400C
      then (a\<lparr>channels := tri_writeReg ops address value (channels a)\<rparr>, (0, False))
      else if address \<ge> 0x400C \<and> address \<le> 0x400F
      then (a\<lparr>channels := noise_writeReg ops address value (channels a)\<rparr>, (0, False))
      else if address = 0x4010 \<or> address = 0x4011 \<or> address = 0x4012 \<or> address = 0x4013
      then (let (ch, req) = dmc_writeReg ops mem address value (channels a)
            in (a\<lparr>channels := ch\<rparr>, req))
      else if address = 0x4015
      then (let a1 = updateChannelEnable ops value a;
                (ch, req) = dmc_writeReg ops mem address value (channels a1)
            in (a1\<lparr>channels := ch\<rparr>, req))
      else if address = 0x4017
      then (let a1 = a\<lparr>countSequence := drop_bit 7 value AND 1,
                         frameCycleCounter := -6, frameStep := 0\<rparr>;
                a2 = (if value AND 0x40 \<noteq> 0
                      then a1\<lparr>frameIrqEnabled := False, frameIrqActive := False\<rparr>
                      else a1\<lparr>frameIrqEnabled := True\<rparr>);
                a3 = (if countSequence a2 = 1
                      then clockHalfFrame ops (clockQuarterFrame ops a2) else a2)
            in (a3, (0, False)))
      else (a, (0, False)))"

text \<open>
  \<^verbatim>\<open>clockFrameCounter(nCycles, frameCounterAlreadyAdvanced)\<close>. The second argument may be
  missing, which counts as 0 (\<open>None\<close> here). The channel timers are clocked by the
  parameter \<open>clockChannelTimers\<close>; the frame IRQ is raised when it is enabled and active.
\<close>

definition clockFrameCounter ::
  "'ch apu_ops \<Rightarrow> (int \<Rightarrow> int) \<Rightarrow> int \<Rightarrow> int option \<Rightarrow> 'ch papu \<Rightarrow> 'ch papu \<times> cpu_request" where
  "clockFrameCounter ops mem nCycles0 frameCounterAlreadyAdvanced a =
     (let frameCounterCycles = nCycles0 - (case frameCounterAlreadyAdvanced of None \<Rightarrow> 0 | Some k \<Rightarrow> k);
          nCycles1 = nCycles0 + extraCycles a;
          maxCycles = sampleTimerMax a - sampleTimer a;
          extra = (if push_bit 10 nCycles1 > maxCycles
                   then drop_bit 10 (push_bit 10 nCycles1 - maxCycles) else 0);
          nCycles = nCycles1 - extra;
          a1 = a\<lparr>extraCycles := extra\<rparr>;
          (ch, (halt, irq)) = clockChannelTimers ops mem nCycles (channels a1);
          a2 = a1\<lparr>channels := ch\<rparr>;
          frameIrq = (frameIrqEnabled a2 \<and> frameIrqActive a2);
          a3 = frameCounterLoop ops (a2\<lparr>frameCycleCounter := frameCycleCounter a2 + frameCounterCycles\<rparr>);
          a4 = a3\<lparr>channels := accSample ops nCycles (channels a3)\<rparr>;
          a5 = a4\<lparr>sampleTimer := sampleTimer a4 + push_bit 10 nCycles\<rparr>;
          a6 = (if sampleTimer a5 \<ge> sampleTimerMax a5
                then a5\<lparr>channels := sample ops (channels a5),
                        sampleTimer := sampleTimer a5 - sampleTimerMax a5\<rparr>
                else a5)
      in (a6, (halt, irq \<or> frameIrq)))"

text \<open>\<^verbatim>\<open>reset\<close>; the sample timer period is computed from the host options and is kept.\<close>

definition papu_reset :: "'ch apu_ops \<Rightarrow> 'ch papu \<Rightarrow> 'ch papu" where
  "papu_reset ops a =
     (let a1 = updateChannelEnable ops 0 (a\<lparr>sampleTimer := 0\<rparr>)
      in a1\<lparr>frameCycleCounter := 0, frameStep := 0, countSequence := 0,
            frameIrqEnabled := False, frameIrqActive := False,
            channels := channels_reset ops (channels a1),
            channelEnableValue := 0xFF\<rparr>)"

text \<open>
  The calls the rest of the emulator makes into the APU, as events, and a run of them.
  Each event carries the CPU memory (and data bus) of the moment it happens.
\<close>

datatype apu_event =
    ReadReg int
  | WriteReg "int \<Rightarrow> int" int int
  | ClockFrameCounter "int \<Rightarrow> int" int "int option"
  | AdvanceFrameCounter int

fun apu_step :: "'ch apu_ops \<Rightarrow> apu_event \<Rightarrow> 'ch papu \<Rightarrow> 'ch papu" where
  "apu_step ops (ReadReg dataBus) a = snd (readReg ops dataBus a)"
| "apu_step ops (WriteReg mem address value) a = fst (writeReg ops mem address value a)"
| "apu_step ops (ClockFrameCounter mem n k) a = fst (clockFrameCounter ops mem n k a)"
| "apu_step ops (AdvanceFrameCounter n) a = advanceFrameCounter ops n a"

fun apu_run :: "'ch apu_ops \<Rightarrow> apu_event list \<Rightarrow> 'ch papu \<Rightarrow> 'ch papu" where
  "apu_run ops [] a = a"
| "apu_run ops (e # es) a = apu_run ops es (apu_step ops e a)"

text \<open>A write to \<^verbatim>\<open>$4017\<close> with bit 6 clear: the event that lifts the IRQ inhibit.\<close>

fun lifts_inhibit :: "apu_event \<Rightarrow> bool" where
  "lifts_inhibit (WriteReg mem address value) = (address = 0x4017 \<and> value AND 0x40 = 0)"
| "lifts_inhibit e = False"

text \<open>The channel status methods return 0 or 1, as each \<^verbatim>\<open>getLengthStatus\<close> and \<^verbatim>\<open>getIrqStatus\<close> does.\<close>

definition status_flags :: "'ch apu_ops \<Rightarrow> bool" where
  "status_flags ops \<longleftrightarrow>
     (\<forall>ch. (sq1_getLengthStatus ops ch = 0 \<or> sq1_getLengthStatus ops ch = 1)
         \<and> (sq2_getLengthStatus ops ch = 0 \<or> sq2_getLengthStatus ops ch = 1)
         \<and> (tri_getLengthStatus ops ch = 0 \<or> tri_getLengthStatus ops ch = 1)
         \<and> (noise_getLengthStatus ops ch = 0 \<or> noise_getLengthStatus ops ch = 1)
         \<and> (dmc_getLengthStatus ops ch = 0 \<or> dmc_getLengthStatus ops ch = 1)
         \<and> (dmc_getIrqStatus ops ch = 0 \<or> dmc_getIrqStatus ops ch = 1))"

text \<open>The frame IRQ is inhibited and not pending.\<close>

definition irq_off :: "'ch papu \<Rightarrow> bool" where
  "irq_off a \<longleftrightarrow> \<not> frameIrqEnabled a \<and> \<not> frameIrqActive a"

text \<open>
  A concrete instance for examples: an APU whose channels are silent and hold no state,
  and the \<^verbatim>\<open>PAPU\<close> fields as the constructor leaves them with the default options
  (sample rate 48000 Hz at 60 frames per second gives \<^verbatim>\<open>sampleTimerMax = 38181\<close>).
\<close>

definition silent_ops :: "unit apu_ops" where
  "silent_ops = \<lparr>
     sq1_writeReg = (\<lambda>a v ch. ch), sq2_writeReg = (\<lambda>a v ch. ch),
     tri_writeReg = (\<lambda>a v ch. ch), noise_writeReg = (\<lambda>a v ch. ch),
     dmc_writeReg = (\<lambda>m a v ch. (ch, 0, False)),
     sq1_setEnabled = (\<lambda>b ch. ch), sq2_setEnabled = (\<lambda>b ch. ch),
     tri_setEnabled = (\<lambda>b ch. ch), noise_setEnabled = (\<lambda>b ch. ch),
     dmc_setEnabled = (\<lambda>b ch. ch),
     sq1_getLengthStatus = (\<lambda>ch. 0), sq2_getLengthStatus = (\<lambda>ch. 0),
     tri_getLengthStatus = (\<lambda>ch. 0), noise_getLengthStatus = (\<lambda>ch. 0),
     dmc_getLengthStatus = (\<lambda>ch. 0), dmc_getIrqStatus = (\<lambda>ch. 0),
     sq1_clockEnvDecay = (\<lambda>ch. ch), sq2_clockEnvDecay = (\<lambda>ch. ch),
     noise_clockEnvDecay = (\<lambda>ch. ch), tri_clockLinearCounter = (\<lambda>ch. ch),
     tri_clockLengthCounter = (\<lambda>ch. ch), sq1_clockLengthCounter = (\<lambda>ch. ch),
     sq2_clockLengthCounter = (\<lambda>ch. ch), noise_clockLengthCounter = (\<lambda>ch. ch),
     sq1_clockSweep = (\<lambda>ch. ch), sq2_clockSweep = (\<lambda>ch. ch),
     clockChannelTimers = (\<lambda>m n ch. (ch, 0, False)),
     accSample = (\<lambda>n ch. ch), sample = (\<lambda>ch. ch), channels_reset = (\<lambda>ch. ch),
     dmc_isEnabled = (\<lambda>ch. False), dmc_hasSample = (\<lambda>ch. False),
     dmc_dmaFrequency = (\<lambda>ch. 0), dmc_shiftCounter = (\<lambda>ch. 0),
     dmc_dmaCounter = (\<lambda>ch. 0), dmc_lastFetchedByte = (\<lambda>ch. 0) \<rparr>"

definition papu_init :: "unit papu" where
  "papu_init = \<lparr> frameCycleCounter = 0, frameStep = 0, countSequence = 0,
     frameIrqEnabled = False, frameIrqActive = False, channelEnableValue = 0xFF,
     extraCycles = 0, sampleTimer = 0, sampleTimerMax = 38181, channels = () \<rparr>"

definition zero_mem :: "int \<Rightarrow> int" where
  "zero_mem a = 0"

section \<open>The console: CPU state, memory map and bus cycles (cpu.js, mapper0.js, nes.js)\<close>

text \<open>
  CPU values are JavaScript numbers holding integers and are modelled as \<open>int\<close>; \<^verbatim>\<open>cpu.mem\<close>
  is a function from addresses to values. \<^verbatim>\<open>irqType\<close> is \<open>None\<close> while it is \<^verbatim>\<open>null\<close>.
  \<open>dmcFetchCycles\<close> is the field \<^verbatim>\<open>_dmcFetchCycles\<close>. \<open>apuCatchupCycles\<close> is the property that
  the frame loop reads and then sets to 0; the CPU itself never defines it, so it is
  \<open>None\<close> (\<^verbatim>\<open>undefined\<close>) until the first instruction of the first frame has run.
\<close>

record cpu_state =
  mem :: "int \<Rightarrow> int"
  REG_ACC :: int
  REG_X :: int
  REG_Y :: int
  REG_SP :: int
  REG_PC :: int
  REG_PC_NEW :: int
  F_CARRY :: int
  F_DECIMAL :: int
  F_INTERRUPT :: int
  F_INTERRUPT_NEW :: int
  F_OVERFLOW :: int
  F_SIGN :: int
  F_ZERO :: int
  F_NOTUSED :: int
  F_BRK :: int
  F_BRK_NEW :: int
  cyclesToHalt :: int
  irqRequested :: bool
  irqType :: "int option"
  dataBus :: int
  instrBusCycles :: int
  ppuCatchupDots :: int
  ppuFrameEnded :: bool
  dmcFetchCycles :: int
  apuCatchupCycles :: "int option"

text \<open>
  Instrumentation, not state of the emulator: the model keeps a log of the bus cycles of
  the CPU. An entry holds the direction, the address, the byte that was read or written,
  and the value of \<^verbatim>\<open>dataBus\<close> when the operation that made the cycle has finished.
  Nothing in the model reads the log.
\<close>

datatype bus_kind = BusRead | BusWrite

record bus_cycle =
  bc_kind :: bus_kind
  bc_addr :: int
  bc_byte :: int
  bc_dataBus :: int

text \<open>
  The console. \<open>mmap\<close> is \<open>None\<close> until a ROM is loaded (\<^verbatim>\<open>nes.mmap === null\<close>) and then holds
  the fields of the base mapper; \<open>buttons1\<close> and \<open>buttons2\<close> are the button arrays of the two
  controllers; the Zapper position is \<open>None\<close> while \<^verbatim>\<open>zapperX\<close> or \<^verbatim>\<open>zapperY\<close> is \<^verbatim>\<open>null\<close>.
  The last two fields are instrumentation: the log of bus cycles, and the number of dots by
  which the PPU position has been moved forward.
\<close>

record 'ch nes_state =
  cpu :: cpu_state
  ppu :: ppu_state
  papu :: "'ch papu"
  mmap :: "joypad option"
  buttons1 :: "nat \<Rightarrow> nat"
  buttons2 :: "nat \<Rightarrow> nat"
  zapper :: "(int \<times> int) option"
  zapperFired :: bool
  gg_enabled :: bool
  gg_patches :: "patch list"
  crashed :: bool
  busLog :: "bus_cycle list"
  dotCount :: int

text \<open>
  What the model takes from outside the code it embeds: the sprite-0 pixel test and the
  Zapper light test, which read the frame buffer; the number of CHR-ROM banks of the
  cartridge; and the sound channels.
\<close>

record 'ch env =
  hit_test :: sprite0_test
  pixelWhite :: "ppu_state \<Rightarrow> int \<Rightarrow> int \<Rightarrow> bool"
  vromCount :: nat
  apu :: "'ch apu_ops"

definition IRQ_NORMAL :: int where "IRQ_NORMAL = 0"
definition IRQ_NMI :: int where "IRQ_NMI = 1"
definition IRQ_RESET :: int where "IRQ_RESET = 2"

definition requestIrq :: "int \<Rightarrow> cpu_state \<Rightarrow> cpu_state" where
  "requestIrq type c =
     (if irqRequested c \<and> type = IRQ_NORMAL then c
      else c\<lparr>irqRequested := True, irqType := Some type\<rparr>)"

definition haltCycles :: "int \<Rightarrow> cpu_state \<Rightarrow> cpu_state" where
  "haltCycles cycles c = c\<lparr>cyclesToHalt := cyclesToHalt c + cycles\<rparr>"

text \<open>Serving what an APU method asked of the CPU.\<close>

definition serve_request :: "cpu_request \<Rightarrow> cpu_state \<Rightarrow> cpu_state" where
  "serve_request req c =
     (let c1 = (if fst req \<noteq> 0 then haltCycles (fst req) c else c)
      in if snd req then requestIrq IRQ_NORMAL c1 else c1)"

subsection \<open>PPU status and frame timing\<close>

definition STATUS_SPRITE0HIT :: nat where "STATUS_SPRITE0HIT = 6"
definition STATUS_VBLANK :: nat where "STATUS_VBLANK = 7"

text \<open>The PPU status byte lives in \<^verbatim>\<open>cpu.mem[0x2002]\<close>.\<close>

definition setStatusFlag :: "nat \<Rightarrow> bool \<Rightarrow> cpu_state \<Rightarrow> cpu_state" where
  "setStatusFlag flag v c =
     (let n = push_bit flag 1
      in c\<lparr>mem := (mem c)(0x2002 := (mem c 0x2002 AND (255 - n)) OR (if v then n else 0))\<rparr>)"

definition readStatusRegister :: "'ch nes_state \<Rightarrow> int \<times> 'ch nes_state" where
  "readStatusRegister s =
     (let tmp0 = mem (cpu s) 0x2002;
          s1 = s\<lparr>ppu := (ppu s)\<lparr>firstWrite := True\<rparr>\<rparr>;
          s2 = s1\<lparr>cpu := setStatusFlag STATUS_VBLANK False (cpu s1)\<rparr>;
          tmp = (tmp0 AND 0xE0) OR (int (openBusLatch (ppu s2)) AND 0x1F)
      in (tmp, s2\<lparr>ppu := (ppu s2)\<lparr>openBusLatch := nat tmp, openBusDecayFrames := 36\<rparr>\<rparr>))"

text \<open>
  \<^verbatim>\<open>renderBgScanline\<close>, as far as the scroll counters go: the 32 tiles of the line step the
  horizontal tile counter, then the vertical counters advance by one pixel row.
\<close>

definition bgTileStep :: "ppu_state \<Rightarrow> ppu_state" where
  "bgTileStep p =
     (if cntHT p + 1 = 32 then p\<lparr>cntHT := 0, cntH := (cntH p + 1) mod 2\<rparr>
      else p\<lparr>cntHT := cntHT p + 1\<rparr>)"

definition renderBgScanline :: "int \<Rightarrow> ppu_state \<Rightarrow> ppu_state" where
  "renderBgScanline scan p0 =
     (let p = p0\<lparr>cntHT := regHT p0, cntH := regH p0\<rparr>;
          p1 = (if scan < 240 \<and> scan - int (cntFV p) \<ge> 0 then (bgTileStep ^^ 32) p else p);
          p2 = p1\<lparr>cntFV := cntFV p1 + 1\<rparr>
      in if cntFV p2 = 8 then
           (let p3 = p2\<lparr>cntFV := 0, cntVT := cntVT p2 + 1\<rparr>
            in if cntVT p3 = 30 then p3\<lparr>cntVT := 0, cntV := (cntV p3 + 1) mod 2\<rparr>
               else if cntVT p3 = 32 then p3\<lparr>cntVT := 0\<rparr>
               else p3)
         else p2)"

text \<open>
  \<^verbatim>\<open>endScanline\<close>. The mapper hook \<^verbatim>\<open>clockIrqCounter\<close> does nothing in mapper 0. The field
  \<^verbatim>\<open>scanlineAlreadyRendered\<close> is never set to true anywhere, so the line is always rendered.
\<close>

definition endScanline :: "'ch env \<Rightarrow> 'ch nes_state \<Rightarrow> 'ch nes_state" where
  "endScanline e s =
     (let p = ppu s;
          s1 =
           (if scanline p = 19 then
              (if dummyCycleToggle p
               then s\<lparr>ppu := p\<lparr>curX := 1, dummyCycleToggle := \<not> dummyCycleToggle p\<rparr>\<rparr>
               else s)
            else if scanline p = 20 then
              (let c1 = setStatusFlag STATUS_SPRITE0HIT False (setStatusFlag STATUS_VBLANK False (cpu s));
                   p1 = p\<lparr>hitSpr0 := False, spr0HitX := -1, spr0HitY := -1\<rparr>;
                   p2 = (if f_bgVisibility p1 = 1 \<or> f_spVisibility p1 = 1
                         then (let q = p1\<lparr>cntFV := regFV p1, cntV := regV p1, cntH := regH p1,
                                         cntVT := regVT p1, cntHT := regHT p1\<rparr>
                               in if f_bgVisibility q = 1 then renderBgScanline 0 q else q)
                         else p1);
                   p3 = (if f_bgVisibility p2 = 1 \<and> f_spVisibility p2 = 1
                         then snd (checkSprite0 (hit_test e) 0 p2) else p2)
               in s\<lparr>cpu := c1, ppu := p3\<rparr>)
            else if scanline p = 261 then
              s\<lparr>cpu := setStatusFlag STATUS_VBLANK True (cpu s),
                ppu := p\<lparr>requestEndFrame := True, nmiCounter := 9, scanline := -1\<rparr>\<rparr>
            else if scanline p \<ge> 21 \<and> scanline p \<le> 260 then
              (if f_bgVisibility p = 1 then
                 (let p1 = renderBgScanline (scanline p + 1 - 21)
                             (p\<lparr>cntHT := regHT p, cntH := regH p\<rparr>);
                      p2 = (if \<not> hitSpr0 p1 \<and> f_spVisibility p1 = 1
                               \<and> int (sprX p1 0) \<ge> -7 \<and> sprX p1 0 < 256
                               \<and> int (sprY p1 0) + 1 \<le> scanline p1 - 20
                               \<and> int (sprY p1 0) + 1 + (if f_spriteSize p1 = 0 then 8 else 16)
                                     \<ge> scanline p1 - 20
                            then (let (found, q) = checkSprite0 (hit_test e) (scanline p1 - 20) p1
                                  in if found then q\<lparr>hitSpr0 := True\<rparr> else q)
                            else p1)
                  in s\<lparr>ppu := p2\<rparr>)
               else s)
            else s);
          p4 = ppu s1
      in s1\<lparr>ppu := cntsToAddress (regsToAddress (p4\<lparr>scanline := scanline p4 + 1\<rparr>))\<rparr>)"

text \<open>
  \<^verbatim>\<open>startVBlank\<close>: the NMI request, the decay of the open-bus latch, and the end of the frame
  (whose painting and host callback are display only).
\<close>

definition startVBlank :: "'ch nes_state \<Rightarrow> 'ch nes_state" where
  "startVBlank s =
     (let c1 = (if f_nmiOnVblank (ppu s) \<noteq> 0 then requestIrq IRQ_NMI (cpu s) else cpu s);
          p = ppu s;
          p1 = (if openBusDecayFrames p > 0
                then (let q = p\<lparr>openBusDecayFrames := openBusDecayFrames p - 1\<rparr>
                      in if openBusDecayFrames q = 0 then q\<lparr>openBusLatch := 0\<rparr> else q)
                else p)
      in s\<lparr>cpu := c1, ppu := p1\<lparr>lastRenderedScanline := -1\<rparr>\<rparr>)"

text \<open>
  One turn of the dot loop that \<^verbatim>\<open>_ppuCatchUp\<close> and the frame loop share: the sprite-0 hit
  flag, the countdown to the NMI, and the step of the dot counter. The result says whether
  the vertical blank started, in which case the dot counter was not stepped. Every step of
  \<^verbatim>\<open>curX\<close> is counted in \<open>dotCount\<close>.
\<close>

definition ppuDot :: "'ch env \<Rightarrow> 'ch nes_state \<Rightarrow> bool \<times> 'ch nes_state" where
  "ppuDot e s =
     (let s1 = (if curX (ppu s) = spr0HitX (ppu s) \<and> f_spVisibility (ppu s) = 1
                   \<and> scanline (ppu s) - 21 = spr0HitY (ppu s)
                then s\<lparr>cpu := setStatusFlag STATUS_SPRITE0HIT True (cpu s)\<rparr> else s);
          s2 = (if requestEndFrame (ppu s1)
                then s1\<lparr>ppu := (ppu s1)\<lparr>nmiCounter := nmiCounter (ppu s1) - 1\<rparr>\<rparr> else s1)
      in if requestEndFrame (ppu s2) \<and> nmiCounter (ppu s2) = 0
         then (True, startVBlank (s2\<lparr>ppu := (ppu s2)\<lparr>requestEndFrame := False\<rparr>\<rparr>))
         else
           (let s3 = s2\<lparr>ppu := (ppu s2)\<lparr>curX := curX (ppu s2) + 1\<rparr>,
                        dotCount := dotCount s2 + 1\<rparr>
            in (False, if curX (ppu s3) = 341
                       then endScanline e (s3\<lparr>ppu := (ppu s3)\<lparr>curX := 0\<rparr>\<rparr>) else s3)))"

text \<open>
  \<^verbatim>\<open>_ppuCatchUp\<close>: \<^verbatim>\<open>while (ppuCatchupDots < instrBusCycles * 3)\<close>. Every turn adds one to
  \<^verbatim>\<open>ppuCatchupDots\<close>, also the one that returns because the vertical blank started, so the
  loop makes at most \<open>n\<close> turns when it starts \<open>n\<close> dots short of its target.
\<close>

fun ppuCatchUp_loop :: "'ch env \<Rightarrow> nat \<Rightarrow> 'ch nes_state \<Rightarrow> 'ch nes_state" where
  "ppuCatchUp_loop e 0 s = s"
| "ppuCatchUp_loop e (Suc n) s =
     (let (vblank, s1) = ppuDot e s;
          s2 = s1\<lparr>cpu := (cpu s1)\<lparr>ppuCatchupDots := ppuCatchupDots (cpu s1) + 1\<rparr>\<rparr>
      in if vblank then s2\<lparr>cpu := (cpu s2)\<lparr>ppuFrameEnded := True\<rparr>\<rparr>
         else ppuCatchUp_loop e n s2)"

definition ppuCatchUp :: "'ch env \<Rightarrow> 'ch nes_state \<Rightarrow> 'ch nes_state" where
  "ppuCatchUp e s =
     ppuCatchUp_loop e (nat (instrBusCycles (cpu s) * 3 - ppuCatchupDots (cpu s))) s"

subsection \<open>The memory map of the base mapper\<close>

text \<open>
  \<^verbatim>\<open>regLoad\<close>. It is called for addresses \<^verbatim>\<open>$2000\<close>-\<^verbatim>\<open>$4017\<close>. Registers that cannot be read
  return the data bus, or the byte of an overlapping DMC fetch.
\<close>

definition openBusLoad :: "'ch env \<Rightarrow> 'ch nes_state \<Rightarrow> int" where
  "openBusLoad e s =
     (if dmcFetchCycles (cpu s) > 0 \<and> dmcFetchCycles (cpu s) = instrBusCycles (cpu s) + 1
         \<and> dmc_isEnabled (apu e) (channels (papu s))
      then dmc_lastFetchedByte (apu e) (channels (papu s))
      else dataBus (cpu s))"

definition the_joypad :: "'ch nes_state \<Rightarrow> joypad" where
  "the_joypad s = (case mmap s of Some m \<Rightarrow> m | None \<Rightarrow> joypad_reset)"

definition regLoad :: "'ch env \<Rightarrow> int \<Rightarrow> 'ch nes_state \<Rightarrow> int \<times> 'ch nes_state" where
  "regLoad e address s =
     (if drop_bit 12 address = 2 \<or> drop_bit 12 address = 3 then
        (let r = address AND 7 in
         if r = 2 then readStatusRegister s
         else if r = 4 then (int (sramLoad (ppu s)), s)
         else if r = 7 then (let (v, p) = vramLoad (ppu s) in (int v, s\<lparr>ppu := p\<rparr>))
         else (int (openBusLatch (ppu s)), s))
      else if drop_bit 12 address = 4 then
        (if address - 0x4015 = 0 then
           (let (v, a) = readReg (apu e) (dataBus (cpu s)) (papu s) in (v, s\<lparr>papu := a\<rparr>))
         else if address - 0x4015 = 1 then
           (let (v, m) = joy1Read (buttons1 s) (the_joypad s)
            in ((int v AND 0x1F) OR (dataBus (cpu s) AND 0xE0), s\<lparr>mmap := Some m\<rparr>))
         else if address - 0x4015 = 2 then
           (let (lit, s1) = (case zapper s of
                               None \<Rightarrow> (False, s)
                             | Some (x, y) \<Rightarrow>
                                 (pixelWhite e (triggerRendering (ppu s)) x y,
                                  s\<lparr>ppu := triggerRendering (ppu s)\<rparr>));
                w0 = (if lit then 0 else push_bit 3 1);
                w = (if zapperFired s1 then w0 OR push_bit 4 1 else w0);
                (v, m) = joy2Read (buttons2 s1) (the_joypad s1)
            in (((int v OR w) AND 0x1F) OR (dataBus (cpu s1) AND 0xE0), s1\<lparr>mmap := Some m\<rparr>))
         else (openBusLoad e s, s))
      else (openBusLoad e s, s))"

definition mmap_load :: "'ch env \<Rightarrow> int \<Rightarrow> 'ch nes_state \<Rightarrow> int \<times> 'ch nes_state" where
  "mmap_load e address0 s =
     (let address = address0 AND 0xFFFF in
      if address > 0x4017 then
        (if address < 0x6000 then (dataBus (cpu s), s) else (mem (cpu s) address, s))
      else if address \<ge> 0x2000 then regLoad e address s
      else (mem (cpu s) (address AND 0x7FF), s))"

text \<open>
  \<^verbatim>\<open>regWrite\<close>. A write to \<^verbatim>\<open>$2007\<close> goes through \<^verbatim>\<open>mirroredWrite\<close>, which can only throw for
  an address of \<open>0x8000\<close> or more, and \<^verbatim>\<open>vramWrite\<close> masks its address to 15 bits; so no
  error can come out here, and the error branch leaves the PPU as it was.
\<close>

definition ppu_write :: "'ch env \<Rightarrow> int \<Rightarrow> int \<Rightarrow> ppu_state \<Rightarrow> ppu_state" where
  "ppu_write e address value p =
     (case ppu_regWrite (hit_test e) (vromCount e) (nat address) (nat value) p of
        Inr p1 \<Rightarrow> p1
      | Inl err \<Rightarrow> p)"

definition cpu_mem_nat :: "cpu_state \<Rightarrow> nat \<Rightarrow> nat" where
  "cpu_mem_nat c a = nat (mem c (int a))"

definition regWrite :: "'ch env \<Rightarrow> int \<Rightarrow> int \<Rightarrow> 'ch nes_state \<Rightarrow> 'ch nes_state" where
  "regWrite e address value s =
     (if address \<ge> 0x2000 \<and> address \<le> 0x3FFF then
        (let s1 = (if address = 0x2000 \<or> address = 0x2001
                   then s\<lparr>cpu := (cpu s)\<lparr>mem := (mem (cpu s))(address := value)\<rparr>\<rparr> else s)
         in s1\<lparr>ppu := ppu_write e address value (ppu s1)\<rparr>)
      else if address = 0x4014 then
        (let (p, h) = sramDMA (hit_test e) (cpu_mem_nat (cpu s)) (nat value) (ppu s)
         in s\<lparr>ppu := p, cpu := haltCycles (int h) (cpu s)\<rparr>)
      else if address = 0x4016 then
        s\<lparr>mmap := Some (regWrite_4016 (nat value) (the_joypad s))\<rparr>
      else if address \<ge> 0x4000 \<and> address \<le> 0x4017 then
        (let (a, req) = writeReg (apu e) (mem (cpu s)) address value (papu s)
         in s\<lparr>papu := a, cpu := serve_request req (cpu s)\<rparr>)
      else s)"

text \<open>\<^verbatim>\<open>Mapper0.write\<close>; the host callback for battery RAM is not part of the state.\<close>

definition mmap_write :: "'ch env \<Rightarrow> int \<Rightarrow> int \<Rightarrow> 'ch nes_state \<Rightarrow> 'ch nes_state" where
  "mmap_write e address value s =
     (if address < 0x2000
      then s\<lparr>cpu := (cpu s)\<lparr>mem := (mem (cpu s))(address AND 0x7FF := value)\<rparr>\<rparr>
      else if address \<ge> 0x8000 then s
      else if address \<ge> 0x6000
      then s\<lparr>cpu := (cpu s)\<lparr>mem := (mem (cpu s))(address := value)\<rparr>\<rparr>
      else if address > 0x4017
      then s\<lparr>cpu := (cpu s)\<lparr>mem := (mem (cpu s))(address := value)\<rparr>\<rparr>
      else if address > 0x2007 \<and> address < 0x4000
      then regWrite e (0x2000 + (address AND 0x7)) value s
      else regWrite e address value s)"

subsection \<open>Bus cycles of the CPU\<close>

text \<open>The entry of the log for a cycle that has just finished.\<close>

definition logCycle :: "bus_kind \<Rightarrow> int \<Rightarrow> int \<Rightarrow> 'ch nes_state \<Rightarrow> 'ch nes_state" where
  "logCycle k a v s =
     s\<lparr>busLog := busLog s @ [\<lparr>bc_kind = k, bc_addr = a, bc_byte = v,
                                 bc_dataBus = dataBus (cpu s)\<rparr>]\<rparr>"

text \<open>\<^verbatim>\<open>GameGenie.applyCodes\<close>: the first patch for the address, if its key allows it.\<close>

fun applyCodes :: "patch list \<Rightarrow> int \<Rightarrow> int \<Rightarrow> int" where
  "applyCodes [] addr value = value"
| "applyCodes (p # ps) addr value =
     (if p_addr p = (addr AND 0x7FFF) \<and> (p_key p = None \<or> p_key p = Some value)
      then p_value p else applyCodes ps addr value)"

definition loadFromCartridge :: "'ch env \<Rightarrow> int \<Rightarrow> 'ch nes_state \<Rightarrow> int \<times> 'ch nes_state" where
  "loadFromCartridge e addr s =
     (let (v, s1) = mmap_load e addr s
      in if gg_enabled s1 \<and> length (gg_patches s1) > 0
         then (applyCodes (gg_patches s1) addr v, s1) else (v, s1))"

definition load :: "'ch env \<Rightarrow> int \<Rightarrow> 'ch nes_state \<Rightarrow> int \<times> 'ch nes_state" where
  "load e addr s =
     (let s1 = (if addr \<ge> 0x2000 \<and> addr < 0x4000 then ppuCatchUp e s else s);
          (v, s2) = (if addr < 0x2000 then (mem (cpu s1) (addr AND 0x7FF), s1)
                     else loadFromCartridge e addr s1);
          c = (cpu s2)\<lparr>dataBus := v\<rparr>
      in (v, logCycle BusRead addr v (s2\<lparr>cpu := c\<lparr>instrBusCycles := instrBusCycles c + 1\<rparr>\<rparr>)))"

definition load16bit :: "'ch env \<Rightarrow> int \<Rightarrow> 'ch nes_state \<Rightarrow> int \<times> 'ch nes_state" where
  "load16bit e addr s =
     (if addr < 0x1FFF then
        (let lo = mem (cpu s) (addr AND 0x7FF);
             s1 = logCycle BusRead addr lo (s\<lparr>cpu := (cpu s)\<lparr>dataBus := lo\<rparr>\<rparr>);
             hi = mem (cpu s1) ((addr + 1) AND 0x7FF);
             s2 = logCycle BusRead (addr + 1) hi (s1\<lparr>cpu := (cpu s1)\<lparr>dataBus := hi\<rparr>\<rparr>)
         in (lo OR push_bit 8 hi,
             s2\<lparr>cpu := (cpu s2)\<lparr>instrBusCycles := instrBusCycles (cpu s2) + 2\<rparr>\<rparr>))
      else
        (let (lo, s0) = loadFromCartridge e addr s;
             s1 = logCycle BusRead addr lo (s0\<lparr>cpu := (cpu s0)\<lparr>dataBus := lo\<rparr>\<rparr>);
             (hi, s2) = loadFromCartridge e (addr + 1) s1;
             s3 = logCycle BusRead (addr + 1) hi (s2\<lparr>cpu := (cpu s2)\<lparr>dataBus := hi\<rparr>\<rparr>)
         in (lo OR push_bit 8 hi,
             s3\<lparr>cpu := (cpu s3)\<lparr>instrBusCycles := instrBusCycles (cpu s3) + 2\<rparr>\<rparr>)))"

text \<open>\<^verbatim>\<open>CPU.write\<close> (\<open>write\<close> is a reserved word of the theory language).\<close>

definition write_cpu :: "'ch env \<Rightarrow> int \<Rightarrow> int \<Rightarrow> 'ch nes_state \<Rightarrow> 'ch nes_state" where
  "write_cpu e addr val s =
     (let s1 = s\<lparr>cpu := (cpu s)\<lparr>dataBus := val\<rparr>\<rparr>;
          s2 = (if addr \<ge> 0x2000 \<and> addr < 0x4000 then ppuCatchUp e s1 else s1);
          s3 = (if addr < 0x2000
                then s2\<lparr>cpu := (cpu s2)\<lparr>mem := (mem (cpu s2))(addr AND 0x7FF := val)\<rparr>\<rparr>
                else mmap_write e addr val s2)
      in logCycle BusWrite addr val
           (s3\<lparr>cpu := (cpu s3)\<lparr>instrBusCycles := instrBusCycles (cpu s3) + 1\<rparr>\<rparr>))"

definition push :: "'ch env \<Rightarrow> int \<Rightarrow> 'ch nes_state \<Rightarrow> 'ch nes_state" where
  "push e value s =
     (let s1 = s\<lparr>cpu := (cpu s)\<lparr>dataBus := value\<rparr>\<rparr>;
          a = REG_SP (cpu s1) OR 0x100;
          s2 = mmap_write e a value s1;
          c = cpu s2
      in logCycle BusWrite a value
           (s2\<lparr>cpu := c\<lparr>REG_SP := (REG_SP c - 1) AND 0xFF,
                            instrBusCycles := instrBusCycles c + 1\<rparr>\<rparr>))"

definition pull :: "'ch env \<Rightarrow> 'ch nes_state \<Rightarrow> int \<times> 'ch nes_state" where
  "pull e s =
     (let s1 = s\<lparr>cpu := (cpu s)\<lparr>REG_SP := (REG_SP (cpu s) + 1) AND 0xFF\<rparr>\<rparr>;
          a = 0x100 OR REG_SP (cpu s1);
          (v, s2) = mmap_load e a s1;
          c = (cpu s2)\<lparr>dataBus := v\<rparr>
      in (v, logCycle BusRead a v (s2\<lparr>cpu := c\<lparr>instrBusCycles := instrBusCycles c + 1\<rparr>\<rparr>)))"

section \<open>The CPU (cpu.js)\<close>

subsection \<open>The opcode table\<close>

text \<open>
  \<^verbatim>\<open>OpData\<close>: every cell starts as \<open>0xFF\<close>, the invalid instruction, and \<^verbatim>\<open>setOp\<close> packs
  instruction, addressing mode, size and cycles into one number. \<open>opEntries\<close> lists the
  arguments of the calls of \<^verbatim>\<open>setOp\<close> in the order of the source, as
  (instruction, opcode, addressing mode, size, cycles).
\<close>

definition setOp :: "int \<Rightarrow> int \<Rightarrow> int \<Rightarrow> int \<Rightarrow> int \<Rightarrow> (int \<Rightarrow> int) \<Rightarrow> (int \<Rightarrow> int)" where
  "setOp inst op addr sz cycles tbl =
     tbl(op := (inst AND 0xFF) OR push_bit 8 (addr AND 0xFF) OR push_bit 16 (sz AND 0xFF)
                 OR push_bit 24 (cycles AND 0xFF))"

definition opEntries :: "(int \<times> int \<times> int \<times> int \<times> int) list" where
  "opEntries = [
   (0, 0x69, 5, 2, 2), (0, 0x65, 0, 2, 3), (0, 0x75, 6, 2, 4), (0, 0x6D, 3, 3, 4),
   (0, 0x7D, 8, 3, 4), (0, 0x79, 9, 3, 4), (0, 0x61, 10, 2, 6), (0, 0x71, 11, 2, 5),
   (1, 0x29, 5, 2, 2), (1, 0x25, 0, 2, 3), (1, 0x35, 6, 2, 4), (1, 0x2D, 3, 3, 4),
   (1, 0x3D, 8, 3, 4), (1, 0x39, 9, 3, 4), (1, 0x21, 10, 2, 6), (1, 0x31, 11, 2, 5),
   (2, 0x0A, 4, 1, 2), (2, 0x06, 0, 2, 5), (2, 0x16, 6, 2, 6), (2, 0x0E, 3, 3, 6),
   (2, 0x1E, 8, 3, 7), (3, 0x90, 1, 2, 2), (4, 0xB0, 1, 2, 2), (5, 0xF0, 1, 2, 2),
   (6, 0x24, 0, 2, 3), (6, 0x2C, 3, 3, 4), (7, 0x30, 1, 2, 2), (8, 0xD0, 1, 2, 2),
   (9, 0x10, 1, 2, 2), (10, 0x00, 2, 1, 7), (11, 0x50, 1, 2, 2), (12, 0x70, 1, 2, 2),
   (13, 0x18, 2, 1, 2), (14, 0xD8, 2, 1, 2), (15, 0x58, 2, 1, 2), (16, 0xB8, 2, 1, 2),
   (17, 0xC9, 5, 2, 2), (17, 0xC5, 0, 2, 3), (17, 0xD5, 6, 2, 4), (17, 0xCD, 3, 3, 4),
   (17, 0xDD, 8, 3, 4), (17, 0xD9, 9, 3, 4), (17, 0xC1, 10, 2, 6), (17, 0xD1, 11, 2, 5),
   (18, 0xE0, 5, 2, 2), (18, 0xE4, 0, 2, 3), (18, 0xEC, 3, 3, 4), (19, 0xC0, 5, 2, 2),
   (19, 0xC4, 0, 2, 3), (19, 0xCC, 3, 3, 4), (20, 0xC6, 0, 2, 5), (20, 0xD6, 6, 2, 6),
   (20, 0xCE, 3, 3, 6), (20, 0xDE, 8, 3, 7), (21, 0xCA, 2, 1, 2), (22, 0x88, 2, 1, 2),
   (23, 0x49, 5, 2, 2), (23, 0x45, 0, 2, 3), (23, 0x55, 6, 2, 4), (23, 0x4D, 3, 3, 4),
   (23, 0x5D, 8, 3, 4), (23, 0x59, 9, 3, 4), (23, 0x41, 10, 2, 6), (23, 0x51, 11, 2, 5),
   (24, 0xE6, 0, 2, 5), (24, 0xF6, 6, 2, 6), (24, 0xEE, 3, 3, 6), (24, 0xFE, 8, 3, 7),
   (25, 0xE8, 2, 1, 2), (26, 0xC8, 2, 1, 2), (27, 0x4C, 3, 3, 3), (27, 0x6C, 12, 3, 5),
   (28, 0x20, 3, 3, 6), (29, 0xA9, 5, 2, 2), (29, 0xA5, 0, 2, 3), (29, 0xB5, 6, 2, 4),
   (29, 0xAD, 3, 3, 4), (29, 0xBD, 8, 3, 4), (29, 0xB9, 9, 3, 4), (29, 0xA1, 10, 2, 6),
   (29, 0xB1, 11, 2, 5), (30, 0xA2, 5, 2, 2), (30, 0xA6, 0, 2, 3), (30, 0xB6, 7, 2, 4),
   (30, 0xAE, 3, 3, 4), (30, 0xBE, 9, 3, 4), (31, 0xA0, 5, 2, 2), (31, 0xA4, 0, 2, 3),
   (31, 0xB4, 6, 2, 4), (31, 0xAC, 3, 3, 4), (31, 0xBC, 8, 3, 4), (32, 0x4A, 4, 1, 2),
   (32, 0x46, 0, 2, 5), (32, 0x56, 6, 2, 6), (32, 0x4E, 3, 3, 6), (32, 0x5E, 8, 3, 7),
   (33, 0x1A, 2, 1, 2), (33, 0x3A, 2, 1, 2), (33, 0x5A, 2, 1, 2), (33, 0x7A, 2, 1, 2),
   (33, 0xDA, 2, 1, 2), (33, 0xEA, 2, 1, 2), (33, 0xFA, 2, 1, 2), (34, 0x09, 5, 2, 2),
   (34, 0x05, 0, 2, 3), (34, 0x15, 6, 2, 4), (34, 0x0D, 3, 3, 4), (34, 0x1D, 8, 3, 4),
   (34, 0x19, 9, 3, 4), (34, 0x01, 10, 2, 6), (34, 0x11, 11, 2, 5), (35, 0x48, 2, 1, 3),
   (36, 0x08, 2, 1, 3), (37, 0x68, 2, 1, 4), (38, 0x28, 2, 1, 4), (39, 0x2A, 4, 1, 2),
   (39, 0x26, 0, 2, 5), (39, 0x36, 6, 2, 6), (39, 0x2E, 3, 3, 6), (39, 0x3E, 8, 3, 7),
   (40, 0x6A, 4, 1, 2), (40, 0x66, 0, 2, 5), (40, 0x76, 6, 2, 6), (40, 0x6E, 3, 3, 6),
   (40, 0x7E, 8, 3, 7), (41, 0x40, 2, 1, 6), (42, 0x60, 2, 1, 6), (43, 0xE9, 5, 2, 2),
   (43, 0xEB, 5, 2, 2), (43, 0xE5, 0, 2, 3), (43, 0xF5, 6, 2, 4), (43, 0xED, 3, 3, 4),
   (43, 0xFD, 8, 3, 4), (43, 0xF9, 9, 3, 4), (43, 0xE1, 10, 2, 6), (43, 0xF1, 11, 2, 5),
   (44, 0x38, 2, 1, 2), (45, 0xF8, 2, 1, 2), (46, 0x78, 2, 1, 2), (47, 0x85, 0, 2, 3),
   (47, 0x95, 6, 2, 4), (47, 0x8D, 3, 3, 4), (47, 0x9D, 8, 3, 5), (47, 0x99, 9, 3, 5),
   (47, 0x81, 10, 2, 6), (47, 0x91, 11, 2, 6), (48, 0x86, 0, 2, 3), (48, 0x96, 7, 2, 4),
   (48, 0x8E, 3, 3, 4), (49, 0x84, 0, 2, 3), (49, 0x94, 6, 2, 4), (49, 0x8C, 3, 3, 4),
   (50, 0xAA, 2, 1, 2), (51, 0xA8, 2, 1, 2), (52, 0xBA, 2, 1, 2), (53, 0x8A, 2, 1, 2),
   (54, 0x9A, 2, 1, 2), (55, 0x98, 2, 1, 2), (56, 0x4B, 5, 2, 2), (57, 0x0B, 5, 2, 2),
   (57, 0x2B, 5, 2, 2), (58, 0x6B, 5, 2, 2), (59, 0xCB, 5, 2, 2), (60, 0xA3, 10, 2, 6),
   (60, 0xA7, 0, 2, 3), (60, 0xAF, 3, 3, 4), (60, 0xB3, 11, 2, 5), (60, 0xB7, 7, 2, 4),
   (60, 0xBF, 9, 3, 4), (61, 0x83, 10, 2, 6), (61, 0x87, 0, 2, 3), (61, 0x8F, 3, 3, 4),
   (61, 0x97, 7, 2, 4), (62, 0xC3, 10, 2, 8), (62, 0xC7, 0, 2, 5), (62, 0xCF, 3, 3, 6),
   (62, 0xD3, 11, 2, 8), (62, 0xD7, 6, 2, 6), (62, 0xDB, 9, 3, 7), (62, 0xDF, 8, 3, 7),
   (63, 0xE3, 10, 2, 8), (63, 0xE7, 0, 2, 5), (63, 0xEF, 3, 3, 6), (63, 0xF3, 11, 2, 8),
   (63, 0xF7, 6, 2, 6), (63, 0xFB, 9, 3, 7), (63, 0xFF, 8, 3, 7), (64, 0x23, 10, 2, 8),
   (64, 0x27, 0, 2, 5), (64, 0x2F, 3, 3, 6), (64, 0x33, 11, 2, 8), (64, 0x37, 6, 2, 6),
   (64, 0x3B, 9, 3, 7), (64, 0x3F, 8, 3, 7), (65, 0x63, 10, 2, 8), (65, 0x67, 0, 2, 5),
   (65, 0x6F, 3, 3, 6), (65, 0x73, 11, 2, 8), (65, 0x77, 6, 2, 6), (65, 0x7B, 9, 3, 7),
   (65, 0x7F, 8, 3, 7), (66, 0x03, 10, 2, 8), (66, 0x07, 0, 2, 5), (66, 0x0F, 3, 3, 6),
   (66, 0x13, 11, 2, 8), (66, 0x17, 6, 2, 6), (66, 0x1B, 9, 3, 7), (66, 0x1F, 8, 3, 7),
   (67, 0x43, 10, 2, 8), (67, 0x47, 0, 2, 5), (67, 0x4F, 3, 3, 6), (67, 0x53, 11, 2, 8),
   (67, 0x57, 6, 2, 6), (67, 0x5B, 9, 3, 7), (67, 0x5F, 8, 3, 7), (68, 0x80, 5, 2, 2),
   (68, 0x82, 5, 2, 2), (68, 0x89, 5, 2, 2), (68, 0xC2, 5, 2, 2), (68, 0xE2, 5, 2, 2),
   (69, 0x0C, 3, 3, 4), (69, 0x1C, 8, 3, 4), (69, 0x3C, 8, 3, 4), (69, 0x5C, 8, 3, 4),
   (69, 0x7C, 8, 3, 4), (69, 0xDC, 8, 3, 4), (69, 0xFC, 8, 3, 4), (69, 0x04, 0, 2, 3),
   (69, 0x44, 0, 2, 3), (69, 0x64, 0, 2, 3), (69, 0x14, 6, 2, 4), (69, 0x34, 6, 2, 4),
   (69, 0x54, 6, 2, 4), (69, 0x74, 6, 2, 4), (69, 0xD4, 6, 2, 4), (69, 0xF4, 6, 2, 4),
   (71, 0x93, 11, 2, 6), (71, 0x9F, 9, 3, 5), (72, 0x9B, 9, 3, 5), (73, 0x9C, 8, 3, 5),
   (74, 0x9E, 9, 3, 5), (75, 0xBB, 9, 3, 4), (76, 0x8B, 5, 2, 2), (77, 0xAB, 5, 2, 2)]"

definition opdata :: "int \<Rightarrow> int" where
  "opdata = fold (\<lambda>(inst, op, addr, sz, cycles). setOp inst op addr sz cycles)
                 opEntries (\<lambda>i. 0xFF)"

text \<open>
  \<^verbatim>\<open>this.opdata[opcode]\<close>. The array has 256 cells; outside it the result is \<^verbatim>\<open>undefined\<close>,
  which every shift and mask that \<^verbatim>\<open>emulate\<close> applies to it turns into 0.
\<close>

definition opinfo :: "int \<Rightarrow> int" where
  "opinfo opcode = (if 0 \<le> opcode \<and> opcode < 256 then opdata opcode else 0)"



subsection \<open>Status byte, interrupts and addressing modes\<close>

text \<open>
  What the console can throw: the error of the invalid opcode, with the address of the
  instruction; the error of \<^verbatim>\<open>frame\<close> on a crashed console; the \<^verbatim>\<open>TypeError\<close> of a call
  to the mapper while \<^verbatim>\<open>nes.mmap\<close> is \<^verbatim>\<open>null\<close>; the \<^verbatim>\<open>TypeError\<close> of a call of a method
  that the object does not have; and the error of \<^verbatim>\<open>rom.load\<close> on data that is no ROM image.
\<close>

datatype nes_error = InvalidOpcode int | GameHasCrashed | NullMapper | NotAFunction | InvalidRom

text \<open>
  The status byte, which the source spells out in \<^verbatim>\<open>getStatus\<close>, in the interrupt check of
  \<^verbatim>\<open>emulate\<close>, and in the cases of BRK and PHP.
\<close>

definition getStatus :: "cpu_state \<Rightarrow> int" where
  "getStatus c =
     F_CARRY c OR push_bit 1 (if F_ZERO c = 0 then 1 else 0) OR push_bit 2 (F_INTERRUPT c)
       OR push_bit 3 (F_DECIMAL c) OR push_bit 4 (F_BRK c) OR push_bit 5 (F_NOTUSED c)
       OR push_bit 6 (F_OVERFLOW c) OR push_bit 7 (F_SIGN c)"

definition setStatus :: "int \<Rightarrow> cpu_state \<Rightarrow> cpu_state" where
  "setStatus st c =
     c\<lparr>F_CARRY := st AND 1,
       F_ZERO := (if drop_bit 1 st AND 1 = 1 then 0 else 1),
       F_INTERRUPT := drop_bit 2 st AND 1,
       F_DECIMAL := drop_bit 3 st AND 1,
       F_BRK := drop_bit 4 st AND 1,
       F_NOTUSED := drop_bit 5 st AND 1,
       F_OVERFLOW := drop_bit 6 st AND 1,
       F_SIGN := drop_bit 7 st AND 1\<rparr>"

text \<open>
  The fetch of an interrupt vector, which the three interrupt routines share: two reads
  from the cartridge, each stored in \<^verbatim>\<open>dataBus\<close>; \<^verbatim>\<open>REG_PC_NEW\<close> is the address read, minus one.
\<close>

definition fetchVector :: "'ch env \<Rightarrow> int \<Rightarrow> 'ch nes_state \<Rightarrow> 'ch nes_state" where
  "fetchVector e a s =
     (let (lo, s0) = loadFromCartridge e a s;
          s1 = logCycle BusRead a lo (s0\<lparr>cpu := (cpu s0)\<lparr>dataBus := lo\<rparr>\<rparr>);
          (hi, s2) = loadFromCartridge e (a + 1) s1;
          s3 = logCycle BusRead (a + 1) hi (s2\<lparr>cpu := (cpu s2)\<lparr>dataBus := hi\<rparr>\<rparr>)
      in s3\<lparr>cpu := (cpu s3)\<lparr>REG_PC_NEW := (lo OR push_bit 8 (dataBus (cpu s3))) - 1\<rparr>\<rparr>)"

definition pushReturn :: "'ch env \<Rightarrow> int \<Rightarrow> 'ch nes_state \<Rightarrow> 'ch nes_state" where
  "pushReturn e status s =
     (let s1 = s\<lparr>cpu := (cpu s)\<lparr>REG_PC_NEW := REG_PC_NEW (cpu s) + 1\<rparr>\<rparr>;
          s2 = push e (drop_bit 8 (REG_PC_NEW (cpu s1)) AND 0xFF) s1;
          s3 = push e (REG_PC_NEW (cpu s2) AND 0xFF) s2
      in push e status s3)"

definition doNonMaskableInterrupt :: "'ch env \<Rightarrow> int \<Rightarrow> 'ch nes_state \<Rightarrow> 'ch nes_state" where
  "doNonMaskableInterrupt e status s =
     (if mmap s = None then s else fetchVector e 0xFFFA (pushReturn e status s))"

definition doResetInterrupt :: "'ch env \<Rightarrow> 'ch nes_state \<Rightarrow> 'ch nes_state" where
  "doResetInterrupt e s = fetchVector e 0xFFFC s"

definition doIrq :: "'ch env \<Rightarrow> int \<Rightarrow> 'ch nes_state \<Rightarrow> 'ch nes_state" where
  "doIrq e status s =
     (let s1 = pushReturn e status s;
          s2 = s1\<lparr>cpu := (cpu s1)\<lparr>F_INTERRUPT_NEW := 1, F_BRK_NEW := 0\<rparr>\<rparr>
      in fetchVector e 0xFFFE s2)"

text \<open>
  The interrupt check at the head of \<^verbatim>\<open>emulate\<close>. A normal interrupt that is not masked and
  a reset go to the mapper without a test, and throw when there is none: \<^verbatim>\<open>doIrq\<close> in its
  first \<^verbatim>\<open>push\<close>, after it has stepped \<^verbatim>\<open>REG_PC_NEW\<close> and set \<^verbatim>\<open>dataBus\<close>, and
  \<^verbatim>\<open>doResetInterrupt\<close> in its first read.
\<close>

definition checkInterrupts :: "'ch env \<Rightarrow> 'ch nes_state \<Rightarrow> (nes_error \<times> 'ch nes_state) + 'ch nes_state" where
  "checkInterrupts e s =
     (if irqRequested (cpu s) then
        (let temp = getStatus (cpu s);
             s1 = s\<lparr>cpu := (cpu s)\<lparr>REG_PC_NEW := REG_PC (cpu s),
                                    F_INTERRUPT_NEW := F_INTERRUPT (cpu s)\<rparr>\<rparr>;
             finish = (\<lambda>t. Inr (t\<lparr>cpu := (cpu t)\<lparr>REG_PC := REG_PC_NEW (cpu t),
                                                  F_INTERRUPT := F_INTERRUPT_NEW (cpu t),
                                                  F_BRK := F_BRK_NEW (cpu t),
                                                  irqRequested := False\<rparr>\<rparr>))
         in if irqType (cpu s1) = Some 0 then
              (if F_INTERRUPT (cpu s1) \<noteq> 0 then finish s1
               else if mmap s1 = None then
                 Inl (NullMapper,
                      s1\<lparr>cpu := (cpu s1)\<lparr>REG_PC_NEW := REG_PC_NEW (cpu s1) + 1,
                          dataBus := drop_bit 8 (REG_PC_NEW (cpu s1) + 1) AND 0xFF\<rparr>\<rparr>)
               else finish (doIrq e (temp AND 0xEF) s1))
            else if irqType (cpu s1) = Some 1 then
              finish (doNonMaskableInterrupt e (temp AND 0xEF) s1)
            else if irqType (cpu s1) = Some 2 then
              (if mmap s1 = None then Inl (NullMapper, s1)
               else finish (doResetInterrupt e s1))
            else finish s1)
      else Inr s)"

definition cyclesToNextDmcFetch :: "'ch env \<Rightarrow> 'ch nes_state \<Rightarrow> int" where
  "cyclesToNextDmcFetch e s =
     (let dmc = channels (papu s) in
      if \<not> dmc_isEnabled (apu e) dmc \<or> dmc_dmaFrequency (apu e) dmc \<le> 0 then 0x7FFFFFFF
      else if \<not> dmc_hasSample (apu e) dmc then 0x7FFFFFFF
      else
        (let cyclesPerClock = drop_bit 3 (dmc_dmaFrequency (apu e) dmc);
             first = drop_bit 3 (dmc_shiftCounter (apu e) dmc + 7);
             cyclesToFirstClock = (if first \<le> 0 then cyclesPerClock else first)
         in cyclesToFirstClock + (dmc_dmaCounter (apu e) dmc - 1) * cyclesPerClock))"

text \<open>
  The page-crossing test and dummy read of the modes 8, 9 and 11: the base address, the
  index register; the result is the indexed address, \<^verbatim>\<open>cycleAdd\<close> and the state.
\<close>

definition indexed ::
  "'ch env \<Rightarrow> int \<Rightarrow> (cpu_state \<Rightarrow> int) \<Rightarrow> 'ch nes_state \<Rightarrow> int \<times> int \<times> 'ch nes_state" where
  "indexed e base reg s =
     (if (base AND 0xFF00) \<noteq> ((base + reg (cpu s)) AND 0xFF00)
      then (let (d, s1) = load e ((base AND 0xFF00) OR ((base + reg (cpu s)) AND 0xFF)) s
            in (base + reg (cpu s1), 1, s1))
      else (base + reg (cpu s), 0, s))"

text \<open>
  The switch on the addressing mode. The result is \<^verbatim>\<open>addr\<close> (before it is masked to 16
  bits), \<^verbatim>\<open>cycleAdd\<close>, \<^verbatim>\<open>baseHigh\<close> and the state. In mode 12 the two bytes of the pointer are
  read from \<^verbatim>\<open>mem\<close> or through \<^verbatim>\<open>loadFromCartridge\<close> and nothing else is done; the log
  has an entry for each of the two reads.
\<close>

definition addressing ::
  "'ch env \<Rightarrow> int \<Rightarrow> int \<Rightarrow> 'ch nes_state \<Rightarrow> int \<times> int \<times> int \<times> 'ch nes_state" where
  "addressing e addrMode opaddr s =
     (if addrMode = 0 then (let (a, s1) = load e (opaddr + 2) s in (a, 0, 0, s1))
      else if addrMode = 1 then
        (let (a, s1) = load e (opaddr + 2) s
         in (if a < 0x80 then a + REG_PC (cpu s1) else a + (REG_PC (cpu s1) - 256), 0, 0, s1))
      else if addrMode = 2 then (0, 0, 0, s)
      else if addrMode = 3 then (let (a, s1) = load16bit e (opaddr + 2) s in (a, 0, 0, s1))
      else if addrMode = 4 then (REG_ACC (cpu s), 0, 0, s)
      else if addrMode = 5 then (REG_PC (cpu s), 0, 0, s)
      else if addrMode = 6 then
        (let (zpBase6, s1) = load e (opaddr + 2) s;
             (d, s2) = load e zpBase6 s1
         in ((zpBase6 + REG_X (cpu s2)) AND 0xFF, 0, 0, s2))
      else if addrMode = 7 then
        (let (zpBase7, s1) = load e (opaddr + 2) s;
             (d, s2) = load e zpBase7 s1
         in ((zpBase7 + REG_Y (cpu s2)) AND 0xFF, 0, 0, s2))
      else if addrMode = 8 then
        (let (a, s1) = load16bit e (opaddr + 2) s;
             (a', cycleAdd, s2) = indexed e a REG_X s1
         in (a', cycleAdd, drop_bit 8 a AND 0xFF, s2))
      else if addrMode = 9 then
        (let (a, s1) = load16bit e (opaddr + 2) s;
             (a', cycleAdd, s2) = indexed e a REG_Y s1
         in (a', cycleAdd, drop_bit 8 a AND 0xFF, s2))
      else if addrMode = 10 then
        (let (zpPtr10, s1) = load e (opaddr + 2) s;
             (d, s2) = load e zpPtr10 s1;
             zpAddr10 = (zpPtr10 + REG_X (cpu s2)) AND 0xFF;
             (lo, s3) = load e zpAddr10 s2;
             (hi, s4) = load e ((zpAddr10 + 1) AND 0xFF) s3
         in (lo OR push_bit 8 hi, 0, 0, s4))
      else if addrMode = 11 then
        (let (zpAddr, s1) = load e (opaddr + 2) s;
             (lo, s2) = load e zpAddr s1;
             (hi, s3) = load e ((zpAddr + 1) AND 0xFF) s2;
             a = lo OR push_bit 8 hi;
             (a', cycleAdd, s4) = indexed e a REG_Y s3
         in (a', cycleAdd, drop_bit 8 a AND 0xFF, s4))
      else if addrMode = 12 then
        (let (a, s1) = load16bit e (opaddr + 2) s;
             a2 = (a AND 0xFF00) OR (((a AND 0xFF) + 1) AND 0xFF)
         in if a < 0x1FFF then
              (let lo = mem (cpu s1) a;
                   s2 = logCycle BusRead a lo s1;
                   hi = mem (cpu s2) a2;
                   s3 = logCycle BusRead a2 hi s2
               in (lo + push_bit 8 hi, 0, 0, s3))
            else
              (let (lo, s2) = loadFromCartridge e a s1;
                   s3 = logCycle BusRead a lo s2;
                   (hi, s4) = loadFromCartridge e a2 s3;
                   s5 = logCycle BusRead a2 hi s4
               in (lo + push_bit 8 hi, 0, 0, s5)))
      else (0, 0, 0, s))"

subsection \<open>The instructions\<close>

text \<open>
  One definition for each case of the switch on the instruction, under the name the opcode
  table gives it. A case that changes \<^verbatim>\<open>cycleCount\<close> takes it and returns it with the state.
\<close>

definition ins_ADC :: "'ch env \<Rightarrow> int \<Rightarrow> 'ch nes_state \<Rightarrow> 'ch nes_state" where
  "ins_ADC e addr s =
     (let (m1, s1) = load e addr s;
          temp = REG_ACC (cpu s) + m1 + F_CARRY (cpu s1);
          (m2, s2) = load e addr s1;
          ov = (if (REG_ACC (cpu s1) XOR m2) AND 0x80 = 0
                   \<and> (REG_ACC (cpu s2) XOR temp) AND 0x80 \<noteq> 0 then 1 else 0)
      in s2\<lparr>cpu := (cpu s2)\<lparr>F_OVERFLOW := ov,
                             F_CARRY := (if temp > 255 then 1 else 0),
                             F_SIGN := drop_bit 7 temp AND 1,
                             F_ZERO := temp AND 0xFF,
                             REG_ACC := temp AND 255\<rparr>\<rparr>)"

definition ins_AND :: "'ch env \<Rightarrow> int \<Rightarrow> 'ch nes_state \<Rightarrow> 'ch nes_state" where
  "ins_AND e addr s =
     (let (m, s1) = load e addr s;
          a = REG_ACC (cpu s) AND m
      in s1\<lparr>cpu := (cpu s1)\<lparr>REG_ACC := a, F_SIGN := drop_bit 7 a AND 1, F_ZERO := a\<rparr>\<rparr>)"

text \<open>
  The dummy read of the stores and of the read-modify-write instructions: indexed modes
  that crossed no page.
\<close>

definition indexedDummyRead :: "'ch env \<Rightarrow> int \<Rightarrow> int \<Rightarrow> int \<Rightarrow> 'ch nes_state \<Rightarrow> 'ch nes_state" where
  "indexedDummyRead e addrMode cycleAdd addr s =
     (if cycleAdd = 0 \<and> (addrMode = 8 \<or> addrMode = 9 \<or> addrMode = 11)
      then snd (load e addr s) else s)"

definition ins_ASL :: "'ch env \<Rightarrow> int \<Rightarrow> int \<Rightarrow> int \<Rightarrow> 'ch nes_state \<Rightarrow> 'ch nes_state" where
  "ins_ASL e addrMode cycleAdd addr s =
     (if addrMode = 4 then
        (let c = drop_bit 7 (REG_ACC (cpu s)) AND 1;
             a = push_bit 1 (REG_ACC (cpu s)) AND 255
         in s\<lparr>cpu := (cpu s)\<lparr>F_CARRY := c, REG_ACC := a,
                              F_SIGN := drop_bit 7 a AND 1, F_ZERO := a\<rparr>\<rparr>)
      else
        (let s0 = indexedDummyRead e addrMode cycleAdd addr s;
             (temp, s1) = load e addr s0;
             s2 = write_cpu e addr temp s1;
             s3 = s2\<lparr>cpu := (cpu s2)\<lparr>F_CARRY := drop_bit 7 temp AND 1\<rparr>\<rparr>;
             temp' = push_bit 1 temp AND 255;
             s4 = s3\<lparr>cpu := (cpu s3)\<lparr>F_SIGN := drop_bit 7 temp' AND 1, F_ZERO := temp'\<rparr>\<rparr>
         in write_cpu e addr temp' s4))"

text \<open>The taken branch, which the eight branch instructions share.\<close>

definition branch :: "int \<Rightarrow> int \<Rightarrow> int \<Rightarrow> 'ch nes_state \<Rightarrow> int \<times> 'ch nes_state" where
  "branch opaddr addr cycleCount s =
     (cycleCount + (if (opaddr AND 0xFF00) \<noteq> (addr AND 0xFF00) then 2 else 1),
      s\<lparr>cpu := (cpu s)\<lparr>REG_PC := addr\<rparr>\<rparr>)"

definition ins_BCC :: "int \<Rightarrow> int \<Rightarrow> int \<Rightarrow> 'ch nes_state \<Rightarrow> int \<times> 'ch nes_state" where
  "ins_BCC opaddr addr cycleCount s =
     (if F_CARRY (cpu s) = 0 then branch opaddr addr cycleCount s else (cycleCount, s))"

definition ins_BCS :: "int \<Rightarrow> int \<Rightarrow> int \<Rightarrow> 'ch nes_state \<Rightarrow> int \<times> 'ch nes_state" where
  "ins_BCS opaddr addr cycleCount s =
     (if F_CARRY (cpu s) = 1 then branch opaddr addr cycleCount s else (cycleCount, s))"

definition ins_BEQ :: "int \<Rightarrow> int \<Rightarrow> int \<Rightarrow> 'ch nes_state \<Rightarrow> int \<times> 'ch nes_state" where
  "ins_BEQ opaddr addr cycleCount s =
     (if F_ZERO (cpu s) = 0 then branch opaddr addr cycleCount s else (cycleCount, s))"

definition ins_BIT :: "'ch env \<Rightarrow> int \<Rightarrow> 'ch nes_state \<Rightarrow> 'ch nes_state" where
  "ins_BIT e addr s =
     (let (temp, s1) = load e addr s
      in s1\<lparr>cpu := (cpu s1)\<lparr>F_SIGN := drop_bit 7 temp AND 1,
                             F_OVERFLOW := drop_bit 6 temp AND 1,
                             F_ZERO := temp AND REG_ACC (cpu s1)\<rparr>\<rparr>)"

definition ins_BMI :: "int \<Rightarrow> int \<Rightarrow> int \<Rightarrow> 'ch nes_state \<Rightarrow> int \<times> 'ch nes_state" where
  "ins_BMI opaddr addr cycleCount s =
     (if F_SIGN (cpu s) = 1 then branch opaddr addr cycleCount s else (cycleCount, s))"

definition ins_BNE :: "int \<Rightarrow> int \<Rightarrow> int \<Rightarrow> 'ch nes_state \<Rightarrow> int \<times> 'ch nes_state" where
  "ins_BNE opaddr addr cycleCount s =
     (if F_ZERO (cpu s) \<noteq> 0 then branch opaddr addr cycleCount s else (cycleCount, s))"

definition ins_BPL :: "int \<Rightarrow> int \<Rightarrow> int \<Rightarrow> 'ch nes_state \<Rightarrow> int \<times> 'ch nes_state" where
  "ins_BPL opaddr addr cycleCount s =
     (if F_SIGN (cpu s) = 0 then branch opaddr addr cycleCount s else (cycleCount, s))"

definition ins_BRK :: "'ch env \<Rightarrow> 'ch nes_state \<Rightarrow> 'ch nes_state" where
  "ins_BRK e s =
     (let s1 = s\<lparr>cpu := (cpu s)\<lparr>REG_PC := REG_PC (cpu s) + 2\<rparr>\<rparr>;
          s2 = push e (drop_bit 8 (REG_PC (cpu s1)) AND 255) s1;
          s3 = push e (REG_PC (cpu s2) AND 255) s2;
          s4 = s3\<lparr>cpu := (cpu s3)\<lparr>F_BRK := 1\<rparr>\<rparr>;
          s5 = push e (getStatus (cpu s4)) s4;
          s6 = s5\<lparr>cpu := (cpu s5)\<lparr>F_INTERRUPT := 1\<rparr>\<rparr>;
          (v, s7) = load16bit e 0xFFFE s6
      in s7\<lparr>cpu := (cpu s7)\<lparr>REG_PC := v - 1\<rparr>\<rparr>)"

definition ins_BVC :: "int \<Rightarrow> int \<Rightarrow> int \<Rightarrow> 'ch nes_state \<Rightarrow> int \<times> 'ch nes_state" where
  "ins_BVC opaddr addr cycleCount s =
     (if F_OVERFLOW (cpu s) = 0 then branch opaddr addr cycleCount s else (cycleCount, s))"

definition ins_BVS :: "int \<Rightarrow> int \<Rightarrow> int \<Rightarrow> 'ch nes_state \<Rightarrow> int \<times> 'ch nes_state" where
  "ins_BVS opaddr addr cycleCount s =
     (if F_OVERFLOW (cpu s) = 1 then branch opaddr addr cycleCount s else (cycleCount, s))"

text \<open>CMP, CPX and CPY: the register is compared with the byte at the address.\<close>

definition compare :: "'ch env \<Rightarrow> (cpu_state \<Rightarrow> int) \<Rightarrow> int \<Rightarrow> 'ch nes_state \<Rightarrow> 'ch nes_state" where
  "compare e reg addr s =
     (let (m, s1) = load e addr s;
          temp = reg (cpu s) - m
      in s1\<lparr>cpu := (cpu s1)\<lparr>F_CARRY := (if temp \<ge> 0 then 1 else 0),
                             F_SIGN := drop_bit 7 temp AND 1,
                             F_ZERO := temp AND 0xFF\<rparr>\<rparr>)"

definition ins_CMP :: "'ch env \<Rightarrow> int \<Rightarrow> 'ch nes_state \<Rightarrow> 'ch nes_state" where
  "ins_CMP e addr s = compare e REG_ACC addr s"

definition ins_CPX :: "'ch env \<Rightarrow> int \<Rightarrow> 'ch nes_state \<Rightarrow> 'ch nes_state" where
  "ins_CPX e addr s = compare e REG_X addr s"

definition ins_CPY :: "'ch env \<Rightarrow> int \<Rightarrow> 'ch nes_state \<Rightarrow> 'ch nes_state" where
  "ins_CPY e addr s = compare e REG_Y addr s"

definition ins_DEC :: "'ch env \<Rightarrow> int \<Rightarrow> int \<Rightarrow> int \<Rightarrow> 'ch nes_state \<Rightarrow> 'ch nes_state" where
  "ins_DEC e addrMode cycleAdd addr s =
     (let s0 = indexedDummyRead e addrMode cycleAdd addr s;
          (temp, s1) = load e addr s0;
          s2 = write_cpu e addr temp s1;
          temp' = (temp - 1) AND 0xFF;
          s3 = s2\<lparr>cpu := (cpu s2)\<lparr>F_SIGN := drop_bit 7 temp' AND 1, F_ZERO := temp'\<rparr>\<rparr>
      in write_cpu e addr temp' s3)"

definition ins_DEX :: "'ch nes_state \<Rightarrow> 'ch nes_state" where
  "ins_DEX s =
     (let x = (REG_X (cpu s) - 1) AND 0xFF
      in s\<lparr>cpu := (cpu s)\<lparr>REG_X := x, F_SIGN := drop_bit 7 x AND 1, F_ZERO := x\<rparr>\<rparr>)"

definition ins_DEY :: "'ch nes_state \<Rightarrow> 'ch nes_state" where
  "ins_DEY s =
     (let y = (REG_Y (cpu s) - 1) AND 0xFF
      in s\<lparr>cpu := (cpu s)\<lparr>REG_Y := y, F_SIGN := drop_bit 7 y AND 1, F_ZERO := y\<rparr>\<rparr>)"

definition ins_EOR :: "'ch env \<Rightarrow> int \<Rightarrow> 'ch nes_state \<Rightarrow> 'ch nes_state" where
  "ins_EOR e addr s =
     (let (m, s1) = load e addr s;
          a = (m XOR REG_ACC (cpu s1)) AND 0xFF
      in s1\<lparr>cpu := (cpu s1)\<lparr>REG_ACC := a, F_SIGN := drop_bit 7 a AND 1, F_ZERO := a\<rparr>\<rparr>)"

definition ins_INC :: "'ch env \<Rightarrow> int \<Rightarrow> int \<Rightarrow> int \<Rightarrow> 'ch nes_state \<Rightarrow> 'ch nes_state" where
  "ins_INC e addrMode cycleAdd addr s =
     (let s0 = indexedDummyRead e addrMode cycleAdd addr s;
          (temp, s1) = load e addr s0;
          s2 = write_cpu e addr temp s1;
          temp' = (temp + 1) AND 0xFF;
          s3 = s2\<lparr>cpu := (cpu s2)\<lparr>F_SIGN := drop_bit 7 temp' AND 1, F_ZERO := temp'\<rparr>\<rparr>
      in write_cpu e addr temp' s3)"

definition ins_INX :: "'ch nes_state \<Rightarrow> 'ch nes_state" where
  "ins_INX s =
     (let x = (REG_X (cpu s) + 1) AND 0xFF
      in s\<lparr>cpu := (cpu s)\<lparr>REG_X := x, F_SIGN := drop_bit 7 x AND 1, F_ZERO := x\<rparr>\<rparr>)"

definition ins_INY :: "'ch nes_state \<Rightarrow> 'ch nes_state" where
  "ins_INY s =
     (let y = (REG_Y (cpu s) + 1) AND 0xFF
      in s\<lparr>cpu := (cpu s)\<lparr>REG_Y := y, F_SIGN := drop_bit 7 y AND 1, F_ZERO := y\<rparr>\<rparr>)"

definition ins_JMP :: "int \<Rightarrow> 'ch nes_state \<Rightarrow> 'ch nes_state" where
  "ins_JMP addr s = s\<lparr>cpu := (cpu s)\<lparr>REG_PC := addr - 1\<rparr>\<rparr>"

definition ins_JSR :: "'ch env \<Rightarrow> int \<Rightarrow> int \<Rightarrow> 'ch nes_state \<Rightarrow> 'ch nes_state" where
  "ins_JSR e opaddr addr s =
     (let s1 = push e (drop_bit 8 (REG_PC (cpu s)) AND 255) s;
          s2 = push e (REG_PC (cpu s1) AND 255) s1;
          (v, s3) = load e (opaddr + 3) s2
      in s3\<lparr>cpu := (cpu s3)\<lparr>dataBus := v, REG_PC := addr - 1\<rparr>\<rparr>)"

definition ins_LDA :: "'ch env \<Rightarrow> int \<Rightarrow> 'ch nes_state \<Rightarrow> 'ch nes_state" where
  "ins_LDA e addr s =
     (let (m, s1) = load e addr s
      in s1\<lparr>cpu := (cpu s1)\<lparr>REG_ACC := m, F_SIGN := drop_bit 7 m AND 1, F_ZERO := m\<rparr>\<rparr>)"

definition ins_LDX :: "'ch env \<Rightarrow> int \<Rightarrow> 'ch nes_state \<Rightarrow> 'ch nes_state" where
  "ins_LDX e addr s =
     (let (m, s1) = load e addr s
      in s1\<lparr>cpu := (cpu s1)\<lparr>REG_X := m, F_SIGN := drop_bit 7 m AND 1, F_ZERO := m\<rparr>\<rparr>)"

definition ins_LDY :: "'ch env \<Rightarrow> int \<Rightarrow> 'ch nes_state \<Rightarrow> 'ch nes_state" where
  "ins_LDY e addr s =
     (let (m, s1) = load e addr s
      in s1\<lparr>cpu := (cpu s1)\<lparr>REG_Y := m, F_SIGN := drop_bit 7 m AND 1, F_ZERO := m\<rparr>\<rparr>)"

definition ins_LSR :: "'ch env \<Rightarrow> int \<Rightarrow> int \<Rightarrow> int \<Rightarrow> 'ch nes_state \<Rightarrow> 'ch nes_state" where
  "ins_LSR e addrMode cycleAdd addr s =
     (if addrMode = 4 then
        (let temp = REG_ACC (cpu s) AND 0xFF;
             temp' = drop_bit 1 temp
         in s\<lparr>cpu := (cpu s)\<lparr>F_CARRY := temp AND 1, REG_ACC := temp',
                              F_SIGN := 0, F_ZERO := temp'\<rparr>\<rparr>)
      else
        (let s0 = indexedDummyRead e addrMode cycleAdd addr s;
             (m, s1) = load e addr s0;
             temp = m AND 0xFF;
             s2 = write_cpu e addr temp s1;
             s3 = s2\<lparr>cpu := (cpu s2)\<lparr>F_CARRY := temp AND 1\<rparr>\<rparr>;
             temp' = drop_bit 1 temp;
             s4 = write_cpu e addr temp' s3
         in s4\<lparr>cpu := (cpu s4)\<lparr>F_SIGN := 0, F_ZERO := temp'\<rparr>\<rparr>))"

definition ins_ORA :: "'ch env \<Rightarrow> int \<Rightarrow> 'ch nes_state \<Rightarrow> 'ch nes_state" where
  "ins_ORA e addr s =
     (let (m, s1) = load e addr s;
          temp = (m OR REG_ACC (cpu s1)) AND 255
      in s1\<lparr>cpu := (cpu s1)\<lparr>F_SIGN := drop_bit 7 temp AND 1, F_ZERO := temp,
                             REG_ACC := temp\<rparr>\<rparr>)"

definition ins_PHA :: "'ch env \<Rightarrow> 'ch nes_state \<Rightarrow> 'ch nes_state" where
  "ins_PHA e s = push e (REG_ACC (cpu s)) s"

definition ins_PHP :: "'ch env \<Rightarrow> 'ch nes_state \<Rightarrow> 'ch nes_state" where
  "ins_PHP e s =
     (let s1 = s\<lparr>cpu := (cpu s)\<lparr>F_BRK := 1\<rparr>\<rparr>
      in push e (getStatus (cpu s1)) s1)"

definition ins_PLA :: "'ch env \<Rightarrow> 'ch nes_state \<Rightarrow> 'ch nes_state" where
  "ins_PLA e s =
     (let (v, s1) = pull e s
      in s1\<lparr>cpu := (cpu s1)\<lparr>REG_ACC := v, F_SIGN := drop_bit 7 v AND 1, F_ZERO := v\<rparr>\<rparr>)"

definition ins_PLP :: "'ch env \<Rightarrow> 'ch nes_state \<Rightarrow> 'ch nes_state" where
  "ins_PLP e s =
     (let (temp, s1) = pull e s
      in s1\<lparr>cpu := (cpu s1)\<lparr>F_CARRY := temp AND 1,
                             F_ZERO := (if drop_bit 1 temp AND 1 = 1 then 0 else 1),
                             F_INTERRUPT := drop_bit 2 temp AND 1,
                             F_DECIMAL := drop_bit 3 temp AND 1,
                             F_OVERFLOW := drop_bit 6 temp AND 1,
                             F_SIGN := drop_bit 7 temp AND 1\<rparr>\<rparr>)"

definition ins_ROL :: "'ch env \<Rightarrow> int \<Rightarrow> int \<Rightarrow> int \<Rightarrow> 'ch nes_state \<Rightarrow> 'ch nes_state" where
  "ins_ROL e addrMode cycleAdd addr s =
     (if addrMode = 4 then
        (let temp = REG_ACC (cpu s);
             add = F_CARRY (cpu s);
             temp' = (push_bit 1 temp AND 0xFF) + add
         in s\<lparr>cpu := (cpu s)\<lparr>F_CARRY := drop_bit 7 temp AND 1, REG_ACC := temp',
                              F_SIGN := drop_bit 7 temp' AND 1, F_ZERO := temp'\<rparr>\<rparr>)
      else
        (let s0 = indexedDummyRead e addrMode cycleAdd addr s;
             (temp, s1) = load e addr s0;
             s2 = write_cpu e addr temp s1;
             add = F_CARRY (cpu s2);
             s3 = s2\<lparr>cpu := (cpu s2)\<lparr>F_CARRY := drop_bit 7 temp AND 1\<rparr>\<rparr>;
             temp' = (push_bit 1 temp AND 0xFF) + add;
             s4 = write_cpu e addr temp' s3
         in s4\<lparr>cpu := (cpu s4)\<lparr>F_SIGN := drop_bit 7 temp' AND 1, F_ZERO := temp'\<rparr>\<rparr>))"

definition ins_ROR :: "'ch env \<Rightarrow> int \<Rightarrow> int \<Rightarrow> int \<Rightarrow> 'ch nes_state \<Rightarrow> 'ch nes_state" where
  "ins_ROR e addrMode cycleAdd addr s =
     (if addrMode = 4 then
        (let add = push_bit 7 (F_CARRY (cpu s));
             temp = drop_bit 1 (REG_ACC (cpu s)) + add
         in s\<lparr>cpu := (cpu s)\<lparr>F_CARRY := REG_ACC (cpu s) AND 1, REG_ACC := temp,
                              F_SIGN := drop_bit 7 temp AND 1, F_ZERO := temp\<rparr>\<rparr>)
      else
        (let s0 = indexedDummyRead e addrMode cycleAdd addr s;
             (temp, s1) = load e addr s0;
             s2 = write_cpu e addr temp s1;
             add = push_bit 7 (F_CARRY (cpu s2));
             s3 = s2\<lparr>cpu := (cpu s2)\<lparr>F_CARRY := temp AND 1\<rparr>\<rparr>;
             temp' = drop_bit 1 temp + add;
             s4 = write_cpu e addr temp' s3
         in s4\<lparr>cpu := (cpu s4)\<lparr>F_SIGN := drop_bit 7 temp' AND 1, F_ZERO := temp'\<rparr>\<rparr>))"

text \<open>
  RTI and RTS return without a value (\<open>None\<close>) when the address pulled is \<open>0xFFFF\<close>.
\<close>

definition ins_RTI :: "'ch env \<Rightarrow> int \<Rightarrow> 'ch nes_state \<Rightarrow> int option \<times> 'ch nes_state" where
  "ins_RTI e cycleCount s =
     (let (temp, s1) = pull e s;
          s2 = s1\<lparr>cpu := (cpu s1)\<lparr>F_CARRY := temp AND 1,
                                  F_ZERO := (if drop_bit 1 temp AND 1 = 0 then 1 else 0),
                                  F_INTERRUPT := drop_bit 2 temp AND 1,
                                  F_DECIMAL := drop_bit 3 temp AND 1,
                                  F_OVERFLOW := drop_bit 6 temp AND 1,
                                  F_SIGN := drop_bit 7 temp AND 1\<rparr>\<rparr>;
          (lo, s3) = pull e s2;
          s4 = s3\<lparr>cpu := (cpu s3)\<lparr>REG_PC := lo\<rparr>\<rparr>;
          (hi, s5) = pull e s4;
          s6 = s5\<lparr>cpu := (cpu s5)\<lparr>REG_PC := REG_PC (cpu s4) + push_bit 8 hi\<rparr>\<rparr>
      in if REG_PC (cpu s6) = 0xFFFF then (None, s6)
         else (Some cycleCount, s6\<lparr>cpu := (cpu s6)\<lparr>REG_PC := REG_PC (cpu s6) - 1\<rparr>\<rparr>))"

definition ins_RTS :: "'ch env \<Rightarrow> int \<Rightarrow> 'ch nes_state \<Rightarrow> int option \<times> 'ch nes_state" where
  "ins_RTS e cycleCount s =
     (let (lo, s1) = pull e s;
          s2 = s1\<lparr>cpu := (cpu s1)\<lparr>REG_PC := lo\<rparr>\<rparr>;
          (hi, s3) = pull e s2;
          s4 = s3\<lparr>cpu := (cpu s3)\<lparr>REG_PC := REG_PC (cpu s2) + push_bit 8 hi\<rparr>\<rparr>
      in if REG_PC (cpu s4) = 0xFFFF then (None, s4) else (Some cycleCount, s4))"

definition ins_SBC :: "'ch env \<Rightarrow> int \<Rightarrow> 'ch nes_state \<Rightarrow> 'ch nes_state" where
  "ins_SBC e addr s =
     (let (m1, s1) = load e addr s;
          temp = REG_ACC (cpu s) - m1 - (1 - F_CARRY (cpu s1));
          s2 = s1\<lparr>cpu := (cpu s1)\<lparr>F_SIGN := drop_bit 7 temp AND 1, F_ZERO := temp AND 0xFF\<rparr>\<rparr>;
          (ov, s3) =
            (if (REG_ACC (cpu s2) XOR temp) AND 0x80 \<noteq> 0
             then (let (m2, t) = load e addr s2
                   in (if (REG_ACC (cpu s2) XOR m2) AND 0x80 \<noteq> 0 then 1 else 0, t))
             else (0, s2))
      in s3\<lparr>cpu := (cpu s3)\<lparr>F_OVERFLOW := ov,
                             F_CARRY := (if temp < 0 then 0 else 1),
                             REG_ACC := temp AND 0xFF\<rparr>\<rparr>)"

definition ins_STA :: "'ch env \<Rightarrow> int \<Rightarrow> int \<Rightarrow> int \<Rightarrow> 'ch nes_state \<Rightarrow> 'ch nes_state" where
  "ins_STA e addrMode cycleAdd addr s =
     (let s0 = indexedDummyRead e addrMode cycleAdd addr s
      in write_cpu e addr (REG_ACC (cpu s0)) s0)"

definition ins_STX :: "'ch env \<Rightarrow> int \<Rightarrow> 'ch nes_state \<Rightarrow> 'ch nes_state" where
  "ins_STX e addr s = write_cpu e addr (REG_X (cpu s)) s"

definition ins_STY :: "'ch env \<Rightarrow> int \<Rightarrow> 'ch nes_state \<Rightarrow> 'ch nes_state" where
  "ins_STY e addr s = write_cpu e addr (REG_Y (cpu s)) s"

text \<open>TAX, TAY, TXA and TYA: a register is copied and sets the flags.\<close>

definition ins_TAX :: "'ch nes_state \<Rightarrow> 'ch nes_state" where
  "ins_TAX s = s\<lparr>cpu := (cpu s)\<lparr>REG_X := REG_ACC (cpu s),
       F_SIGN := drop_bit 7 (REG_ACC (cpu s)) AND 1, F_ZERO := REG_ACC (cpu s)\<rparr>\<rparr>"

definition ins_TAY :: "'ch nes_state \<Rightarrow> 'ch nes_state" where
  "ins_TAY s = s\<lparr>cpu := (cpu s)\<lparr>REG_Y := REG_ACC (cpu s),
       F_SIGN := drop_bit 7 (REG_ACC (cpu s)) AND 1, F_ZERO := REG_ACC (cpu s)\<rparr>\<rparr>"

definition ins_TSX :: "'ch nes_state \<Rightarrow> 'ch nes_state" where
  "ins_TSX s = s\<lparr>cpu := (cpu s)\<lparr>REG_X := REG_SP (cpu s) AND 0xFF,
       F_SIGN := drop_bit 7 (REG_SP (cpu s)) AND 1, F_ZERO := REG_SP (cpu s) AND 0xFF\<rparr>\<rparr>"

definition ins_TXA :: "'ch nes_state \<Rightarrow> 'ch nes_state" where
  "ins_TXA s = s\<lparr>cpu := (cpu s)\<lparr>REG_ACC := REG_X (cpu s),
       F_SIGN := drop_bit 7 (REG_X (cpu s)) AND 1, F_ZERO := REG_X (cpu s)\<rparr>\<rparr>"

definition ins_TXS :: "'ch nes_state \<Rightarrow> 'ch nes_state" where
  "ins_TXS s = s\<lparr>cpu := (cpu s)\<lparr>REG_SP := REG_X (cpu s) AND 0xFF\<rparr>\<rparr>"

definition ins_TYA :: "'ch nes_state \<Rightarrow> 'ch nes_state" where
  "ins_TYA s = s\<lparr>cpu := (cpu s)\<lparr>REG_ACC := REG_Y (cpu s),
       F_SIGN := drop_bit 7 (REG_Y (cpu s)) AND 1, F_ZERO := REG_Y (cpu s)\<rparr>\<rparr>"

definition ins_ALR :: "'ch env \<Rightarrow> int \<Rightarrow> 'ch nes_state \<Rightarrow> 'ch nes_state" where
  "ins_ALR e addr s =
     (let (m, s1) = load e addr s;
          temp = REG_ACC (cpu s) AND m
      in s1\<lparr>cpu := (cpu s1)\<lparr>F_CARRY := temp AND 1, F_ZERO := drop_bit 1 temp,
                             REG_ACC := drop_bit 1 temp, F_SIGN := 0\<rparr>\<rparr>)"

definition ins_ANC :: "'ch env \<Rightarrow> int \<Rightarrow> 'ch nes_state \<Rightarrow> 'ch nes_state" where
  "ins_ANC e addr s =
     (let (m, s1) = load e addr s;
          a = REG_ACC (cpu s) AND m
      in s1\<lparr>cpu := (cpu s1)\<lparr>F_ZERO := a, REG_ACC := a,
                             F_SIGN := drop_bit 7 a AND 1, F_CARRY := drop_bit 7 a AND 1\<rparr>\<rparr>)"

definition ins_ARR :: "'ch env \<Rightarrow> int \<Rightarrow> 'ch nes_state \<Rightarrow> 'ch nes_state" where
  "ins_ARR e addr s =
     (let (m, s1) = load e addr s;
          temp = REG_ACC (cpu s) AND m;
          a = drop_bit 1 temp + push_bit 7 (F_CARRY (cpu s1))
      in s1\<lparr>cpu := (cpu s1)\<lparr>F_ZERO := a, REG_ACC := a,
                             F_SIGN := F_CARRY (cpu s1),
                             F_CARRY := drop_bit 7 temp AND 1,
                             F_OVERFLOW := (drop_bit 7 temp XOR drop_bit 6 temp) AND 1\<rparr>\<rparr>)"

definition ins_AXS :: "'ch env \<Rightarrow> int \<Rightarrow> 'ch nes_state \<Rightarrow> 'ch nes_state" where
  "ins_AXS e addr s =
     (let (m, s1) = load e addr s;
          temp = (REG_X (cpu s) AND REG_ACC (cpu s)) - m
      in s1\<lparr>cpu := (cpu s1)\<lparr>F_SIGN := drop_bit 7 temp AND 1, F_ZERO := temp AND 0xFF,
                             F_CARRY := (if temp < 0 then 0 else 1),
                             REG_X := temp AND 0xFF\<rparr>\<rparr>)"

definition ins_LAX :: "'ch env \<Rightarrow> int \<Rightarrow> 'ch nes_state \<Rightarrow> 'ch nes_state" where
  "ins_LAX e addr s =
     (let (m, s1) = load e addr s
      in s1\<lparr>cpu := (cpu s1)\<lparr>F_ZERO := m, REG_X := m, REG_ACC := m,
                             F_SIGN := drop_bit 7 m AND 1\<rparr>\<rparr>)"

definition ins_SAX :: "'ch env \<Rightarrow> int \<Rightarrow> 'ch nes_state \<Rightarrow> 'ch nes_state" where
  "ins_SAX e addr s = write_cpu e addr (REG_ACC (cpu s) AND REG_X (cpu s)) s"

definition ins_DCP :: "'ch env \<Rightarrow> int \<Rightarrow> int \<Rightarrow> int \<Rightarrow> 'ch nes_state \<Rightarrow> 'ch nes_state" where
  "ins_DCP e addrMode cycleAdd addr s =
     (let s0 = indexedDummyRead e addrMode cycleAdd addr s;
          (temp, s1) = load e addr s0;
          s2 = write_cpu e addr temp s1;
          temp' = (temp - 1) AND 0xFF;
          s3 = write_cpu e addr temp' s2;
          d = REG_ACC (cpu s3) - temp'
      in s3\<lparr>cpu := (cpu s3)\<lparr>F_CARRY := (if d \<ge> 0 then 1 else 0),
                             F_SIGN := drop_bit 7 d AND 1, F_ZERO := d AND 0xFF\<rparr>\<rparr>)"

definition ins_ISC :: "'ch env \<Rightarrow> int \<Rightarrow> int \<Rightarrow> int \<Rightarrow> 'ch nes_state \<Rightarrow> 'ch nes_state" where
  "ins_ISC e addrMode cycleAdd addr s =
     (let s0 = indexedDummyRead e addrMode cycleAdd addr s;
          (temp, s1) = load e addr s0;
          s2 = write_cpu e addr temp s1;
          isb_val = (temp + 1) AND 0xFF;
          s3 = write_cpu e addr isb_val s2;
          c = cpu s3;
          d = REG_ACC c - isb_val - (1 - F_CARRY c)
      in s3\<lparr>cpu := c\<lparr>F_SIGN := drop_bit 7 d AND 1, F_ZERO := d AND 0xFF,
                        F_OVERFLOW := (if (REG_ACC c XOR d) AND 0x80 \<noteq> 0
                                          \<and> (REG_ACC c XOR isb_val) AND 0x80 \<noteq> 0 then 1 else 0),
                        F_CARRY := (if d < 0 then 0 else 1),
                        REG_ACC := d AND 0xFF\<rparr>\<rparr>)"

definition ins_RLA :: "'ch env \<Rightarrow> int \<Rightarrow> int \<Rightarrow> int \<Rightarrow> 'ch nes_state \<Rightarrow> 'ch nes_state" where
  "ins_RLA e addrMode cycleAdd addr s =
     (let s0 = indexedDummyRead e addrMode cycleAdd addr s;
          (temp, s1) = load e addr s0;
          s2 = write_cpu e addr temp s1;
          add = F_CARRY (cpu s2);
          s3 = s2\<lparr>cpu := (cpu s2)\<lparr>F_CARRY := drop_bit 7 temp AND 1\<rparr>\<rparr>;
          temp' = (push_bit 1 temp AND 0xFF) + add;
          s4 = write_cpu e addr temp' s3;
          a = REG_ACC (cpu s4) AND temp'
      in s4\<lparr>cpu := (cpu s4)\<lparr>REG_ACC := a, F_SIGN := drop_bit 7 a AND 1, F_ZERO := a\<rparr>\<rparr>)"

definition ins_RRA :: "'ch env \<Rightarrow> int \<Rightarrow> int \<Rightarrow> int \<Rightarrow> 'ch nes_state \<Rightarrow> 'ch nes_state" where
  "ins_RRA e addrMode cycleAdd addr s =
     (let s0 = indexedDummyRead e addrMode cycleAdd addr s;
          (temp, s1) = load e addr s0;
          s2 = write_cpu e addr temp s1;
          add = push_bit 7 (F_CARRY (cpu s2));
          s3 = s2\<lparr>cpu := (cpu s2)\<lparr>F_CARRY := temp AND 1\<rparr>\<rparr>;
          rra_val = drop_bit 1 temp + add;
          s4 = write_cpu e addr rra_val s3;
          c = cpu s4;
          t = REG_ACC c + rra_val + F_CARRY c
      in s4\<lparr>cpu := c\<lparr>F_OVERFLOW := (if (REG_ACC c XOR rra_val) AND 0x80 = 0
                                          \<and> (REG_ACC c XOR t) AND 0x80 \<noteq> 0 then 1 else 0),
                        F_CARRY := (if t > 255 then 1 else 0),
                        F_SIGN := drop_bit 7 t AND 1, F_ZERO := t AND 0xFF,
                        REG_ACC := t AND 255\<rparr>\<rparr>)"

definition ins_SLO :: "'ch env \<Rightarrow> int \<Rightarrow> int \<Rightarrow> int \<Rightarrow> 'ch nes_state \<Rightarrow> 'ch nes_state" where
  "ins_SLO e addrMode cycleAdd addr s =
     (let s0 = indexedDummyRead e addrMode cycleAdd addr s;
          (temp, s1) = load e addr s0;
          s2 = write_cpu e addr temp s1;
          s3 = s2\<lparr>cpu := (cpu s2)\<lparr>F_CARRY := drop_bit 7 temp AND 1\<rparr>\<rparr>;
          temp' = push_bit 1 temp AND 255;
          s4 = write_cpu e addr temp' s3;
          a = REG_ACC (cpu s4) OR temp'
      in s4\<lparr>cpu := (cpu s4)\<lparr>REG_ACC := a, F_SIGN := drop_bit 7 a AND 1, F_ZERO := a\<rparr>\<rparr>)"

definition ins_SRE :: "'ch env \<Rightarrow> int \<Rightarrow> int \<Rightarrow> int \<Rightarrow> 'ch nes_state \<Rightarrow> 'ch nes_state" where
  "ins_SRE e addrMode cycleAdd addr s =
     (let s0 = indexedDummyRead e addrMode cycleAdd addr s;
          (m, s1) = load e addr s0;
          temp = m AND 0xFF;
          s2 = write_cpu e addr temp s1;
          s3 = s2\<lparr>cpu := (cpu s2)\<lparr>F_CARRY := temp AND 1\<rparr>\<rparr>;
          temp' = drop_bit 1 temp;
          s4 = write_cpu e addr temp' s3;
          a = REG_ACC (cpu s4) XOR temp'
      in s4\<lparr>cpu := (cpu s4)\<lparr>REG_ACC := a, F_SIGN := drop_bit 7 a AND 1, F_ZERO := a\<rparr>\<rparr>)"

definition ins_IGN :: "'ch env \<Rightarrow> int \<Rightarrow> 'ch nes_state \<Rightarrow> 'ch nes_state" where
  "ins_IGN e addr s = snd (load e addr s)"

text \<open>
  SHA, SHS, SHY and SHX: the forced dummy read, the test for a DMC fetch during the
  instruction, and the store, whose address has its high byte replaced by the value when
  a page was crossed. \<open>shStore\<close> is what the four cases do after the dummy read, given the
  value without and with the factor of the high byte.
\<close>

definition dmaDuringInstr :: "'ch nes_state \<Rightarrow> bool" where
  "dmaDuringInstr s =
     (dmcFetchCycles (cpu s) > 0 \<and> dmcFetchCycles (cpu s) \<le> instrBusCycles (cpu s))"

definition shStore :: "'ch env \<Rightarrow> int \<Rightarrow> int \<Rightarrow> int \<Rightarrow> 'ch nes_state \<Rightarrow> 'ch nes_state" where
  "shStore e cycleAdd addr val s =
     write_cpu e (if cycleAdd = 1 then push_bit 8 val OR (addr AND 0xFF) else addr) val s"

definition ins_SHA :: "'ch env \<Rightarrow> int \<Rightarrow> int \<Rightarrow> int \<Rightarrow> 'ch nes_state \<Rightarrow> 'ch nes_state" where
  "ins_SHA e cycleAdd baseHigh addr s =
     (let s1 = (if cycleAdd = 0 then snd (load e addr s) else s);
          shaVal = (if dmaDuringInstr s1 then REG_ACC (cpu s1) AND REG_X (cpu s1)
                    else REG_ACC (cpu s1) AND REG_X (cpu s1) AND ((baseHigh + 1) AND 0xFF))
      in shStore e cycleAdd addr shaVal s1)"

definition ins_SHS :: "'ch env \<Rightarrow> int \<Rightarrow> int \<Rightarrow> int \<Rightarrow> 'ch nes_state \<Rightarrow> 'ch nes_state" where
  "ins_SHS e cycleAdd baseHigh addr s =
     (let s1 = (if cycleAdd = 0 then snd (load e addr s) else s);
          dma = dmaDuringInstr s1;
          s2 = s1\<lparr>cpu := (cpu s1)\<lparr>REG_SP := 0x0100 OR (REG_ACC (cpu s1) AND REG_X (cpu s1))\<rparr>\<rparr>;
          shsVal = (if dma then REG_SP (cpu s2) AND 0xFF
                    else REG_SP (cpu s2) AND 0xFF AND ((baseHigh + 1) AND 0xFF))
      in shStore e cycleAdd addr shsVal s2)"

definition ins_SHY :: "'ch env \<Rightarrow> int \<Rightarrow> int \<Rightarrow> int \<Rightarrow> 'ch nes_state \<Rightarrow> 'ch nes_state" where
  "ins_SHY e cycleAdd baseHigh addr s =
     (let s1 = (if cycleAdd = 0 then snd (load e addr s) else s);
          shyVal = (if dmaDuringInstr s1 then REG_Y (cpu s1)
                    else REG_Y (cpu s1) AND ((baseHigh + 1) AND 0xFF))
      in shStore e cycleAdd addr shyVal s1)"

definition ins_SHX :: "'ch env \<Rightarrow> int \<Rightarrow> int \<Rightarrow> int \<Rightarrow> 'ch nes_state \<Rightarrow> 'ch nes_state" where
  "ins_SHX e cycleAdd baseHigh addr s =
     (let s1 = (if cycleAdd = 0 then snd (load e addr s) else s);
          shxVal = (if dmaDuringInstr s1 then REG_X (cpu s1)
                    else REG_X (cpu s1) AND ((baseHigh + 1) AND 0xFF))
      in shStore e cycleAdd addr shxVal s1)"

definition ins_LAE :: "'ch env \<Rightarrow> int \<Rightarrow> 'ch nes_state \<Rightarrow> 'ch nes_state" where
  "ins_LAE e addr s =
     (let (m, s1) = load e addr s;
          temp = m AND (REG_SP (cpu s1) AND 0xFF)
      in s1\<lparr>cpu := (cpu s1)\<lparr>F_ZERO := temp, REG_X := temp, REG_ACC := temp,
                             REG_SP := 0x0100 OR temp, F_SIGN := drop_bit 7 temp AND 1\<rparr>\<rparr>)"

definition ins_ANE :: "'ch env \<Rightarrow> int \<Rightarrow> 'ch nes_state \<Rightarrow> 'ch nes_state" where
  "ins_ANE e addr s =
     (let (m, s1) = load e addr s;
          a = (REG_ACC (cpu s) OR 0xFF) AND REG_X (cpu s) AND m
      in s1\<lparr>cpu := (cpu s1)\<lparr>F_ZERO := a, REG_ACC := a, F_SIGN := drop_bit 7 a AND 1\<rparr>\<rparr>)"

definition ins_LXA :: "'ch env \<Rightarrow> int \<Rightarrow> 'ch nes_state \<Rightarrow> 'ch nes_state" where
  "ins_LXA e addr s =
     (let (m, s1) = load e addr s;
          a = (REG_ACC (cpu s) OR 0xFF) AND m
      in s1\<lparr>cpu := (cpu s1)\<lparr>F_ZERO := a, REG_X := a, REG_ACC := a,
                             F_SIGN := drop_bit 7 a AND 1\<rparr>\<rparr>)"

subsection \<open>Decode and execute\<close>

text \<open>
  The switch on the instruction number. The result is the error thrown, or the value
  returned with the state; the value is \<open>None\<close> where the code returns without one. Number
  70 and every number above 77 have no case and fall to the default, which throws.
\<close>

definition execute ::
  "'ch env \<Rightarrow> int \<Rightarrow> int \<Rightarrow> int \<Rightarrow> int \<Rightarrow> int \<Rightarrow> int \<Rightarrow> int \<Rightarrow> 'ch nes_state
     \<Rightarrow> (nes_error \<times> 'ch nes_state) + (int option \<times> 'ch nes_state)" where
  "execute e inst addrMode opaddr addr cycleAdd baseHigh cycleCount s =
     (let same = (\<lambda>t. Inr (Some cycleCount, t));
          more = (\<lambda>t. Inr (Some (cycleCount + cycleAdd), t));
          jump = (\<lambda>(n, t). Inr (Some n, t))
      in
      if inst = 0 then more (ins_ADC e addr s)
      else if inst = 1 then more (ins_AND e addr s)
      else if inst = 2 then same (ins_ASL e addrMode cycleAdd addr s)
      else if inst = 3 then jump (ins_BCC opaddr addr cycleCount s)
      else if inst = 4 then jump (ins_BCS opaddr addr cycleCount s)
      else if inst = 5 then jump (ins_BEQ opaddr addr cycleCount s)
      else if inst = 6 then same (ins_BIT e addr s)
      else if inst = 7 then jump (ins_BMI opaddr addr cycleCount s)
      else if inst = 8 then jump (ins_BNE opaddr addr cycleCount s)
      else if inst = 9 then jump (ins_BPL opaddr addr cycleCount s)
      else if inst = 10 then same (ins_BRK e s)
      else if inst = 11 then jump (ins_BVC opaddr addr cycleCount s)
      else if inst = 12 then jump (ins_BVS opaddr addr cycleCount s)
      else if inst = 13 then same (s\<lparr>cpu := (cpu s)\<lparr>F_CARRY := 0\<rparr>\<rparr>)
      else if inst = 14 then same (s\<lparr>cpu := (cpu s)\<lparr>F_DECIMAL := 0\<rparr>\<rparr>)
      else if inst = 15 then same (s\<lparr>cpu := (cpu s)\<lparr>F_INTERRUPT := 0\<rparr>\<rparr>)
      else if inst = 16 then same (s\<lparr>cpu := (cpu s)\<lparr>F_OVERFLOW := 0\<rparr>\<rparr>)
      else if inst = 17 then more (ins_CMP e addr s)
      else if inst = 18 then same (ins_CPX e addr s)
      else if inst = 19 then same (ins_CPY e addr s)
      else if inst = 20 then same (ins_DEC e addrMode cycleAdd addr s)
      else if inst = 21 then same (ins_DEX s)
      else if inst = 22 then same (ins_DEY s)
      else if inst = 23 then more (ins_EOR e addr s)
      else if inst = 24 then same (ins_INC e addrMode cycleAdd addr s)
      else if inst = 25 then same (ins_INX s)
      else if inst = 26 then same (ins_INY s)
      else if inst = 27 then same (ins_JMP addr s)
      else if inst = 28 then same (ins_JSR e opaddr addr s)
      else if inst = 29 then more (ins_LDA e addr s)
      else if inst = 30 then more (ins_LDX e addr s)
      else if inst = 31 then more (ins_LDY e addr s)
      else if inst = 32 then same (ins_LSR e addrMode cycleAdd addr s)
      else if inst = 33 then same s
      else if inst = 34 then more (ins_ORA e addr s)
      else if inst = 35 then same (ins_PHA e s)
      else if inst = 36 then same (ins_PHP e s)
      else if inst = 37 then same (ins_PLA e s)
      else if inst = 38 then same (ins_PLP e s)
      else if inst = 39 then same (ins_ROL e addrMode cycleAdd addr s)
      else if inst = 40 then same (ins_ROR e addrMode cycleAdd addr s)
      else if inst = 41 then Inr (ins_RTI e cycleCount s)
      else if inst = 42 then Inr (ins_RTS e cycleCount s)
      else if inst = 43 then more (ins_SBC e addr s)
      else if inst = 44 then same (s\<lparr>cpu := (cpu s)\<lparr>F_CARRY := 1\<rparr>\<rparr>)
      else if inst = 45 then same (s\<lparr>cpu := (cpu s)\<lparr>F_DECIMAL := 1\<rparr>\<rparr>)
      else if inst = 46 then same (s\<lparr>cpu := (cpu s)\<lparr>F_INTERRUPT := 1\<rparr>\<rparr>)
      else if inst = 47 then same (ins_STA e addrMode cycleAdd addr s)
      else if inst = 48 then same (ins_STX e addr s)
      else if inst = 49 then same (ins_STY e addr s)
      else if inst = 50 then same (ins_TAX s)
      else if inst = 51 then same (ins_TAY s)
      else if inst = 52 then same (ins_TSX s)
      else if inst = 53 then same (ins_TXA s)
      else if inst = 54 then same (ins_TXS s)
      else if inst = 55 then same (ins_TYA s)
      else if inst = 56 then same (ins_ALR e addr s)
      else if inst = 57 then same (ins_ANC e addr s)
      else if inst = 58 then same (ins_ARR e addr s)
      else if inst = 59 then same (ins_AXS e addr s)
      else if inst = 60 then more (ins_LAX e addr s)
      else if inst = 61 then same (ins_SAX e addr s)
      else if inst = 62 then same (ins_DCP e addrMode cycleAdd addr s)
      else if inst = 63 then same (ins_ISC e addrMode cycleAdd addr s)
      else if inst = 64 then same (ins_RLA e addrMode cycleAdd addr s)
      else if inst = 65 then same (ins_RRA e addrMode cycleAdd addr s)
      else if inst = 66 then same (ins_SLO e addrMode cycleAdd addr s)
      else if inst = 67 then same (ins_SRE e addrMode cycleAdd addr s)
      else if inst = 68 then same s
      else if inst = 69 then more (ins_IGN e addr s)
      else if inst = 71 then same (ins_SHA e cycleAdd baseHigh addr s)
      else if inst = 72 then same (ins_SHS e cycleAdd baseHigh addr s)
      else if inst = 73 then same (ins_SHY e cycleAdd baseHigh addr s)
      else if inst = 74 then same (ins_SHX e cycleAdd baseHigh addr s)
      else if inst = 75 then more (ins_LAE e addr s)
      else if inst = 76 then same (ins_ANE e addr s)
      else if inst = 77 then same (ins_LXA e addr s)
      else Inl (InvalidOpcode opaddr, s))"

text \<open>
  The start of an instruction in \<^verbatim>\<open>emulate\<close>: the counters of the catch-up are reset, the
  cycles to the next DMC fetch are noted, and the opcode is fetched. The fetch is a bus
  cycle; it goes through \<^verbatim>\<open>loadFromCartridge\<close> and the code stores it in \<^verbatim>\<open>dataBus\<close> itself.
\<close>

definition fetchOpcode :: "'ch env \<Rightarrow> 'ch nes_state \<Rightarrow> int \<times> 'ch nes_state" where
  "fetchOpcode e s =
     (let s1 = s\<lparr>cpu := (cpu s)\<lparr>instrBusCycles := 0, ppuCatchupDots := 0,
                                 ppuFrameEnded := False\<rparr>\<rparr>;
          s2 = s1\<lparr>cpu := (cpu s1)\<lparr>dmcFetchCycles := cyclesToNextDmcFetch e s1\<rparr>\<rparr>;
          (opcode, s3) = loadFromCartridge e (REG_PC (cpu s2) + 1) s2
      in (opcode, logCycle BusRead (REG_PC (cpu s2) + 1) opcode
                    (s3\<lparr>cpu := (cpu s3)\<lparr>dataBus := opcode, instrBusCycles := 1\<rparr>\<rparr>)))"

text \<open>\<^verbatim>\<open>emulate\<close>: one instruction.\<close>

definition emulate ::
  "'ch env \<Rightarrow> 'ch nes_state \<Rightarrow> (nes_error \<times> 'ch nes_state) + (int option \<times> 'ch nes_state)" where
  "emulate e s0 =
     (case checkInterrupts e s0 of
        Inl err \<Rightarrow> Inl err
      | Inr s \<Rightarrow>
          if mmap s = None then Inr (Some 32, s)
          else
            (let (opcode, s4) = fetchOpcode e s;
                 opinf = opinfo opcode;
                 cycleCount = drop_bit 24 opinf;
                 addrMode = drop_bit 8 opinf AND 0xFF;
                 opaddr = REG_PC (cpu s4);
                 s5 = s4\<lparr>cpu := (cpu s4)\<lparr>REG_PC := REG_PC (cpu s4) + (drop_bit 16 opinf AND 0xFF)\<rparr>\<rparr>;
                 (addr, cycleAdd, baseHigh, s6) = addressing e addrMode opaddr s5
             in execute e (opinf AND 0xFF) addrMode opaddr (addr AND 0xFFFF)
                  cycleAdd baseHigh cycleCount s6))"

section \<open>Reset and the frame loop (cpu.js, nes.js)\<close>

text \<open>
  \<^verbatim>\<open>CPU.reset\<close>. The loop that clears the upper memory starts at \<open>0x2001\<close>, so the cell
  \<open>0x2000\<close> of the new array is left without a value; the model gives it 0, and nothing
  reads it before it is written. The fields \<^verbatim>\<open>REG_STATUS\<close>, \<^verbatim>\<open>F_NOTUSED_NEW\<close> and \<^verbatim>\<open>crash\<close> are
  written here and read nowhere; they are not part of the state.
\<close>

definition reset_mem :: "int \<Rightarrow> int" where
  "reset_mem i =
     (if 0 \<le> i \<and> i < 0x2000 then
        (if i mod 0x800 = 0x008 then 0xF7
         else if i mod 0x800 = 0x009 then 0xEF
         else if i mod 0x800 = 0x00A then 0xDF
         else if i mod 0x800 = 0x00F then 0xBF
         else 0xFF)
      else 0)"

definition cpu_reset :: "cpu_state \<Rightarrow> cpu_state" where
  "cpu_reset c =
     (setStatus 0x28
        (c\<lparr>mem := reset_mem, REG_ACC := 0, REG_X := 0, REG_Y := 0, REG_SP := 0x01FF,
           REG_PC := 0x8000 - 1, REG_PC_NEW := 0x8000 - 1\<rparr>))
       \<lparr>F_CARRY := 0, F_DECIMAL := 0, F_INTERRUPT := 1, F_INTERRUPT_NEW := 1,
        F_OVERFLOW := 0, F_SIGN := 0, F_ZERO := 1, F_NOTUSED := 1, F_BRK := 1, F_BRK_NEW := 1,
        cyclesToHalt := 0, irqRequested := False, irqType := None, dataBus := 0,
        instrBusCycles := 0, ppuCatchupDots := 0, ppuFrameEnded := False\<rparr>"












section \<open>A console to run\<close>

text \<open>
  A concrete console for the examples: no sprite-0 hit and no light, one CHR bank and silent
  sound channels. \<open>console rom\<close> is a console at power-on with a cartridge in it: the CPU
  as its constructor leaves it, which ends in \<^verbatim>\<open>CPU.reset\<close>, the sound unit after
  \<^verbatim>\<open>PAPU.reset\<close>, the PPU in its initial state, mapper 0 in place and \<open>rom\<close> mapped at
  \<open>0x8000\<close> and above.
\<close>

definition env0 :: "unit env" where
  "env0 = \<lparr>hit_test = no_hit, pixelWhite = (\<lambda>p x y. False), vromCount = 1, apu = silent_ops\<rparr>"

definition cpu_zero :: cpu_state where
  "cpu_zero = \<lparr>mem = (\<lambda>i. 0), REG_ACC = 0, REG_X = 0, REG_Y = 0, REG_SP = 0, REG_PC = 0,
               REG_PC_NEW = 0, F_CARRY = 0, F_DECIMAL = 0, F_INTERRUPT = 0, F_INTERRUPT_NEW = 0,
               F_OVERFLOW = 0, F_SIGN = 0, F_ZERO = 0, F_NOTUSED = 0, F_BRK = 0, F_BRK_NEW = 0,
               cyclesToHalt = 0, irqRequested = False, irqType = None, dataBus = 0,
               instrBusCycles = 0, ppuCatchupDots = 0, ppuFrameEnded = False,
               dmcFetchCycles = 0, apuCatchupCycles = None\<rparr>"

definition with_rom :: "(int \<Rightarrow> int) \<Rightarrow> cpu_state \<Rightarrow> cpu_state" where
  "with_rom rom c = c\<lparr>mem := (\<lambda>i. if 0x8000 \<le> i \<and> i < 0x10000 then rom i else mem c i)\<rparr>"

definition console :: "(int \<Rightarrow> int) \<Rightarrow> unit nes_state" where
  "console rom =
     \<lparr>cpu = with_rom rom (cpu_reset cpu_zero), ppu = ppu_init, papu = papu_reset silent_ops papu_init,
      mmap = Some joypad_reset, buttons1 = buttons_released, buttons2 = buttons_released,
      zapper = None, zapperFired = False, gg_enabled = False, gg_patches = [],
      crashed = False, busLog = [], dotCount = 0\<rparr>"

text \<open>
  An APU one cycle short of the last step of the 4-step sequence, the one that raises the
  frame interrupt: the frame counter stands at 29828, before the step at 29829, as it does
  29834 cycles after a write of 0 to \<^verbatim>\<open>$4017\<close>. \<open>lda_4015\<close> is the instruction
  \<^verbatim>\<open>LDA $4015\<close> at the reset address, and \<open>console_4015\<close> the console that is about to run
  it with that APU.
\<close>

definition apu_due :: "unit papu" where
  "apu_due = (papu_reset silent_ops papu_init)
               \<lparr>frameCycleCounter := 29828, frameStep := 3, frameIrqEnabled := True\<rparr>"

definition lda_4015 :: "int \<Rightarrow> int" where
  "lda_4015 i = (if i = 0x8000 then 0xAD else if i = 0x8001 then 0x15
                 else if i = 0x8002 then 0x40 else 0)"

definition console_4015 :: "unit nes_state" where
  "console_4015 = (console lda_4015)\<lparr>papu := apu_due\<rparr>"

text \<open>
  A cartridge that starts with \<^verbatim>\<open>JMP ($0008)\<close> at \<open>0x8000\<close>, where its reset vector points,
  and the console as \<^verbatim>\<open>loadROM\<close> leaves it: reset, with the reset interrupt requested.
\<close>

definition jmp_indirect :: "int \<Rightarrow> int" where
  "jmp_indirect i = (if i = 0x8000 then 0x6C else if i = 0x8001 then 0x08
                     else if i = 0xFFFD then 0x80 else 0)"

definition console_jmp :: "unit nes_state" where
  "console_jmp = (console jmp_indirect)\<lparr>cpu := requestIrq IRQ_RESET (cpu (console jmp_indirect))\<rparr>"

text \<open>What claim C1 says of a bus cycle: the data bus holds the byte of the cycle.\<close>

definition busHoldsByte :: "bus_cycle \<Rightarrow> bool" where
  "busHoldsByte c = (bc_dataBus c = bc_byte c)"

section \<open>Bus write cycles as the specification describes them\<close>

text \<open>
  Modelled from the description of a write cycle in the specification, to be compared with
  \<^verbatim>\<open>CPU.write\<close>: the value is put on the data bus, the PPU is caught up before a write to its
  registers, the write is handed to the mapper, and the cycle is counted.
  \<^verbatim>\<open>CPU.write\<close> itself stores into RAM for an address below \<open>0x2000\<close> and calls the mapper
  for the others.
\<close>

definition mapperWriteCycle :: "'ch env \<Rightarrow> int \<Rightarrow> int \<Rightarrow> 'ch nes_state \<Rightarrow> 'ch nes_state" where
  "mapperWriteCycle e addr val s =
     (let s1 = s\<lparr>cpu := (cpu s)\<lparr>dataBus := val\<rparr>\<rparr>;
          s2 = (if addr \<ge> 0x2000 \<and> addr < 0x4000 then ppuCatchUp e s1 else s1);
          s3 = mmap_write e addr val s2
      in logCycle BusWrite addr val
           (s3\<lparr>cpu := (cpu s3)\<lparr>instrBusCycles := instrBusCycles (cpu s3) + 1\<rparr>\<rparr>))"

text \<open>
  The instruction numbers of the read-modify-write instructions: ASL, DEC, INC, LSR, ROL,
  ROR, DCP, ISC, RLA, RRA, SLO and SRE.
\<close>

definition rmwInstructions :: "int set" where
  "rmwInstructions = {2, 20, 24, 32, 39, 40, 62, 63, 64, 65, 66, 67}"

text \<open>
  The byte that a read-modify-write instruction makes of the byte \<open>v\<close> it has read, with
  \<open>c\<close> the carry flag before the instruction, as the instruction set has it and the comments
  of the cases say: ASL and SLO shift \<open>v\<close> left by one bit; LSR and SRE shift it right by one
  bit; ROL and RLA rotate it left by one bit, the carry coming in as bit 0; ROR and RRA
  rotate it right by one bit, the carry coming in as bit 7; INC and ISC add one; DEC and DCP
  subtract one; each result is kept within a byte.
\<close>

definition rmwModified :: "int \<Rightarrow> int \<Rightarrow> int \<Rightarrow> int" where
  "rmwModified inst v c =
     (if inst = 2 \<or> inst = 66 then (2 * v) mod 256
      else if inst = 32 \<or> inst = 67 then v div 2
      else if inst = 39 \<or> inst = 64 then (2 * v) mod 256 + c
      else if inst = 40 \<or> inst = 65 then v div 2 + 128 * c
      else if inst = 24 \<or> inst = 63 then (v + 1) mod 256
      else (v - 1) mod 256)"

text \<open>
  \<open>flagsOnly c c'\<close>: the CPU state \<open>c'\<close> differs from \<open>c\<close> at most in the accumulator and the
  flags that the arithmetic of an instruction sets.
\<close>

definition flagsOnly :: "cpu_state \<Rightarrow> cpu_state \<Rightarrow> bool" where
  "flagsOnly c c' =
     (c' = c\<lparr>REG_ACC := REG_ACC c', F_CARRY := F_CARRY c', F_SIGN := F_SIGN c',
            F_ZERO := F_ZERO c', F_OVERFLOW := F_OVERFLOW c'\<rparr>)"

text \<open>The entry of the log for a cycle that left its byte on the data bus.\<close>

definition busEntry :: "bus_kind \<Rightarrow> int \<Rightarrow> int \<Rightarrow> bus_cycle" where
  "busEntry k a v = \<lparr>bc_kind = k, bc_addr = a, bc_byte = v, bc_dataBus = v\<rparr>"

text \<open>
  \<open>rmwWrites e addr v s m t\<close>: from the state \<open>s\<close>, in which the byte \<open>v\<close> has been read, the state
  \<open>t\<close> is reached by a write cycle that puts \<open>v\<close> back at \<open>addr\<close> and a write cycle that puts \<open>m\<close>
  there, with nothing but changes of flags and accumulator between and after them.
\<close>

definition rmwWrites ::
  "'ch env \<Rightarrow> int \<Rightarrow> int \<Rightarrow> 'ch nes_state \<Rightarrow> int \<Rightarrow> 'ch nes_state \<Rightarrow> bool" where
  "rmwWrites e addr v s m t =
     (\<exists>c1 c2. flagsOnly (cpu (mapperWriteCycle e addr v s)) c1
         \<and> flagsOnly (cpu (mapperWriteCycle e addr m ((mapperWriteCycle e addr v s)\<lparr>cpu := c1\<rparr>))) c2
         \<and> t = (mapperWriteCycle e addr m ((mapperWriteCycle e addr v s)\<lparr>cpu := c1\<rparr>))\<lparr>cpu := c2\<rparr>)"

section \<open>Game Genie: decoding an encoded patch\<close>

lemma and_exp_int: "(x::int) AND 2^n = 2^n * (x div 2^n mod 2)"
proof -
  have "x AND 2^n = push_bit n (of_bool (bit x n))"
    by (rule bit_eqI) (auto simp: bit_simps)
  moreover have "(of_bool (bit x n) :: int) = x div 2^n mod 2"
    by (simp add: bit_iff_odd_drop_bit drop_bit_eq_div odd_iff_mod_2_eq_one)
  ultimately show ?thesis by (simp add: push_bit_eq_mult)
qed

lemma and_mask_int: "(x::int) AND (2^n - 1) = x mod 2^n"
proof -
  have "x AND mask n = take_bit n x" by (rule take_bit_eq_mask[symmetric])
  then show ?thesis by (simp add: take_bit_eq_mod mask_eq_exp_minus_1)
qed

lemma and7: "(x::int) AND 7 = x mod 8" using and_mask_int[of x 3] by simp
lemma and8: "(x::int) AND 8 = 8 * (x div 8 mod 2)" using and_exp_int[of x 3] by simp

lemma and7_range: "0 \<le> (x::int) AND 7 \<and> x AND 7 < 8"
  by (simp add: and7)

lemma and8_cases: "(x::int) AND 8 = 0 \<or> x AND 8 = 8"
proof -
  have "x div 8 mod 2 = 0 \<or> x div 8 mod 2 = 1" by presburger
  then show ?thesis by (auto simp: and8)
qed

lemma digit_parts:
  assumes "0 \<le> a" "a < 8" "b = 0 \<or> b = 8"
  shows "(a + b) AND 7 = (a::int)" and "(a + b) AND 8 = b" and "0 \<le> a + b" and "a + b < 16"
  using assms by (auto simp: and7 and8)

lemma letter_roundtrip:
  assumes "0 \<le> d" "d < 16"
  shows "map toDigit (map toUpperCase (toLetter d)) = [d] \<and> CHR '':'' \<notin> set (toLetter d)"
proof -
  from assms have "d = 0 \<or> d = 1 \<or> d = 2 \<or> d = 3 \<or> d = 4 \<or> d = 5 \<or> d = 6 \<or> d = 7
     \<or> d = 8 \<or> d = 9 \<or> d = 10 \<or> d = 11 \<or> d = 12 \<or> d = 13 \<or> d = 14 \<or> d = 15" by presburger
  then show ?thesis
    by (elim disjE) (simp_all add: toLetter_def toDigit_def toUpperCase_def LETTER_VALUES_def)
qed

lemma letters_roundtrip:
  assumes "\<forall>d \<in> set ds. 0 \<le> d \<and> d < 16"
  shows "map toDigit (map toUpperCase (concat (map toLetter ds))) = ds
         \<and> CHR '':'' \<notin> set (concat (map toLetter ds))"
  using assms
proof (induction ds)
  case Nil
  then show ?case by simp
next
  case (Cons d ds)
  then show ?case using letter_roundtrip[of d] by simp
qed


lemma mod_split: "0 < m \<Longrightarrow> 0 < n \<Longrightarrow> (x::int) mod (m * n) = m * (x div m mod n) + x mod m"
  by (simp add: zmod_zmult2_eq)

lemma nibble_id: "((x::int) AND 8) + (x AND 7) = x mod 16"
  using mod_split[of 8 2 x] by (simp add: and7 and8)

lemma byte_lin: "m16 = n0 \<Longrightarrow> (v::int) = 16 * h + m16 \<Longrightarrow> h = n1 \<Longrightarrow> 16 * n1 + n0 = v"
  by simp

lemma byte_id:
  assumes "0 \<le> v" "v < 256"
  shows "push_bit 4 (drop_bit 4 v AND 8) + push_bit 4 (drop_bit 4 v AND 7) + ((v AND 8) + (v AND 7)) = (v::int)"
proof -
  have h: "0 \<le> v div 16 \<and> v div 16 < 16" using assms by auto
  have a: "v mod 16 = (v AND 8) + (v AND 7)" by (simp add: nibble_id)
  have b: "v = 16 * (v div 16) + v mod 16" by simp
  have c: "v div 16 = (drop_bit 4 v AND 8) + (drop_bit 4 v AND 7)"
    using h by (simp add: nibble_id drop_bit_eq_div)
  have "16 * ((drop_bit 4 v AND 8) + (drop_bit 4 v AND 7)) + ((v AND 8) + (v AND 7)) = v"
    by (rule byte_lin[OF a b c])
  then show ?thesis by (simp add: push_bit_eq_mult algebra_simps)
qed

lemma addr_lin: "(a::int) = 4096 * q + r12 \<Longrightarrow> r12 = 256 * n2 + r8 \<Longrightarrow> r8 = 16 * n1 + n0 \<Longrightarrow>
   4096 * q + 256 * n2 + 16 * n1 + n0 = a"
  by simp

lemma addr_id:
  assumes "0 \<le> a" "a < 32768"
  shows "push_bit 12 (drop_bit 12 a) + (push_bit 8 (drop_bit 8 a AND 8) + push_bit 8 (drop_bit 8 a AND 7))
         + (push_bit 4 (drop_bit 4 a AND 8) + push_bit 4 (drop_bit 4 a AND 7)) + ((a AND 8) + (a AND 7)) = (a::int)"
proof -
  have a1: "a = 4096 * (a div 4096) + a mod 4096" by simp
  have a2: "a mod 4096 = 256 * (a div 256 mod 16) + a mod 256" using mod_split[of 256 16 a] by simp
  have a3: "a mod 256 = 16 * (a div 16 mod 16) + a mod 16" using mod_split[of 16 16 a] by simp
  have "4096 * (a div 4096) + 256 * (a div 256 mod 16) + 16 * (a div 16 mod 16) + a mod 16 = a"
    by (rule addr_lin[OF a1 a2 a3])
  then show ?thesis
    by (simp add: push_bit_eq_mult drop_bit_eq_div nibble_id[symmetric] algebra_simps)
qed


lemma dig_nth: "i < length ds \<Longrightarrow> dig ds i = ds ! i"
  by (simp add: dig_def)

lemma decode_letters:
  assumes "\<forall>d \<in> set ds. 0 \<le> d \<and> d < 16"
  shows "decode hx (concat (map toLetter ds)) =
    (let d = dig ds;
            value = push_bit 4 (d 0 AND 8) + push_bit 4 (d 1 AND 7) + (d 0 AND 7);
            addr = push_bit 12 (d 3 AND 7) + push_bit 8 (d 4 AND 8) + push_bit 8 (d 5 AND 7)
                 + push_bit 4 (d 1 AND 8) + push_bit 4 (d 2 AND 7) + (d 3 AND 8) + (d 4 AND 7);
            wantskey = (drop_bit 3 (d 2) \<noteq> 0)
        in if length ds = 8
           then Some \<lparr> p_value = value + (d 7 AND 8), p_addr = addr, p_wantskey = wantskey,
                        p_key = Some (push_bit 4 (d 6 AND 8) + push_bit 4 (d 7 AND 7)
                                      + (d 5 AND 8) + (d 6 AND 7)) \<rparr>
           else Some \<lparr> p_value = value + (d 5 AND 8), p_addr = addr, p_wantskey = wantskey,
                        p_key = None \<rparr>)"
  using letters_roundtrip[OF assms] unfolding decode_def by (simp add: Let_def)

lemma d3_parts:
  assumes "0 \<le> a" "a < 32768"
  shows "(drop_bit 12 a + (a AND 8)) AND 7 = drop_bit 12 (a::int)"
    and "(drop_bit 12 a + (a AND 8)) AND 8 = a AND 8"
    and "0 \<le> drop_bit 12 a + (a AND 8)" and "drop_bit 12 a + (a AND 8) < 16"
proof -
  have r: "0 \<le> drop_bit 12 a" "drop_bit 12 a < 8" using assms by (auto simp: drop_bit_eq_div)
  show "(drop_bit 12 a + (a AND 8)) AND 7 = drop_bit 12 (a::int)"
    and "(drop_bit 12 a + (a AND 8)) AND 8 = a AND 8"
    and "0 \<le> drop_bit 12 a + (a AND 8)" and "drop_bit 12 a + (a AND 8) < 16"
    using digit_parts[OF r and8_cases[of a]] by auto
qed

lemma plus8_parts:
  assumes "0 \<le> a" "a < 8"
  shows "(a + 8) AND 7 = (a::int)" and "drop_bit 3 (a + 8) \<noteq> 0" and "drop_bit 3 a = 0"
  using assms by (auto simp: and7 drop_bit_eq_div)

lemmas dp = digit_parts[OF conjunct1[OF and7_range] conjunct2[OF and7_range] and8_cases]


lemma roundtrip6:
  assumes a: "0 \<le> addr" "addr < 32768" and v: "0 \<le> value" "value < 256"
  shows "decode hx (encode addr value None False)
         = Some \<lparr> p_value = value, p_addr = addr, p_wantskey = False, p_key = None \<rparr>"
proof -
  let ?ds = "[(value AND 7) + (drop_bit 4 value AND 8),
              (drop_bit 4 value AND 7) + (drop_bit 4 addr AND 8),
              drop_bit 4 addr AND 7,
              drop_bit 12 addr + (addr AND 8),
              (addr AND 7) + (drop_bit 8 addr AND 8),
              (drop_bit 8 addr AND 7) + (value AND 8)]"
  have enc: "encode addr value None False = concat (map toLetter ?ds)"
    by (simp add: encode_def Let_def)
  have rng: "\<forall>d \<in> set ?ds. 0 \<le> d \<and> d < 16"
    using dp(3,4) d3_parts(3,4)[OF a] and7_range[of "drop_bit 4 addr"] by auto
  have val: "push_bit 4 (drop_bit 4 value AND 8) + push_bit 4 (drop_bit 4 value AND 7) + (value AND 7) + (value AND 8) = value"
    using byte_id[OF v] by simp
  have adr: "push_bit 12 (drop_bit 12 addr) + push_bit 8 (drop_bit 8 addr AND 8) + push_bit 8 (drop_bit 8 addr AND 7)
         + push_bit 4 (drop_bit 4 addr AND 8) + push_bit 4 (drop_bit 4 addr AND 7) + (addr AND 8) + (addr AND 7) = addr"
    using addr_id[OF a] by simp
  have wk: "drop_bit 3 (drop_bit 4 addr AND 7) = 0"
    using plus8_parts(3)[OF conjunct1[OF and7_range] conjunct2[OF and7_range]] .
  show ?thesis
    unfolding enc decode_letters[OF rng]
    by (simp add: Let_def dig_nth dp d3_parts[OF a] val adr wk del: push_bit_and drop_bit_and)
qed


lemma roundtrip8:
  assumes a: "0 \<le> addr" "addr < 32768" and v: "0 \<le> value" "value < 256"
      and k: "0 \<le> k" "k < 256"
  shows "decode hx (encode addr value (Some k) False)
         = Some \<lparr> p_value = value, p_addr = addr, p_wantskey = True, p_key = Some k \<rparr>"
proof -
  let ?ds = "[(value AND 7) + (drop_bit 4 value AND 8),
              (drop_bit 4 value AND 7) + (drop_bit 4 addr AND 8),
              (drop_bit 4 addr AND 7) + 8,
              drop_bit 12 addr + (addr AND 8),
              (addr AND 7) + (drop_bit 8 addr AND 8),
              (drop_bit 8 addr AND 7) + (k AND 8),
              (k AND 7) + (drop_bit 4 k AND 8),
              (drop_bit 4 k AND 7) + (value AND 8)]"
  have enc: "encode addr value (Some k) False = concat (map toLetter ?ds)"
    by (simp add: encode_def Let_def)
  have rng: "\<forall>d \<in> set ?ds. 0 \<le> d \<and> d < 16"
    using dp(3,4) d3_parts(3,4)[OF a] and7_range[of "drop_bit 4 addr"] by auto
  have val: "push_bit 4 (drop_bit 4 value AND 8) + push_bit 4 (drop_bit 4 value AND 7) + (value AND 7) + (value AND 8) = value"
    using byte_id[OF v] by simp
  have key: "push_bit 4 (drop_bit 4 k AND 8) + push_bit 4 (drop_bit 4 k AND 7) + (k AND 8) + (k AND 7) = k"
    using byte_id[OF k] by simp
  have adr: "push_bit 12 (drop_bit 12 addr) + push_bit 8 (drop_bit 8 addr AND 8) + push_bit 8 (drop_bit 8 addr AND 7)
         + push_bit 4 (drop_bit 4 addr AND 8) + push_bit 4 (drop_bit 4 addr AND 7) + (addr AND 8) + (addr AND 7) = addr"
    using addr_id[OF a] by simp
  note p8 = plus8_parts(1,2)[OF conjunct1[OF and7_range] conjunct2[OF and7_range]]
  show ?thesis
    unfolding enc decode_letters[OF rng]
    by (simp add: Let_def dig_nth dp d3_parts[OF a] val adr key p8 del: push_bit_and drop_bit_and)
qed

text \<open>
  Claim C9. For every address below \<open>0x8000\<close>, every byte value and every optional byte key,
  that is, for everything a 6-letter or 8-letter code can hold, decoding the code that
  \<^verbatim>\<open>encode(addr, value, key)\<close> produces gives back the same address, value and key
  (and \<^verbatim>\<open>wantskey\<close> exactly when a key was given).
\<close>

theorem gamegenie_roundtrip:
  assumes "0 \<le> addr" "addr < 0x8000" "0 \<le> value" "value < 0x100"
      and "\<forall>k. key = Some k \<longrightarrow> 0 \<le> k \<and> k < 0x100"
  shows "decode decodeHex (encode addr value key False)
         = Some \<lparr> p_value = value, p_addr = addr, p_wantskey = (key \<noteq> None), p_key = key \<rparr>"
proof (cases key)
  case None
  then show ?thesis using roundtrip6[of addr "value"] assms by simp
next
  case (Some k)
  then show ?thesis using roundtrip8[of addr "value" k] assms by simp
qed

theorem gamegenie_roundtrip_witness:
  "decode (\<lambda>s. None) (encode 0x11D9 0xAD None False)
     = Some \<lparr> p_value = 0xAD, p_addr = 0x11D9, p_wantskey = False, p_key = None \<rparr>
   \<and> decode (\<lambda>s. None) (encode 0x0B03 0x00 (Some 0x01) False)
     = Some \<lparr> p_value = 0x00, p_addr = 0x0B03, p_wantskey = True, p_key = Some 0x01 \<rparr>"
  using gamegenie_roundtrip[of "0x11D9" "0xAD" None "\<lambda>s. None"]
        gamegenie_roundtrip[of "0x0B03" "0x00" "Some 0x01" "\<lambda>s. None"]
  by simp

section \<open>OAM DMA keeps the OAM address\<close>

lemma nat_and_255: "(x::nat) AND 0xFF = x mod 256"
proof -
  have "x AND mask 8 = take_bit 8 x" by (rule take_bit_eq_mask[symmetric])
  then show ?thesis by (simp add: take_bit_eq_mod mask_eq_exp_minus_1)
qed

lemma checkSprite0_keeps:
  "sramAddress (snd (checkSprite0 hit scan p)) = sramAddress p"
  "spriteMem (snd (checkSprite0 hit scan p)) = spriteMem p"
  by (simp_all add: checkSprite0_def split: option.split)

lemma spriteRamWriteUpdate_keeps:
  "sramAddress (spriteRamWriteUpdate hit a v p) = sramAddress p"
  "spriteMem (spriteRamWriteUpdate hit a v p) = spriteMem p"
  by (simp_all add: spriteRamWriteUpdate_def Let_def checkSprite0_keeps)

lemma sramDMA_step_effect:
  "sramAddress (sramDMA_step hit cmem b i p) = sramAddress p"
  "spriteMem (sramDMA_step hit cmem b i p)
     = (spriteMem p)((sramAddress p + i) mod 256 := cmem (b + i) mod 256)"
  by (simp_all add: sramDMA_step_def Let_def spriteRamWriteUpdate_keeps nat_and_255)

lemma mod256_distinct:
  assumes "i < n" "n < 256"
  shows "((a::nat) + i) mod 256 \<noteq> (a + n) mod 256"
proof
  assume "(a + i) mod 256 = (a + n) mod 256"
  then have "(a + n) mod 256 = (a + i) mod 256" by simp
  moreover have "a + i \<le> a + n" using assms by simp
  ultimately have "256 dvd (a + n) - (a + i)" by (simp only: mod_eq_dvd_iff_nat)
  then have "256 dvd n - i" by simp
  moreover have "0 < n - i" "n - i < 256" using assms by simp_all
  ultimately show False using nat_dvd_not_less by blast
qed

lemma sramDMA_loop:
  assumes "n \<le> 256"
  shows "sramAddress (fold (sramDMA_step hit cmem b) [0..<n] p) = sramAddress p
       \<and> (\<forall>i<n. spriteMem (fold (sramDMA_step hit cmem b) [0..<n] p) ((sramAddress p + i) mod 256)
                   = cmem (b + i) mod 256)"
  using assms
proof (induction n)
  case 0
  then show ?case by simp
next
  case (Suc n)
  let ?q = "fold (sramDMA_step hit cmem b) [0..<n] p"
  from Suc have ih: "sramAddress ?q = sramAddress p"
    "\<forall>i<n. spriteMem ?q ((sramAddress p + i) mod 256) = cmem (b + i) mod 256"
    and n: "n < 256" by simp_all
  have f: "fold (sramDMA_step hit cmem b) [0..<Suc n] p = sramDMA_step hit cmem b n ?q"
    by simp
  show ?case
    unfolding f
    using ih n mod256_distinct[of _ n "sramAddress p"]
    by (auto simp: sramDMA_step_effect less_Suc_eq)
qed

text \<open>
  Claim C10. After the 256-byte copy of an OAM DMA (\<^verbatim>\<open>sramDMA\<close>, reached by a write to
  \<^verbatim>\<open>$4014\<close>) the OAM address register \<^verbatim>\<open>sramAddress\<close> has the value it had before, and for
  every \<open>i < 256\<close> the byte of CPU page \<open>value\<close> at offset \<open>i\<close> is in OAM at
  \<open>(sramAddress + i) mod 256\<close>: the copy starts at the OAM address and wraps within OAM.
\<close>

theorem sramDMA_keeps_sramAddress:
  "sramAddress (fst (sramDMA hit cmem value p)) = sramAddress p
   \<and> (\<forall>i<256. spriteMem (fst (sramDMA hit cmem value p)) ((sramAddress p + i) mod 256)
                 = cmem (value * 0x100 + i) mod 256)"
  using sramDMA_loop[of 256 hit cmem "value * 0x100" p] by (simp add: sramDMA_def)

theorem sramDMA_keeps_sramAddress_witness:
  "sramAddress (fst (sramDMA (\<lambda>p s. None) (\<lambda>a. a mod 256) 2 (ppu_init\<lparr>sramAddress := 0xFA\<rparr>))) = 0xFA
   \<and> spriteMem (fst (sramDMA (\<lambda>p s. None) (\<lambda>a. a mod 256) 2 (ppu_init\<lparr>sramAddress := 0xFA\<rparr>))) 4 = 10"
proof -
  let ?p = "ppu_init\<lparr>sramAddress := 0xFA\<rparr>"
  note h = sramDMA_keeps_sramAddress[of "\<lambda>p s. None" "\<lambda>a. a mod 256" 2 ?p]
  have a: "(10::nat) < 256" by simp
  from h have "sramAddress (fst (sramDMA (\<lambda>p s. None) (\<lambda>a. a mod 256) 2 ?p)) = sramAddress ?p"
    by simp
  moreover from h a have "spriteMem (fst (sramDMA (\<lambda>p s. None) (\<lambda>a. a mod 256) 2 ?p))
       ((sramAddress ?p + 10) mod 256) = (\<lambda>a. a mod 256) (2 * 0x100 + 10) mod 256"
    by blast
  ultimately show ?thesis by simp
qed

section \<open>Palette backdrop mirrors\<close>

lemmas bit_arith = push_bit_eq_mult drop_bit_eq_div

lemma writeMem_palette:
  assumes "0x3F00 \<le> a" "a < 0x3F20"
  shows "writeMem hit a v p = p\<lparr>vramMem := (vramMem p)(a := v mod 256)\<rparr>"
  using assms by (simp add: writeMem_def Let_def)

lemma and31: "(x::nat) AND 0x1F = x mod 32"
proof -
  have "x AND mask 5 = take_bit 5 x" by (rule take_bit_eq_mask[symmetric])
  then show ?thesis by (simp add: take_bit_eq_mod mask_eq_exp_minus_1)
qed
lemma pal_index: 
  assumes "i < 0x20" shows "(0x3F00 + i) AND 0x1F = (i::nat)"
proof -
  have "(0x3F00 + i) mod 32 = (i + 504 * 32) mod 32" by (simp add: add.commute)
  also have "\<dots> = i mod 32" by (rule mod_mult_self1)
  finally show ?thesis using assms by (simp add: and31)
qed
lemma fst_if_else: "\<not> c \<Longrightarrow> fst (if c then a else (x, y)) = x"
  by simp

lemma vramLoad_palette:
  assumes "vramAddress (cntsToAddress p) = 0x3F00 + i" "i < 0x20"
  shows "fst (vramLoad p) =
     (vramMem p (0x3F00 + (if i AND 0x13 = 0x10 then i AND 0x0F else i)) AND 0x3F)
       OR (openBusLatch p AND 0xC0)"
proof -
  let ?q = "regsToAddress (cntsToAddress p)"
  have q: "vramAddress ?q = 0x3F00 + i" "vramMem ?q = vramMem p" "openBusLatch ?q = openBusLatch p"
    using assms(1) by (simp_all add: regsToAddress_def cntsToAddress_def Let_def)
  have gt: "\<not> vramAddress ?q \<le> 0x3EFF" using q(1) by simp
  show ?thesis
    unfolding vramLoad_def Let_def
    apply (simp only: q pal_index[OF assms(2)])
    apply (rule fst_if_else)
    apply simp
    done
qed

lemma mirroredWrite_pair:
  assumes "x = 0 \<or> x = 4 \<or> x = 8 \<or> x = 12" "w = 0x3F00 + x \<or> w = 0x3F10 + x"
  shows "\<exists>p1. mirroredWrite hit w v p = Inr p1
              \<and> vramMem p1 (0x3F00 + x) = v mod 256 \<and> vramMem p1 (0x3F10 + x) = v mod 256"
  using assms by (elim disjE) (simp_all add: mirroredWrite_def writeMem_palette)

lemma palette_index_fold:
  assumes "x = 0 \<or> x = 4 \<or> x = 8 \<or> x = 12" "i = x \<or> i = 0x10 + x"
  shows "(if i AND 0x13 = 0x10 then i AND 0x0F else i) = (x::nat)"
  using assms by (elim disjE) simp_all

lemma nat_and_255_id: "v < 256 \<Longrightarrow> v AND 0xFF = (v::nat)"
proof -
  assume "v < 256"
  have "v AND mask 8 = take_bit 8 v" by (rule take_bit_eq_mask[symmetric])
  then show ?thesis using \<open>v < 256\<close> by (simp add: take_bit_eq_mod mask_eq_exp_minus_1)
qed

lemma nat_and_or_distrib: "(v::nat) AND (a OR b) = (v AND a) OR (v AND b)"
  by (rule bit_eqI) (auto simp add: bit_and_iff bit_or_iff)

lemma nat_or_and_distrib: "((a::nat) OR b) AND c = (a AND c) OR (b AND c)"
  by (rule bit_eqI) (auto simp add: bit_and_iff bit_or_iff)

lemma top_bits_read:
  assumes "v < 256"
  shows "((v AND 0x3F) OR (l AND 0xC0) = (v::nat)) = (l AND 0xC0 = v AND 0xC0)"
proof
  assume e: "(v AND 0x3F) OR (l AND 0xC0) = v"
  have "((v AND 0x3F) OR (l AND 0xC0)) AND 0xC0 = l AND 0xC0"
    by (simp add: nat_or_and_distrib and.assoc)
  then show "l AND 0xC0 = v AND 0xC0" using e by simp
next
  assume a: "l AND 0xC0 = v AND 0xC0"
  have "(v AND 0x3F) OR (v AND 0xC0) = v AND 0xFF"
    using nat_and_or_distrib[of v "0x3F" "0xC0"] by simp
  then show "(v AND 0x3F) OR (l AND 0xC0) = v" using a nat_and_255_id[OF assms] by simp
qed

text \<open>
  Claim C5, as the code has it. Let \<open>x\<close> be 0, 4, 8 or 12. A write of the byte \<open>v\<close> through
  \<^verbatim>\<open>mirroredWrite\<close> to \<^verbatim>\<open>$3F00 + x\<close> or to \<^verbatim>\<open>$3F10 + x\<close> succeeds and stores \<open>v\<close> in both cells.
  A later read of \<^verbatim>\<open>$2007\<close> at either of the two addresses, in a state in which this palette
  entry has not been written since, returns the low six bits of \<open>v\<close> combined with the top
  two bits of the PPU open-bus latch; it returns \<open>v\<close> itself exactly when the top two bits of
  \<open>v\<close> are those of the latch.
\<close>

theorem palette_mirror_read:
  assumes x: "x = 0 \<or> x = 4 \<or> x = 8 \<or> x = 12"
      and w: "w = 0x3F00 + x \<or> w = 0x3F10 + x"
      and r: "r = 0x3F00 + x \<or> r = 0x3F10 + x"
      and v: "v < 256"
      and wr: "mirroredWrite hit w v p = Inr p1"
      and same: "vramMem p2 (0x3F00 + x) = vramMem p1 (0x3F00 + x)"
      and addr: "vramAddress (cntsToAddress p2) = r"
  shows "vramMem p1 (0x3F00 + x) = v \<and> vramMem p1 (0x3F10 + x) = v
         \<and> fst (vramLoad p2) = (v AND 0x3F) OR (openBusLatch p2 AND 0xC0)
         \<and> (fst (vramLoad p2) = v \<longleftrightarrow> openBusLatch p2 AND 0xC0 = v AND 0xC0)"
proof -
  from mirroredWrite_pair[OF x w, of hit v p] wr v
  have cells: "vramMem p1 (0x3F00 + x) = v" "vramMem p1 (0x3F10 + x) = v" by auto
  obtain i where i: "r = 0x3F00 + i" "i = x \<or> i = 0x10 + x"
    using r by auto
  have il: "i < 0x20" using i(2) x by auto
  have "fst (vramLoad p2) = (vramMem p2 (0x3F00 + x) AND 0x3F) OR (openBusLatch p2 AND 0xC0)"
    using vramLoad_palette[of p2 i] addr i(1) il palette_index_fold[OF x i(2)] by simp
  then have rd: "fst (vramLoad p2) = (v AND 0x3F) OR (openBusLatch p2 AND 0xC0)"
    using cells same by simp
  show ?thesis using cells rd top_bits_read[OF v, of "openBusLatch p2"] by simp
qed

theorem palette_mirror_read_witness:
  "fst (vramLoad ((writeMem no_hit 0x3F10 0x2A (writeMem no_hit 0x3F00 0x2A ppu_init))
                    \<lparr>cntFV := 3, cntV := 1, cntH := 1, cntVT := 24, cntHT := 0\<rparr>)) = 0x2A"
proof -
  let ?p1 = "writeMem no_hit 0x3F10 0x2A (writeMem no_hit 0x3F00 0x2A ppu_init)"
  let ?p2 = "?p1\<lparr>cntFV := 3, cntV := 1, cntH := 1, cntVT := 24, cntHT := 0\<rparr>"
  have x: "(0::nat) = 0 \<or> (0::nat) = 4 \<or> (0::nat) = 8 \<or> (0::nat) = 12" by simp
  have w: "(0x3F10::nat) = 0x3F00 + 0 \<or> (0x3F10::nat) = 0x3F10 + 0" by simp
  have r: "(0x3F00::nat) = 0x3F00 + 0 \<or> (0x3F00::nat) = 0x3F10 + 0" by simp
  have v: "(0x2A::nat) < 256" by simp
  have wr: "mirroredWrite no_hit 0x3F10 0x2A ppu_init = Inr ?p1"
    by (simp add: mirroredWrite_def)
  have same: "vramMem ?p2 (0x3F00 + 0) = vramMem ?p1 (0x3F00 + 0)" by simp
  have addr: "vramAddress (cntsToAddress ?p2) = 0x3F00"
    by (simp add: cntsToAddress_def bit_arith)
  have latch: "openBusLatch ?p2 = 0"
    by (simp add: writeMem_palette ppu_init_def)
  from palette_mirror_read[OF x w r v wr same addr] latch
  show ?thesis by simp
qed

text \<open>
  Claim C5 as stated fails for a byte with one of its top two bits set: writing \<open>0xFF\<close> to
  \<^verbatim>\<open>$3F10\<close> through \<^verbatim>\<open>$2006\<close>/\<^verbatim>\<open>$2007\<close> and reading \<^verbatim>\<open>$3F00\<close> back through \<^verbatim>\<open>$2006\<close>/\<^verbatim>\<open>$2007\<close>
  returns \<open>0x3F\<close>.
\<close>

theorem palette_mirror_counterexample:
  "vramLoad_after no_hit 0
     [(0x2006, 0x3F), (0x2006, 0x10), (0x2007, 0xFF), (0x2006, 0x3F), (0x2006, 0x00)] ppu_init
   = Inr 0x3F"
  by (simp add: vramLoad_after_def no_hit_def bit_arith ppu_init_def ppu_regWrite_def
      writeVRAMAddress_def Let_def cntsToAddress_def vramWrite_def triggerRendering_def
      regsToAddress_def mirroredWrite_def writeMem_def cntsFromAddress_def regsFromAddress_def
      vramLoad_def mirroredLoad_def checkSprite0_def)

section \<open>Reading the controller after a strobe\<close>

lemma joy1Read_shift:
  assumes "joypadLastWrite m AND 1 = 0"
  shows "joy1Read state m =
           ((if joy1StrobeState m < 8 then state (joy1StrobeState m) else 1),
            m\<lparr>joy1StrobeState := (if joy1StrobeState m + 1 = 24 then 0 else joy1StrobeState m + 1)\<rparr>)"
  using assms by (simp add: joy1Read_def Let_def)

lemma joy1Reads_nth:
  assumes "joypadLastWrite m AND 1 = 0" "joy1StrobeState m < 24" "k < n"
  shows "joy1Reads state n m ! k =
           (if (joy1StrobeState m + k) mod 24 < 8 then state ((joy1StrobeState m + k) mod 24) else 1)"
  using assms
proof (induction n arbitrary: m k)
  case 0
  then show ?case by simp
next
  case (Suc n)
  let ?s = "joy1StrobeState m"
  let ?m1 = "m\<lparr>joy1StrobeState := (if ?s + 1 = 24 then 0 else ?s + 1)\<rparr>"
  have step: "joy1Reads state (Suc n) m
                = (if ?s < 8 then state ?s else 1) # joy1Reads state n ?m1"
    using joy1Read_shift[OF Suc.prems(1)] by simp
  show ?case
  proof (cases k)
    case 0
    then show ?thesis using step Suc.prems(2) by simp
  next
    case (Suc j)
    have m1: "joypadLastWrite ?m1 AND 1 = 0" "joy1StrobeState ?m1 < 24"
      using Suc.prems(1,2) by auto
    have j: "j < n" using Suc Suc.prems(3) by simp
    have idx: "(joy1StrobeState ?m1 + j) mod 24 = (?s + Suc j) mod 24"
    proof (cases "?s + 1 = 24")
      case True
      then have "(?s + Suc j) mod 24 = (j + 1 * 24) mod 24" by (simp add: add.commute)
      then show ?thesis using True by simp
    next
      case False
      then show ?thesis by simp
    qed
    show ?thesis
      using Suc.IH[OF m1 j] step Suc idx by simp
  qed
qed

lemma joy1Reads_length: "length (joy1Reads state n m) = n"
  by (induction n arbitrary: m) (simp_all add: Let_def split: prod.splits)

lemma strobe_state:
  assumes "hi AND 1 = 1" "lo AND 1 = 0"
  shows "joypadLastWrite (strobe hi lo m) AND 1 = 0" "joy1StrobeState (strobe hi lo m) = 0"
  using assms by (simp_all add: strobe_def regWrite_4016_def Let_def)

text \<open>
  What the code returns after a strobe (a write to \<^verbatim>\<open>$4016\<close> with bit 0 set, then one with
  bit 0 clear): read number \<open>k + 1\<close> of controller 1 returns button \<open>k mod 24\<close> when
  \<open>k mod 24 < 8\<close> and 1 otherwise. Reads 1 to 8 return A, B, SELECT, START, UP, DOWN, LEFT,
  RIGHT in that order and reads 9 to 24 return 1; then the strobe counter wraps.
\<close>

lemma joy1Reads_after_strobe:
  assumes "hi AND 1 = 1" "lo AND 1 = 0" "k < n"
  shows "joy1Reads state n (strobe hi lo m) ! k = (if k mod 24 < 8 then state (k mod 24) else 1)"
  using joy1Reads_nth[of "strobe hi lo m" k n state] strobe_state[OF assms(1,2), of m] assms(3)
  by simp

lemma joy1Reads_first_24:
  assumes "hi AND 1 = 1" "lo AND 1 = 0"
  shows "joy1Reads state 24 (strobe hi lo m) = map state [0..<8] @ replicate 16 1"
proof (rule nth_equalityI)
  show "length (joy1Reads state 24 (strobe hi lo m)) = length (map state [0..<8] @ replicate 16 1)"
    by (simp add: joy1Reads_length)
next
  fix k assume "k < length (joy1Reads state 24 (strobe hi lo m))"
  then have k: "k < 24" by (simp add: joy1Reads_length)
  then show "joy1Reads state 24 (strobe hi lo m) ! k = (map state [0..<8] @ replicate 16 1) ! k"
    using joy1Reads_after_strobe[OF assms k, of state m] by (simp add: nth_append)
qed

text \<open>
  Claim C7, where the code departs from it. The first 24 reads after a strobe are as the
  claim says: the eight buttons, then 1. At the 24th read the code sets the strobe counter
  back to 0, so read 25 returns the state of button A again. With no button held (every
  entry of the button array is \<open>0x40\<close>) the 25 reads return eight times \<open>0x40\<close>, sixteen
  times 1 and then \<open>0x40\<close>; through \<^verbatim>\<open>$4016\<close>, with \<open>0x40\<close> on the data bus, the CPU reads
  \<open>0x40\<close> at read 25, whose bit 0 is clear, where the claim and the comment in \<^verbatim>\<open>joy1Read\<close>
  have 1.
\<close>

theorem joy1Read_wraps_after_24_reads:
  "joy1Reads buttons_released 25 (strobe 1 0 joypad_reset)
     = replicate 8 0x40 @ replicate 16 1 @ [0x40]
   \<and> fst (regLoad_4016 buttons_released 0x40 ((strobe 1 0 joypad_reset)\<lparr>joy1StrobeState := 0\<rparr>)) = 0x40"
proof -
  have "joy1Reads buttons_released 25 (strobe 1 0 joypad_reset)
          = replicate 8 0x40 @ replicate 16 1 @ [0x40]"
    by (simp add: joy1Read_def strobe_def regWrite_4016_def joypad_reset_def
        buttons_released_def Let_def eval_nat_numeral)
  moreover have "fst (regLoad_4016 buttons_released 0x40
                   ((strobe 1 0 joypad_reset)\<lparr>joy1StrobeState := 0\<rparr>)) = 0x40"
    by (simp add: regLoad_4016_def joy1Read_def buttons_released_def Let_def
        strobe_def regWrite_4016_def joypad_reset_def)
  ultimately show ?thesis by simp
qed

section \<open>The frame IRQ inhibit\<close>

lemma clockQuarterFrame_flags [simp]:
  "frameIrqEnabled (clockQuarterFrame ops a) = frameIrqEnabled a"
  "frameIrqActive (clockQuarterFrame ops a) = frameIrqActive a"
  "countSequence (clockQuarterFrame ops a) = countSequence a"
  "frameStep (clockQuarterFrame ops a) = frameStep a"
  "frameCycleCounter (clockQuarterFrame ops a) = frameCycleCounter a"
  by (simp_all add: clockQuarterFrame_def)

lemma clockHalfFrame_flags [simp]:
  "frameIrqEnabled (clockHalfFrame ops a) = frameIrqEnabled a"
  "frameIrqActive (clockHalfFrame ops a) = frameIrqActive a"
  "countSequence (clockHalfFrame ops a) = countSequence a"
  "frameStep (clockHalfFrame ops a) = frameStep a"
  "frameCycleCounter (clockHalfFrame ops a) = frameCycleCounter a"
  by (simp_all add: clockHalfFrame_def)

lemma fireFrameStep_irq_off: "irq_off a \<Longrightarrow> irq_off (fireFrameStep ops step a)"
  by (simp add: irq_off_def fireFrameStep_def Let_def)

lemma frameCounterLoop_irq_off: "irq_off a \<Longrightarrow> irq_off (frameCounterLoop ops a)"
proof (induction ops a rule: frameCounterLoop.induct)
  case (1 ops a)
  let ?steps = "if countSequence a = 0 then FRAME_STEPS_4 else FRAME_STEPS_5"
  let ?period = "if countSequence a = 0 then FRAME_PERIOD_4 else FRAME_PERIOD_5"
  show ?case
  proof (cases "frameStep a < length ?steps \<and> frameCycleCounter a \<ge> ?steps ! frameStep a")
    case False
    then have "frameCounterLoop ops a = a"
      by (subst frameCounterLoop.simps) (auto simp: Let_def)
    then show ?thesis using "1.prems" by simp
  next
    case True
    let ?a1 = "fireFrameStep ops (frameStep a) a"
    let ?a2 = "?a1\<lparr>frameStep := frameStep ?a1 + 1\<rparr>"
    let ?a3 = "if frameStep ?a2 \<ge> length ?steps
               then ?a2\<lparr>frameStep := 0, frameCycleCounter := frameCycleCounter ?a2 - ?period\<rparr>
               else ?a2"
    have off: "irq_off ?a3"
      using fireFrameStep_irq_off[OF "1.prems", of ops "frameStep a"] by (simp add: irq_off_def)
    have "irq_off (frameCounterLoop ops ?a3)"
      by (rule "1.IH"[OF refl refl True refl refl refl off])
    moreover have "frameCounterLoop ops a = frameCounterLoop ops ?a3"
      using True by (subst frameCounterLoop.simps) (auto simp: Let_def)
    ultimately show ?thesis by simp
  qed
qed

lemma updateChannelEnable_flags [simp]:
  "frameIrqEnabled (updateChannelEnable ops v a) = frameIrqEnabled a"
  "frameIrqActive (updateChannelEnable ops v a) = frameIrqActive a"
  by (simp_all add: updateChannelEnable_def)

lemma readReg_irq_off: "irq_off a \<Longrightarrow> irq_off (snd (readReg ops db a))"
  by (simp add: irq_off_def readReg_def Let_def)

lemma writeReg_irq_off:
  assumes "irq_off a" "\<not> (address = 0x4017 \<and> value AND 0x40 = 0)"
  shows "irq_off (fst (writeReg ops cmem address value a))"
  using assms by (auto simp: irq_off_def writeReg_def Let_def split_beta)

lemma writeReg_4017_inhibit:
  assumes "value AND 0x40 \<noteq> 0"
  shows "irq_off (fst (writeReg ops cmem 0x4017 value a))"
  using assms by (simp add: irq_off_def writeReg_def Let_def)

lemma advanceFrameCounter_irq_off: "irq_off a \<Longrightarrow> irq_off (advanceFrameCounter ops n a)"
  unfolding advanceFrameCounter_def
  by (rule frameCounterLoop_irq_off) (simp add: irq_off_def)

lemma clockFrameCounter_irq_off:
  assumes "irq_off a"
  shows "irq_off (fst (clockFrameCounter ops cmem n k a))"
proof -
  have loop: "\<And>b. irq_off b \<Longrightarrow> irq_off (frameCounterLoop ops b)"
    by (rule frameCounterLoop_irq_off)
  have pre: "\<And>e ch c. irq_off (a\<lparr>extraCycles := e, channels := ch, frameCycleCounter := c\<rparr>)"
    using assms by (simp add: irq_off_def)
  show ?thesis
    unfolding clockFrameCounter_def Let_def split_beta
    using loop[OF pre] by (simp add: irq_off_def)
qed

lemma apu_step_irq_off:
  assumes "irq_off a" "\<not> lifts_inhibit e"
  shows "irq_off (apu_step ops e a)"
proof (cases e)
  case (ReadReg db)
  then show ?thesis using assms readReg_irq_off by simp
next
  case (WriteReg cmem address v)
  then show ?thesis using assms writeReg_irq_off[of a address v ops cmem] by simp
next
  case (ClockFrameCounter cmem n k)
  then show ?thesis using assms clockFrameCounter_irq_off by simp
next
  case (AdvanceFrameCounter n)
  then show ?thesis using assms advanceFrameCounter_irq_off by simp
qed

lemma apu_run_irq_off:
  assumes "irq_off a" "\<forall>e \<in> set es. \<not> lifts_inhibit e"
  shows "irq_off (apu_run ops es a)"
  using assms
proof (induction es arbitrary: a)
  case Nil
  then show ?case by simp
next
  case (Cons e es)
  then show ?case using apu_step_irq_off[of a e ops] by simp
qed

lemma flag_bit6:
  assumes "s = 0 \<or> s = (1::int)"
  shows "s AND 0x40 = 0" "push_bit 1 s AND 0x40 = 0" "push_bit 2 s AND 0x40 = 0"
        "push_bit 3 s AND 0x40 = 0" "push_bit 4 s AND 0x40 = 0" "push_bit 7 s AND 0x40 = 0"
  using assms by auto

lemma readReg_bit6:
  assumes "status_flags ops" "\<not> frameIrqActive a"
  shows "fst (readReg ops db a) AND 0x40 = 0"
proof -
  have m: "\<And>x::int. (x AND 0xFF) AND 0x40 = x AND 0x40"
    by (simp add: and.assoc)
  have d: "(db AND 0x20) AND 0x40 = 0"
    by (simp add: and.assoc)
  note f = assms(1)[unfolded status_flags_def, rule_format, of "channels a"]
  have "sq1_getLengthStatus ops (channels a) AND 0x40 = 0"
       "push_bit 1 (sq2_getLengthStatus ops (channels a)) AND 0x40 = 0"
       "push_bit 2 (tri_getLengthStatus ops (channels a)) AND 0x40 = 0"
       "push_bit 3 (noise_getLengthStatus ops (channels a)) AND 0x40 = 0"
       "push_bit 4 (dmc_getLengthStatus ops (channels a)) AND 0x40 = 0"
       "push_bit 7 (dmc_getIrqStatus ops (channels a)) AND 0x40 = 0"
    using f by (simp_all only: flag_bit6)
  then show ?thesis
    using assms(2) d
    by (simp only: readReg_def Let_def m bit.conj_disj_distrib2 fst_conv if_False)
       simp
qed

text \<open>
  Claim C4. After a write to \<^verbatim>\<open>$4017\<close> with bit 6 set, \<^verbatim>\<open>frameIrqActive\<close> is false, and it is
  still false after any further sequence of APU calls (register reads and writes, frame
  counter clocking, frame counter catch-up) that contains no write to \<^verbatim>\<open>$4017\<close> with bit 6
  clear; a read of \<^verbatim>\<open>$4015\<close> at that point returns bit 6 clear (the channel status methods
  returning 0 or 1).
\<close>

theorem frame_irq_stays_inhibited:
  assumes "value AND 0x40 \<noteq> 0" "\<forall>e \<in> set es. \<not> lifts_inhibit e"
  shows "\<not> frameIrqActive (fst (writeReg ops cmem 0x4017 value a))
       \<and> \<not> frameIrqActive (apu_run ops es (fst (writeReg ops cmem 0x4017 value a)))
       \<and> (status_flags ops \<longrightarrow>
            fst (readReg ops db (apu_run ops es (fst (writeReg ops cmem 0x4017 value a)))) AND 0x40 = 0)"
proof -
  let ?a1 = "fst (writeReg ops cmem 0x4017 value a)"
  have a1: "irq_off ?a1" using writeReg_4017_inhibit[OF assms(1)] .
  have a2: "irq_off (apu_run ops es ?a1)" using apu_run_irq_off[OF a1 assms(2)] .
  show ?thesis
    using a1 a2 readReg_bit6[of ops "apu_run ops es ?a1" db] by (simp add: irq_off_def)
qed

lemma status_flags_silent: "status_flags silent_ops"
  by (simp add: status_flags_def silent_ops_def)

theorem frame_irq_stays_inhibited_witness:
  "\<not> frameIrqActive (apu_run silent_ops
        [ClockFrameCounter zero_mem 30000 None, AdvanceFrameCounter 30000, WriteReg zero_mem 0x4017 0xC0]
        (fst (writeReg silent_ops zero_mem 0x4017 0x40 papu_init)))
   \<and> fst (readReg silent_ops 0xFF (apu_run silent_ops
        [ClockFrameCounter zero_mem 30000 None, AdvanceFrameCounter 30000, WriteReg zero_mem 0x4017 0xC0]
        (fst (writeReg silent_ops zero_mem 0x4017 0x40 papu_init)))) AND 0x40 = 0"
proof -
  have v: "(0x40::int) AND 0x40 \<noteq> 0" by simp
  have es: "\<forall>e \<in> set [ClockFrameCounter zero_mem 30000 None, AdvanceFrameCounter 30000,
                          WriteReg zero_mem 0x4017 0xC0]. \<not> lifts_inhibit e"
    by simp
  from frame_irq_stays_inhibited[OF v es, of silent_ops zero_mem papu_init "0xFF"]
       status_flags_silent
  show ?thesis by blast
qed

section \<open>Invalid opcodes and the crashed flag\<close>
















section \<open>The data bus after an indirect jump\<close>

lemma opinfo_6C: "opinfo 0x6C = 0x05030C1B"
  by (simp add: opinfo_def opdata_def opEntries_def setOp_def bit_arith)

text \<open>
  Claim C1, where the code departs from it. The first instruction after \<^verbatim>\<open>loadROM\<close> is
  \<^verbatim>\<open>JMP ($0008)\<close>. \<^verbatim>\<open>emulate\<close> serves the reset, fetches opcode and operand, and reads the two
  bytes of the pointer, \<open>0xF7\<close> at \<open>0x0008\<close> and \<open>0xEF\<close> at \<open>0x0009\<close>, to jump to \<open>0xEFF7\<close>. After
  each of these two reads \<^verbatim>\<open>dataBus\<close> is still 0, the high byte of the operand, not the
  byte read: the cycles of the indirect jump do not update the data bus.
\<close>

theorem indirect_jump_leaves_dataBus:
  "\<exists>t. emulate env0 console_jmp = Inr (Some 5, t)
      \<and> busLog t =
          [\<lparr>bc_kind = BusRead, bc_addr = 0xFFFC, bc_byte = 0, bc_dataBus = 0\<rparr>,
           \<lparr>bc_kind = BusRead, bc_addr = 0xFFFD, bc_byte = 0x80, bc_dataBus = 0x80\<rparr>,
           \<lparr>bc_kind = BusRead, bc_addr = 0x8000, bc_byte = 0x6C, bc_dataBus = 0x6C\<rparr>,
           \<lparr>bc_kind = BusRead, bc_addr = 0x8001, bc_byte = 0x08, bc_dataBus = 0x08\<rparr>,
           \<lparr>bc_kind = BusRead, bc_addr = 0x8002, bc_byte = 0, bc_dataBus = 0\<rparr>,
           \<lparr>bc_kind = BusRead, bc_addr = 0x0008, bc_byte = 0xF7, bc_dataBus = 0\<rparr>,
           \<lparr>bc_kind = BusRead, bc_addr = 0x0009, bc_byte = 0xEF, bc_dataBus = 0\<rparr>]
      \<and> \<not> list_all busHoldsByte (busLog t)
      \<and> REG_PC (cpu t) = 0xEFF7 - 1
      \<and> dataBus (cpu t) = 0"
  by (simp add: emulate_def checkInterrupts_def fetchOpcode_def loadFromCartridge_def
      mmap_load_def console_jmp_def console_def requestIrq_def IRQ_RESET_def IRQ_NORMAL_def
      doResetInterrupt_def fetchVector_def getStatus_def with_rom_def cpu_reset_def
      setStatus_def Let_def logCycle_def jmp_indirect_def cyclesToNextDmcFetch_def env0_def
      silent_ops_def bit_arith cpu_zero_def opinfo_6C addressing_def load16bit_def
      execute_def ins_JMP_def reset_mem_def busHoldsByte_def split: prod.splits)

section \<open>A read of the APU status during an instruction\<close>

text \<open>
  What \<^verbatim>\<open>load\<close> does for the address \<^verbatim>\<open>$4015\<close>: the APU is asked for its status and nothing
  else is done to it.
\<close>

lemma load_4015:
  "load e 0x4015 s =
     (let (v, a) = readReg (apu e) (dataBus (cpu s)) (papu s);
          v' = (if gg_enabled s \<and> length (gg_patches s) > 0
                then applyCodes (gg_patches s) 0x4015 v else v);
          c = (cpu s)\<lparr>dataBus := v', instrBusCycles := instrBusCycles (cpu s) + 1\<rparr>
      in (v', logCycle BusRead 0x4015 v' (s\<lparr>papu := a, cpu := c\<rparr>)))"
  by (simp add: load_def loadFromCartridge_def mmap_load_def regLoad_def Let_def bit_arith
      split: prod.splits)

lemma load_4015_frame_counter:
  "frameCycleCounter (papu (snd (load e 0x4015 s))) = frameCycleCounter (papu s)"
  "frameStep (papu (snd (load e 0x4015 s))) = frameStep (papu s)"
  by (simp_all add: load_4015 readReg_def Let_def logCycle_def split: prod.splits)

lemma apu_due_eq:
  "apu_due = \<lparr>frameCycleCounter = 29828, frameStep = 3, countSequence = 0,
              frameIrqEnabled = True, frameIrqActive = False, channelEnableValue = 0xFF,
              extraCycles = 0, sampleTimer = 0, sampleTimerMax = 38181, channels = ()\<rparr>"
  by (simp add: apu_due_def papu_reset_def updateChannelEnable_def papu_init_def silent_ops_def)

lemma opinfo_AD: "opinfo 0xAD = 0x0403031D"
  by (simp add: opinfo_def opdata_def opEntries_def setOp_def bit_arith)

text \<open>
  Claim C3, where the code departs from it. The console runs \<^verbatim>\<open>LDA $4015\<close> with the frame
  counter at 29828, one cycle before the step that raises the frame interrupt. Three bus
  cycles of the instruction have passed when \<^verbatim>\<open>$4015\<close> is read. The read returns 0 and leaves
  the frame counter at 29828 in step 3: no catch-up is made. Had the frame counter been
  advanced by the three cycles first, as \<^verbatim>\<open>advanceFrameCounter\<close> does, the read would have
  returned \<open>0x40\<close>, the frame interrupt flag.
\<close>

theorem read_4015_makes_no_catchup:
  "\<exists>t. emulate env0 console_4015 = Inr (Some 4, t)
      \<and> REG_ACC (cpu t) = 0
      \<and> frameCycleCounter (papu t) = 29828 \<and> frameStep (papu t) = 3
      \<and> \<not> frameIrqActive (papu t)
      \<and> fst (readReg silent_ops 0x40 (advanceFrameCounter silent_ops 3 (papu console_4015))) = 0x40"
  by (simp add: emulate_def checkInterrupts_def fetchOpcode_def loadFromCartridge_def
      mmap_load_def console_4015_def console_def with_rom_def cpu_reset_def setStatus_def
      Let_def logCycle_def lda_4015_def cyclesToNextDmcFetch_def env0_def silent_ops_def
      bit_arith cpu_zero_def opinfo_AD addressing_def load16bit_def execute_def ins_LDA_def
      load_4015 readReg_def apu_due_eq advanceFrameCounter_def frameCounterLoop.simps
      fireFrameStep_def clockQuarterFrame_def clockHalfFrame_def FRAME_STEPS_4_def
      FRAME_PERIOD_4_def split: prod.splits)

section \<open>The bus cycles of read-modify-write instructions\<close>

text \<open>What the catch-up of the PPU and the mapper leave alone: the log and the data bus.\<close>

lemma setStatusFlag_keeps [simp]:
  "dataBus (setStatusFlag f v c) = dataBus c"
  by (simp add: setStatusFlag_def Let_def)

lemma requestIrq_keeps [simp]: "dataBus (requestIrq ty c) = dataBus c"
  by (simp add: requestIrq_def)

lemma serve_request_keeps [simp]: "dataBus (serve_request r c) = dataBus c"
  by (simp add: serve_request_def haltCycles_def Let_def)

lemma endScanline_keeps [simp]:
  "busLog (endScanline e s) = busLog s"
  "dataBus (cpu (endScanline e s)) = dataBus (cpu s)"
  by (simp_all add: endScanline_def Let_def split: prod.splits)

lemma startVBlank_keeps [simp]:
  "busLog (startVBlank s) = busLog s"
  "dataBus (cpu (startVBlank s)) = dataBus (cpu s)"
  by (simp_all add: startVBlank_def Let_def)

lemma ppuDot_keeps [simp]:
  "busLog (snd (ppuDot e s)) = busLog s"
  "dataBus (cpu (snd (ppuDot e s))) = dataBus (cpu s)"
  by (simp_all add: ppuDot_def Let_def)

lemma ppuCatchUp_loop_keeps [simp]:
  "busLog (ppuCatchUp_loop e n s) = busLog s"
  "dataBus (cpu (ppuCatchUp_loop e n s)) = dataBus (cpu s)"
  by (induction n arbitrary: s; simp add: Let_def split: prod.splits;
      metis ppuDot_keeps snd_conv)+

lemma ppuCatchUp_keeps [simp]:
  "busLog (ppuCatchUp e s) = busLog s"
  "dataBus (cpu (ppuCatchUp e s)) = dataBus (cpu s)"
  by (simp_all add: ppuCatchUp_def)

lemma haltCycles_keeps [simp]: "dataBus (haltCycles n c) = dataBus c"
  by (simp add: haltCycles_def)

lemma regWrite_keeps [simp]:
  "busLog (regWrite e a v s) = busLog s"
  "dataBus (cpu (regWrite e a v s)) = dataBus (cpu s)"
  by (simp_all add: regWrite_def Let_def split: prod.splits)

lemma mmap_write_keeps [simp]:
  "busLog (mmap_write e a v s) = busLog s"
  "dataBus (cpu (mmap_write e a v s)) = dataBus (cpu s)"
  by (simp_all add: mmap_write_def)

lemma regLoad_keeps [simp]: "busLog (snd (regLoad e a s)) = busLog s"
  by (simp add: regLoad_def readStatusRegister_def Let_def split: prod.splits option.splits)

lemma mmap_load_keeps [simp]: "busLog (snd (mmap_load e a s)) = busLog s"
  by (simp add: mmap_load_def Let_def)

lemma loadFromCartridge_keeps [simp]: "busLog (snd (loadFromCartridge e a s)) = busLog s"
  by (simp add: loadFromCartridge_def Let_def split: prod.splits)
     (metis mmap_load_keeps snd_conv)

lemma load_log:
  "busLog (snd (load e a s)) = busLog s @ [busEntry BusRead a (fst (load e a s))]"
  by (simp add: load_def Let_def logCycle_def busEntry_def split: prod.splits)
     (metis loadFromCartridge_keeps ppuCatchUp_keeps(1) snd_conv)

lemma mmap_write_ram:
  "a < 0x2000 \<Longrightarrow>
   mmap_write e a v s = s\<lparr>cpu := (cpu s)\<lparr>mem := (mem (cpu s))(a AND 0x7FF := v)\<rparr>\<rparr>"
  by (simp add: mmap_write_def)

text \<open>
  \<^verbatim>\<open>CPU.write\<close> is a write cycle through the mapper: for an address below \<open>0x2000\<close> it stores
  into RAM what \<^verbatim>\<open>Mapper0.write\<close> would store there.
\<close>

lemma write_cpu_mapper: "write_cpu e a v s = mapperWriteCycle e a v s"
proof (cases "a < 0x2000")
  case True
  then show ?thesis
    by (simp add: write_cpu_def mapperWriteCycle_def mmap_write_ram Let_def)
next
  case False
  then show ?thesis
    by (simp add: write_cpu_def mapperWriteCycle_def Let_def)
qed

lemma mapperWriteCycle_log:
  "busLog (mapperWriteCycle e a v s) = busLog s @ [busEntry BusWrite a v]"
  by (simp add: mapperWriteCycle_def Let_def logCycle_def busEntry_def)

lemma flagsOnly_refl: "flagsOnly c c"
  by (simp add: flagsOnly_def)

lemma rmwWrites_full:
  "flagsOnly (cpu (mapperWriteCycle e addr v s)) c1 \<Longrightarrow>
   flagsOnly (cpu (mapperWriteCycle e addr m ((mapperWriteCycle e addr v s)\<lparr>cpu := c1\<rparr>))) c2 \<Longrightarrow>
   rmwWrites e addr v s m
     ((mapperWriteCycle e addr m ((mapperWriteCycle e addr v s)\<lparr>cpu := c1\<rparr>))\<lparr>cpu := c2\<rparr>)"
  unfolding rmwWrites_def by blast

lemma rmwWrites_nofin:
  "flagsOnly (cpu (mapperWriteCycle e addr v s)) c1 \<Longrightarrow>
   rmwWrites e addr v s m (mapperWriteCycle e addr m ((mapperWriteCycle e addr v s)\<lparr>cpu := c1\<rparr>))"
  unfolding rmwWrites_def
  by (rule exI[of _ c1],
      rule exI[of _ "cpu (mapperWriteCycle e addr m ((mapperWriteCycle e addr v s)\<lparr>cpu := c1\<rparr>))"])
     (simp add: flagsOnly_refl)

lemma rmwWrites_nomid:
  "flagsOnly (cpu (mapperWriteCycle e addr m (mapperWriteCycle e addr v s))) c2 \<Longrightarrow>
   rmwWrites e addr v s m ((mapperWriteCycle e addr m (mapperWriteCycle e addr v s))\<lparr>cpu := c2\<rparr>)"
  unfolding rmwWrites_def
  by (rule exI[of _ "cpu (mapperWriteCycle e addr v s)"], rule exI[of _ c2])
     (simp add: flagsOnly_refl)

lemma byte_and: "0 \<le> v \<Longrightarrow> v < 256 \<Longrightarrow> v AND 255 = (v::int)"
  using and_mask_int[of v 8] by simp

text \<open>What the same steps leave alone as well: the carry flag.\<close>

lemma setStatusFlag_carry [simp]: "F_CARRY (setStatusFlag f v c) = F_CARRY c"
  by (simp add: setStatusFlag_def Let_def)

lemma requestIrq_carry [simp]: "F_CARRY (requestIrq ty c) = F_CARRY c"
  by (simp add: requestIrq_def)

lemma haltCycles_carry [simp]: "F_CARRY (haltCycles n c) = F_CARRY c"
  by (simp add: haltCycles_def)

lemma serve_request_carry [simp]: "F_CARRY (serve_request r c) = F_CARRY c"
  by (simp add: serve_request_def haltCycles_def Let_def)

lemma endScanline_carry [simp]: "F_CARRY (cpu (endScanline e s)) = F_CARRY (cpu s)"
  by (simp add: endScanline_def Let_def split: prod.splits)

lemma startVBlank_carry [simp]: "F_CARRY (cpu (startVBlank s)) = F_CARRY (cpu s)"
  by (simp add: startVBlank_def Let_def)

lemma ppuDot_carry [simp]: "F_CARRY (cpu (snd (ppuDot e s))) = F_CARRY (cpu s)"
  by (simp add: ppuDot_def Let_def)

lemma ppuCatchUp_loop_carry [simp]:
  "F_CARRY (cpu (ppuCatchUp_loop e n s)) = F_CARRY (cpu s)"
  by (induction n arbitrary: s; simp add: Let_def split: prod.splits;
      metis ppuDot_carry snd_conv)

lemma ppuCatchUp_carry [simp]: "F_CARRY (cpu (ppuCatchUp e s)) = F_CARRY (cpu s)"
  by (simp add: ppuCatchUp_def)

lemma regWrite_carry [simp]: "F_CARRY (cpu (regWrite e a v s)) = F_CARRY (cpu s)"
  by (simp add: regWrite_def Let_def split: prod.splits)

lemma mmap_write_carry [simp]: "F_CARRY (cpu (mmap_write e a v s)) = F_CARRY (cpu s)"
  by (simp add: mmap_write_def)

lemma regLoad_carry [simp]: "F_CARRY (cpu (snd (regLoad e a s))) = F_CARRY (cpu s)"
  by (simp add: regLoad_def readStatusRegister_def Let_def split: prod.splits option.splits)

lemma mmap_load_carry [simp]: "F_CARRY (cpu (snd (mmap_load e a s))) = F_CARRY (cpu s)"
  by (simp add: mmap_load_def Let_def)

lemma loadFromCartridge_carry [simp]:
  "F_CARRY (cpu (snd (loadFromCartridge e a s))) = F_CARRY (cpu s)"
  by (simp add: loadFromCartridge_def Let_def split: prod.splits)
     (metis mmap_load_carry snd_conv)

lemma load_carry [simp]: "F_CARRY (cpu (snd (load e a s))) = F_CARRY (cpu s)"
  by (simp add: load_def Let_def logCycle_def split: prod.splits)
     (metis loadFromCartridge_carry ppuCatchUp_carry snd_conv)

lemma mapperWriteCycle_carry [simp]:
  "F_CARRY (cpu (mapperWriteCycle e a v s)) = F_CARRY (cpu s)"
  by (simp add: mapperWriteCycle_def Let_def logCycle_def)

lemma carry_kept:
  assumes "load e addr (indexedDummyRead e addrMode cycleAdd addr s) = (v, s1)"
  shows "F_CARRY (cpu (mapperWriteCycle e addr w s1)) = F_CARRY (cpu s)"
proof -
  have "s1 = snd (load e addr (indexedDummyRead e addrMode cycleAdd addr s))"
    using assms by simp
  then show ?thesis by (simp add: indexedDummyRead_def)
qed

text \<open>The arithmetic of the code on a byte, in the terms of \<open>rmwModified\<close>.\<close>

lemma and_255_mod: "(x::int) AND 255 = x mod 256"
  using and_mask_int[of x 8] by simp

lemma ins_ASL_rmw:
  assumes "addrMode \<noteq> 4"
    and "load e addr (indexedDummyRead e addrMode cycleAdd addr s) = (v, s1)"
  shows "rmwWrites e addr v s1 (rmwModified 2 v (F_CARRY (cpu s)))
           (ins_ASL e addrMode cycleAdd addr s)"
proof -
  have "rmwWrites e addr v s1 (push_bit 1 v AND 255) (ins_ASL e addrMode cycleAdd addr s)"
    apply (simp add: ins_ASL_def Let_def write_cpu_mapper assms split del: if_split)
    apply (rule rmwWrites_full rmwWrites_nofin rmwWrites_nomid)
    apply (simp_all add: flagsOnly_def)
    done
  moreover have "push_bit 1 v AND 255 = rmwModified 2 v (F_CARRY (cpu s))"
    by (simp add: rmwModified_def and_255_mod bit_arith mult.commute)
  ultimately show ?thesis by simp
qed

lemma ins_DEC_rmw:
  assumes "load e addr (indexedDummyRead e addrMode cycleAdd addr s) = (v, s1)"
  shows "rmwWrites e addr v s1 (rmwModified 20 v (F_CARRY (cpu s)))
           (ins_DEC e addrMode cycleAdd addr s)"
proof -
  have "rmwWrites e addr v s1 ((v - 1) AND 0xFF) (ins_DEC e addrMode cycleAdd addr s)"
    apply (simp add: ins_DEC_def Let_def write_cpu_mapper assms split del: if_split)
    apply (rule rmwWrites_full rmwWrites_nofin rmwWrites_nomid)
    apply (simp_all add: flagsOnly_def)
    done
  moreover have "(v - 1) AND 0xFF = rmwModified 20 v (F_CARRY (cpu s))"
    by (simp add: rmwModified_def and_255_mod bit_arith mult.commute)
  ultimately show ?thesis by simp
qed

lemma ins_INC_rmw:
  assumes "load e addr (indexedDummyRead e addrMode cycleAdd addr s) = (v, s1)"
  shows "rmwWrites e addr v s1 (rmwModified 24 v (F_CARRY (cpu s)))
           (ins_INC e addrMode cycleAdd addr s)"
proof -
  have "rmwWrites e addr v s1 ((v + 1) AND 0xFF) (ins_INC e addrMode cycleAdd addr s)"
    apply (simp add: ins_INC_def Let_def write_cpu_mapper assms split del: if_split)
    apply (rule rmwWrites_full rmwWrites_nofin rmwWrites_nomid)
    apply (simp_all add: flagsOnly_def)
    done
  moreover have "(v + 1) AND 0xFF = rmwModified 24 v (F_CARRY (cpu s))"
    by (simp add: rmwModified_def and_255_mod bit_arith mult.commute)
  ultimately show ?thesis by simp
qed

lemma ins_DCP_rmw:
  assumes "load e addr (indexedDummyRead e addrMode cycleAdd addr s) = (v, s1)"
  shows "rmwWrites e addr v s1 (rmwModified 62 v (F_CARRY (cpu s)))
           (ins_DCP e addrMode cycleAdd addr s)"
proof -
  have "rmwWrites e addr v s1 ((v - 1) AND 0xFF) (ins_DCP e addrMode cycleAdd addr s)"
    apply (simp add: ins_DCP_def Let_def write_cpu_mapper assms split del: if_split)
    apply (rule rmwWrites_full rmwWrites_nofin rmwWrites_nomid)
    apply (simp_all add: flagsOnly_def)
    done
  moreover have "(v - 1) AND 0xFF = rmwModified 62 v (F_CARRY (cpu s))"
    by (simp add: rmwModified_def and_255_mod bit_arith mult.commute)
  ultimately show ?thesis by simp
qed

lemma ins_ISC_rmw:
  assumes "load e addr (indexedDummyRead e addrMode cycleAdd addr s) = (v, s1)"
  shows "rmwWrites e addr v s1 (rmwModified 63 v (F_CARRY (cpu s)))
           (ins_ISC e addrMode cycleAdd addr s)"
proof -
  have "rmwWrites e addr v s1 ((v + 1) AND 0xFF) (ins_ISC e addrMode cycleAdd addr s)"
    apply (simp add: ins_ISC_def Let_def write_cpu_mapper assms split del: if_split)
    apply (rule rmwWrites_full rmwWrites_nofin rmwWrites_nomid)
    apply (simp_all add: flagsOnly_def)
    done
  moreover have "(v + 1) AND 0xFF = rmwModified 63 v (F_CARRY (cpu s))"
    by (simp add: rmwModified_def and_255_mod bit_arith mult.commute)
  ultimately show ?thesis by simp
qed

lemma ins_RLA_rmw:
  assumes "load e addr (indexedDummyRead e addrMode cycleAdd addr s) = (v, s1)"
  shows "rmwWrites e addr v s1 (rmwModified 64 v (F_CARRY (cpu s)))
           (ins_RLA e addrMode cycleAdd addr s)"
proof -
  have "rmwWrites e addr v s1 ((push_bit 1 v AND 0xFF) + F_CARRY (cpu (mapperWriteCycle e addr v s1))) (ins_RLA e addrMode cycleAdd addr s)"
    apply (simp add: ins_RLA_def Let_def write_cpu_mapper assms split del: if_split)
    apply (rule rmwWrites_full rmwWrites_nofin rmwWrites_nomid)
    apply (simp_all add: flagsOnly_def)
    done
  moreover have "(push_bit 1 v AND 0xFF) + F_CARRY (cpu (mapperWriteCycle e addr v s1)) = rmwModified 64 v (F_CARRY (cpu s))"
    using carry_kept[OF assms(1), of v]
    by (simp add: rmwModified_def and_255_mod bit_arith mult.commute)
  ultimately show ?thesis by simp
qed

lemma ins_RRA_rmw:
  assumes "load e addr (indexedDummyRead e addrMode cycleAdd addr s) = (v, s1)"
  shows "rmwWrites e addr v s1 (rmwModified 65 v (F_CARRY (cpu s)))
           (ins_RRA e addrMode cycleAdd addr s)"
proof -
  have "rmwWrites e addr v s1 (drop_bit 1 v + push_bit 7 (F_CARRY (cpu (mapperWriteCycle e addr v s1)))) (ins_RRA e addrMode cycleAdd addr s)"
    apply (simp add: ins_RRA_def Let_def write_cpu_mapper assms split del: if_split)
    apply (rule rmwWrites_full rmwWrites_nofin rmwWrites_nomid)
    apply (simp_all add: flagsOnly_def)
    done
  moreover have "drop_bit 1 v + push_bit 7 (F_CARRY (cpu (mapperWriteCycle e addr v s1))) = rmwModified 65 v (F_CARRY (cpu s))"
    using carry_kept[OF assms(1), of v]
    by (simp add: rmwModified_def and_255_mod bit_arith mult.commute)
  ultimately show ?thesis by simp
qed

lemma ins_SLO_rmw:
  assumes "load e addr (indexedDummyRead e addrMode cycleAdd addr s) = (v, s1)"
  shows "rmwWrites e addr v s1 (rmwModified 66 v (F_CARRY (cpu s)))
           (ins_SLO e addrMode cycleAdd addr s)"
proof -
  have "rmwWrites e addr v s1 (push_bit 1 v AND 255) (ins_SLO e addrMode cycleAdd addr s)"
    apply (simp add: ins_SLO_def Let_def write_cpu_mapper assms split del: if_split)
    apply (rule rmwWrites_full rmwWrites_nofin rmwWrites_nomid)
    apply (simp_all add: flagsOnly_def)
    done
  moreover have "push_bit 1 v AND 255 = rmwModified 66 v (F_CARRY (cpu s))"
    by (simp add: rmwModified_def and_255_mod bit_arith mult.commute)
  ultimately show ?thesis by simp
qed

lemma ins_ROL_rmw:
  assumes "addrMode \<noteq> 4"
    and "load e addr (indexedDummyRead e addrMode cycleAdd addr s) = (v, s1)"
  shows "rmwWrites e addr v s1 (rmwModified 39 v (F_CARRY (cpu s)))
           (ins_ROL e addrMode cycleAdd addr s)"
proof -
  have "rmwWrites e addr v s1 ((push_bit 1 v AND 0xFF) + F_CARRY (cpu (mapperWriteCycle e addr v s1))) (ins_ROL e addrMode cycleAdd addr s)"
    apply (simp add: ins_ROL_def Let_def write_cpu_mapper assms split del: if_split)
    apply (rule rmwWrites_full rmwWrites_nofin rmwWrites_nomid)
    apply (simp_all add: flagsOnly_def)
    done
  moreover have "(push_bit 1 v AND 0xFF) + F_CARRY (cpu (mapperWriteCycle e addr v s1)) = rmwModified 39 v (F_CARRY (cpu s))"
    using carry_kept[OF assms(2), of v]
    by (simp add: rmwModified_def and_255_mod bit_arith mult.commute)
  ultimately show ?thesis by simp
qed

lemma ins_ROR_rmw:
  assumes "addrMode \<noteq> 4"
    and "load e addr (indexedDummyRead e addrMode cycleAdd addr s) = (v, s1)"
  shows "rmwWrites e addr v s1 (rmwModified 40 v (F_CARRY (cpu s)))
           (ins_ROR e addrMode cycleAdd addr s)"
proof -
  have "rmwWrites e addr v s1 (drop_bit 1 v + push_bit 7 (F_CARRY (cpu (mapperWriteCycle e addr v s1)))) (ins_ROR e addrMode cycleAdd addr s)"
    apply (simp add: ins_ROR_def Let_def write_cpu_mapper assms split del: if_split)
    apply (rule rmwWrites_full rmwWrites_nofin rmwWrites_nomid)
    apply (simp_all add: flagsOnly_def)
    done
  moreover have "drop_bit 1 v + push_bit 7 (F_CARRY (cpu (mapperWriteCycle e addr v s1))) = rmwModified 40 v (F_CARRY (cpu s))"
    using carry_kept[OF assms(2), of v]
    by (simp add: rmwModified_def and_255_mod bit_arith mult.commute)
  ultimately show ?thesis by simp
qed

lemma ins_LSR_rmw:
  assumes "addrMode \<noteq> 4"
    and "load e addr (indexedDummyRead e addrMode cycleAdd addr s) = (v, s1)"
    and "0 \<le> v" and "v < 256"
  shows "rmwWrites e addr v s1 (rmwModified 32 v (F_CARRY (cpu s)))
           (ins_LSR e addrMode cycleAdd addr s)"
proof -
  have "rmwWrites e addr v s1 (drop_bit 1 v AND 127) (ins_LSR e addrMode cycleAdd addr s)"
    apply (simp add: ins_LSR_def Let_def write_cpu_mapper assms byte_and split del: if_split)
    apply (rule rmwWrites_full rmwWrites_nofin rmwWrites_nomid)
    apply (simp_all add: flagsOnly_def)
    done
  moreover have "drop_bit 1 v AND 127 = rmwModified 32 v (F_CARRY (cpu s))"
    using assms and_mask_int[of "v div 2" 7]
    by (simp add: rmwModified_def bit_arith)
  ultimately show ?thesis by simp
qed

lemma ins_SRE_rmw:
  assumes "load e addr (indexedDummyRead e addrMode cycleAdd addr s) = (v, s1)"
    and "0 \<le> v" and "v < 256"
  shows "rmwWrites e addr v s1 (rmwModified 67 v (F_CARRY (cpu s)))
           (ins_SRE e addrMode cycleAdd addr s)"
proof -
  have "rmwWrites e addr v s1 (drop_bit 1 v AND 127) (ins_SRE e addrMode cycleAdd addr s)"
    apply (simp add: ins_SRE_def Let_def write_cpu_mapper assms byte_and split del: if_split)
    apply (rule rmwWrites_full rmwWrites_nofin rmwWrites_nomid)
    apply (simp_all add: flagsOnly_def)
    done
  moreover have "drop_bit 1 v AND 127 = rmwModified 67 v (F_CARRY (cpu s))"
    using assms and_mask_int[of "v div 2" 7]
    by (simp add: rmwModified_def bit_arith)
  ultimately show ?thesis by simp
qed

lemma rmwWrites_log:
  "rmwWrites e addr v s1 m t \<Longrightarrow>
   busLog t = busLog s1 @ [busEntry BusWrite addr v, busEntry BusWrite addr m]"
  unfolding rmwWrites_def by (auto simp: mapperWriteCycle_log)

lemma indexedDummyRead_log:
  "busLog (indexedDummyRead e addrMode cycleAdd addr s) =
     busLog s @ (if cycleAdd = 0 \<and> (addrMode = 8 \<or> addrMode = 9 \<or> addrMode = 11)
                 then [busEntry BusRead addr (fst (load e addr s))] else [])"
  by (simp add: indexedDummyRead_def load_log)

lemma execute_rmw:
  assumes "inst \<in> rmwInstructions" and "addrMode \<noteq> 4"
    and "load e addr (indexedDummyRead e addrMode cycleAdd addr s) = (v, s1)"
    and "0 \<le> v" and "v < 256"
  shows "\<exists>t. execute e inst addrMode opaddr addr cycleAdd baseHigh cycleCount s
                  = Inr (Some cycleCount, t)
             \<and> rmwWrites e addr v s1 (rmwModified inst v (F_CARRY (cpu s))) t"
  using assms(1) unfolding rmwInstructions_def
  apply (elim insertE emptyE)
  apply (simp_all add: execute_def
      ins_ASL_rmw[OF assms(2,3)] ins_DEC_rmw[OF assms(3)] ins_INC_rmw[OF assms(3)]
      ins_LSR_rmw[OF assms(2,3,4,5)] ins_ROL_rmw[OF assms(2,3)] ins_ROR_rmw[OF assms(2,3)]
      ins_DCP_rmw[OF assms(3)] ins_ISC_rmw[OF assms(3)] ins_RLA_rmw[OF assms(3)]
      ins_RRA_rmw[OF assms(3)] ins_SLO_rmw[OF assms(3)] ins_SRE_rmw[OF assms(3,4,5)])
  done

text \<open>
  Claim C6. A read-modify-write instruction (ASL, DEC, INC, LSR, ROL, ROR, DCP, ISC, RLA,
  RRA, SLO or SRE) with a memory operand, which has read the byte \<open>v\<close> at the effective
  address, writes \<open>v\<close> back to that address and then writes the modified byte there: the byte
  \<open>rmwModified inst v c\<close> that the instruction makes of \<open>v\<close>, with \<open>c\<close> the carry flag before the
  instruction. Both writes are write cycles that set the data bus and go to the mapper, and
  between and after them only flags and the accumulator change. The bus cycles of the
  instruction at the effective address are, in this order: for the indexed modes 8, 9 and
  11 when no page was crossed a dummy read; the read of \<open>v\<close>; the write of \<open>v\<close>; the write of
  the modified byte; and each leaves its byte on the data bus. \<open>v\<close> is a byte, from 0 to 255.
\<close>

theorem rmw_bus_pattern:
  assumes "inst \<in> rmwInstructions" and "addrMode \<noteq> 4"
    and "load e addr (indexedDummyRead e addrMode cycleAdd addr s) = (v, s1)"
    and "0 \<le> v" and "v < 256"
  shows "\<exists>t. execute e inst addrMode opaddr addr cycleAdd baseHigh cycleCount s
                  = Inr (Some cycleCount, t)
             \<and> rmwWrites e addr v s1 (rmwModified inst v (F_CARRY (cpu s))) t
             \<and> busLog t = busLog s
                  @ (if cycleAdd = 0 \<and> (addrMode = 8 \<or> addrMode = 9 \<or> addrMode = 11)
                     then [busEntry BusRead addr (fst (load e addr s))] else [])
                  @ [busEntry BusRead addr v, busEntry BusWrite addr v,
                     busEntry BusWrite addr (rmwModified inst v (F_CARRY (cpu s)))]"
proof -
  from execute_rmw[OF assms] obtain t where
    x: "execute e inst addrMode opaddr addr cycleAdd baseHigh cycleCount s = Inr (Some cycleCount, t)"
    and w: "rmwWrites e addr v s1 (rmwModified inst v (F_CARRY (cpu s))) t" by blast
  have "busLog s1 = busLog (indexedDummyRead e addrMode cycleAdd addr s) @ [busEntry BusRead addr v]"
    using load_log[of e addr "indexedDummyRead e addrMode cycleAdd addr s"] assms(3) by simp
  then have "busLog t = busLog s
       @ (if cycleAdd = 0 \<and> (addrMode = 8 \<or> addrMode = 9 \<or> addrMode = 11)
          then [busEntry BusRead addr (fst (load e addr s))] else [])
       @ [busEntry BusRead addr v, busEntry BusWrite addr v,
          busEntry BusWrite addr (rmwModified inst v (F_CARRY (cpu s)))]"
    using rmwWrites_log[OF w] by (simp add: indexedDummyRead_log)
  with x w show ?thesis by blast
qed

text \<open>
  An example: \<^verbatim>\<open>INC $0010,X\<close> with \<open>X = 0\<close> on the console at power-on, where the RAM cell
  holds \<open>0xFF\<close>: the byte written last is 0.
\<close>

lemma load_ram:
  "a < 0x2000 \<Longrightarrow>
   load e a s = (mem (cpu s) (a AND 0x7FF),
                 logCycle BusRead a (mem (cpu s) (a AND 0x7FF))
                   (s\<lparr>cpu := (cpu s)\<lparr>dataBus := mem (cpu s) (a AND 0x7FF),
                                       instrBusCycles := instrBusCycles (cpu s) + 1\<rparr>\<rparr>))"
  by (simp add: load_def Let_def)

lemma console_ram_10:
  "mem (cpu (console rom)) 0x10 = 0xFF" "busLog (console rom) = []"
  by (simp_all add: console_def with_rom_def cpu_reset_def setStatus_def reset_mem_def)

theorem rmw_bus_pattern_witness:
  "\<exists>t. execute env0 24 8 0x7FFF 0x10 0 0 7 (console (\<lambda>i. 0)) = Inr (Some 7, t)
      \<and> rmwWrites env0 0x10 0xFF
            (snd (load env0 0x10 (snd (load env0 0x10 (console (\<lambda>i. 0)))))) 0 t
      \<and> busLog t = [busEntry BusRead 0x10 0xFF, busEntry BusRead 0x10 0xFF,
                      busEntry BusWrite 0x10 0xFF, busEntry BusWrite 0x10 0]"
proof -
  have i: "(24::int) \<in> rmwInstructions" by (simp add: rmwInstructions_def)
  have m: "(8::int) \<noteq> 4" by simp
  have l: "load env0 0x10 (indexedDummyRead env0 8 0 0x10 (console (\<lambda>i. 0)))
             = (0xFF, snd (load env0 0x10 (snd (load env0 0x10 (console (\<lambda>i. 0))))))"
    by (simp add: indexedDummyRead_def load_ram logCycle_def console_ram_10)
  have b: "(0::int) \<le> 0xFF" "(0xFF::int) < 256" by simp_all
  from rmw_bus_pattern[OF i m l b, of "0x7FFF" 0 7]
  show ?thesis by (simp add: load_ram console_ram_10 rmwModified_def)
qed


end
